theory Spec2Isabelle
  imports Complex_Main "HOL-Library.AList"
begin

section \<open>JavaScript strings\<close>

text \<open>
  A JavaScript string is a sequence of UTF-16 code units. A code unit is modelled by its
  numeric value, so that the non-ASCII markers the scripts look for (U+4E07, U+4EBF,
  U+8D5E) are single elements, as they are for \<^verbatim>\<open>includes\<close>, \<^verbatim>\<open>replace\<close>
  and the regular expressions of the source. ASCII literals are written through \<open>ascii\<close>.
\<close>

type_synonym jschar = nat
type_synonym jsstring = "jschar list"

definition ascii :: "string \<Rightarrow> jsstring" where
  "ascii s = map of_char s"

definition ch_wan :: jschar where "ch_wan = 19975"
definition ch_yi :: jschar where "ch_yi = 20159"
definition ch_zan :: jschar where "ch_zan = 36190"
definition ch_xue :: jschar where "ch_xue = 23398"
definition ch_xi :: jschar where "ch_xi = 20064"
definition ch_zuo :: jschar where "ch_zuo = 20316"
definition ch_zhe :: jschar where "ch_zhe = 32773"

definition ch_hash :: jschar where "ch_hash = 35"
definition ch_plus :: jschar where "ch_plus = 43"
definition ch_comma :: jschar where "ch_comma = 44"
definition ch_minus :: jschar where "ch_minus = 45"
definition ch_dot :: jschar where "ch_dot = 46"
definition ch_slash :: jschar where "ch_slash = 47"
definition ch_semi :: jschar where "ch_semi = 59"
definition ch_eq :: jschar where "ch_eq = 61"
definition ch_quest :: jschar where "ch_quest = 63"

text \<open>
  The characters \<^verbatim>\<open>String.prototype.trim\<close>, the \<^verbatim>\<open>\s\<close> class and the
  number parsers treat as white space: WhiteSpace and LineTerminator of ECMAScript.
\<close>

definition is_ws :: "jschar \<Rightarrow> bool" where
  "is_ws c \<longleftrightarrow>
     c = 9 \<or> c = 10 \<or> c = 11 \<or> c = 12 \<or> c = 13 \<or> c = 32 \<or> c = 160 \<or> c = 5760 \<or>
     (8192 \<le> c \<and> c \<le> 8202) \<or> c = 8232 \<or> c = 8233 \<or> c = 8239 \<or> c = 8287 \<or>
     c = 12288 \<or> c = 65279"

definition is_digit :: "jschar \<Rightarrow> bool" where
  "is_digit c \<longleftrightarrow> 48 \<le> c \<and> c \<le> 57"

definition trim :: "jsstring \<Rightarrow> jsstring" where
  "trim s = rev (dropWhile is_ws (rev (dropWhile is_ws s)))"

fun startsWith :: "jsstring \<Rightarrow> jsstring \<Rightarrow> bool" where
  "startsWith s [] = True"
| "startsWith [] (p # ps) = False"
| "startsWith (c # s) (p # ps) = (c = p \<and> startsWith s ps)"

fun includes_str :: "jsstring \<Rightarrow> jsstring \<Rightarrow> bool" where
  "includes_str [] p = (p = [])"
| "includes_str (c # s) p = (startsWith (c # s) p \<or> includes_str s p)"

text \<open>\<^verbatim>\<open>s.replace(p, r)\<close> with a string pattern: the first occurrence only.\<close>

fun replace_str :: "jsstring \<Rightarrow> jsstring \<Rightarrow> jsstring \<Rightarrow> jsstring" where
  "replace_str [] p r = (if p = [] then r else [])"
| "replace_str (c # s) p r =
     (if startsWith (c # s) p then r @ drop (length p) (c # s)
      else c # replace_str s p r)"

text \<open>\<^verbatim>\<open>s.replace(/,/g, '')\<close> and \<^verbatim>\<open>s.replace(/\s+/g, '')\<close>.\<close>

definition remove_commas :: "jsstring \<Rightarrow> jsstring" where
  "remove_commas s = filter (\<lambda>c. c \<noteq> ch_comma) s"

definition remove_ws :: "jsstring \<Rightarrow> jsstring" where
  "remove_ws s = filter (\<lambda>c. \<not> is_ws c) s"

text \<open>
  \<^verbatim>\<open>s.split(c)\<close> for a one-character separator: always at least one piece,
  the empty string giving one empty piece.
\<close>

fun split_chr :: "jschar \<Rightarrow> jsstring \<Rightarrow> jsstring list" where
  "split_chr sep [] = [[]]"
| "split_chr sep (c # s) =
     (if c = sep then [] # split_chr sep s
      else (case split_chr sep s of
              [] \<Rightarrow> [[c]]
            | p # ps \<Rightarrow> (c # p) # ps))"

section \<open>JavaScript numbers\<close>

text \<open>
  A Number is NaN, an infinity or a finite value. Finite values are kept as exact
  rationals: the rounding of a double to 53 bits, the underflow of tiny values to zero
  and the sign of zero are not modelled (\<open>-0\<close> is \<open>Fin 0\<close>, falsy like \<open>+0\<close>); the
  overflow of the double range to an infinity is. Rounding maps an integer to an
  integer, so what is proved below about integrality does not depend on it.
\<close>

datatype jsnum = NaN | PosInf | NegInf | Fin rat

definition dbl_overflow :: rat where
  "dbl_overflow = 2 ^ 1024 - 2 ^ 970"

definition to_number :: "rat \<Rightarrow> jsnum" where
  "to_number x =
     (if dbl_overflow \<le> x then PosInf
      else if x \<le> - dbl_overflow then NegInf
      else Fin x)"

definition sgn_inf :: "bool \<Rightarrow> jsnum" where
  "sgn_inf pos = (if pos then PosInf else NegInf)"

fun num_times :: "jsnum \<Rightarrow> jsnum \<Rightarrow> jsnum" where
  "num_times (Fin a) (Fin b) = to_number (a * b)"
| "num_times (Fin a) PosInf = (if a = 0 then NaN else sgn_inf (0 < a))"
| "num_times (Fin a) NegInf = (if a = 0 then NaN else sgn_inf (a < 0))"
| "num_times PosInf (Fin b) = (if b = 0 then NaN else sgn_inf (0 < b))"
| "num_times NegInf (Fin b) = (if b = 0 then NaN else sgn_inf (b < 0))"
| "num_times PosInf PosInf = PosInf"
| "num_times PosInf NegInf = NegInf"
| "num_times NegInf PosInf = NegInf"
| "num_times NegInf NegInf = PosInf"
| "num_times NaN y = NaN"
| "num_times x NaN = NaN"

text \<open>Truthiness of a number, and \<^verbatim>\<open>a || b\<close> on numbers.\<close>

definition truthy_num :: "jsnum \<Rightarrow> bool" where
  "truthy_num n \<longleftrightarrow> n \<noteq> NaN \<and> n \<noteq> Fin 0"

definition num_or :: "jsnum \<Rightarrow> jsnum \<Rightarrow> jsnum" where
  "num_or a b = (if truthy_num a then a else b)"

text \<open>\<^verbatim>\<open>Number.isInteger\<close>.\<close>

fun is_integer :: "jsnum \<Rightarrow> bool" where
  "is_integer (Fin r) = (of_int \<lfloor>r\<rfloor> = r)"
| "is_integer x = False"

definition digits_value :: "jsstring \<Rightarrow> nat" where
  "digits_value ds = foldl (\<lambda>a d. 10 * a + (d - 48)) 0 ds"

text \<open>
  \<^verbatim>\<open>parseInt(s, 10)\<close>: leading white space is skipped, one sign is read, then the
  longest run of decimal digits; no digit gives NaN.
\<close>

definition parseInt10 :: "jsstring \<Rightarrow> jsnum" where
  "parseInt10 s =
     (let t = dropWhile is_ws s;
          neg = (t \<noteq> [] \<and> hd t = ch_minus);
          u = (if t \<noteq> [] \<and> (hd t = ch_minus \<or> hd t = ch_plus) then tl t else t);
          z = takeWhile is_digit u
      in if z = [] then NaN
         else to_number (if neg then - of_nat (digits_value z) else of_nat (digits_value z)))"

text \<open>
  \<^verbatim>\<open>parseFloat(s)\<close>: leading white space is skipped, then the longest prefix that is
  a StrDecimalLiteral is read: an optional sign, then \<^verbatim>\<open>Infinity\<close> or a decimal
  mantissa (digits, optionally a dot and digits; or a dot and at least one digit) with an
  optional exponent part. No such prefix gives NaN.
\<close>

definition exponent_part :: "jsstring \<Rightarrow> int" where
  "exponent_part r =
     (if r \<noteq> [] \<and> (hd r = 101 \<or> hd r = 69) then
        (let r1 = tl r;
             eneg = (r1 \<noteq> [] \<and> hd r1 = ch_minus);
             r2 = (if r1 \<noteq> [] \<and> (hd r1 = ch_minus \<or> hd r1 = ch_plus) then tl r1 else r1);
             ed = takeWhile is_digit r2
         in if ed = [] then 0
            else if eneg then - int (digits_value ed) else int (digits_value ed))
      else 0)"

definition pow10 :: "int \<Rightarrow> rat" where
  "pow10 e = (if 0 \<le> e then 10 ^ nat e else 1 / 10 ^ nat (- e))"

definition parseFloat :: "jsstring \<Rightarrow> jsnum" where
  "parseFloat s =
     (let t = dropWhile is_ws s;
          neg = (t \<noteq> [] \<and> hd t = ch_minus);
          u = (if t \<noteq> [] \<and> (hd t = ch_minus \<or> hd t = ch_plus) then tl t else t)
      in if startsWith u (ascii ''Infinity'') then sgn_inf (\<not> neg)
         else
           (let ip = takeWhile is_digit u;
                r1 = dropWhile is_digit u;
                dot = (r1 \<noteq> [] \<and> hd r1 = ch_dot);
                fp = (if dot then takeWhile is_digit (tl r1) else []);
                r2 = (if dot then dropWhile is_digit (tl r1) else r1)
            in if ip = [] \<and> fp = [] then NaN
               else
                 (let m = of_nat (digits_value (ip @ fp)) / 10 ^ length fp * pow10 (exponent_part r2)
                  in to_number (if neg then - m else m))))"

subsection \<open>The numeric normalizer of the Weibo extractor\<close>

definition parseNumberWithUnit :: "jsstring \<Rightarrow> jsnum" where
  "parseNumberWithUnit text =
     (if text = [] then Fin 0
      else if includes_str text [ch_wan] then
        num_times (parseFloat (replace_str text [ch_wan] [])) (Fin 10000)
      else if includes_str text [ch_yi] then
        num_times (parseFloat (replace_str text [ch_yi] [])) (Fin 100000000)
      else num_or (parseInt10 (remove_commas text)) (Fin 0))"

section \<open>The session initializer: cookie strings\<close>

text \<open>
  The value of a property of the parsed object: the declared type is a string, at run
  time the array destructuring leaves \<^verbatim>\<open>undefined\<close> where the array is too short.
\<close>

datatype jsval = Undefined | Str jsstring

text \<open>
  A plain object as its own properties in insertion order (\<open>AList.update\<close> overwrites
  in place and appends a new key). Integer-like keys, which JavaScript enumerates first,
  are not reordered: nothing below depends on the order of the entries. An assignment to
  the key \<^verbatim>\<open>__proto__\<close> with a string or \<^verbatim>\<open>undefined\<close> is the inherited setter
  and creates no property.
\<close>

type_synonym jsobject = "(jsstring \<times> jsval) list"

definition obj_set :: "jsobject \<Rightarrow> jsstring \<Rightarrow> jsval \<Rightarrow> jsobject" where
  "obj_set acc k v = (if k = ascii ''__proto__'' then acc else AList.update k v acc)"

text \<open>\<^verbatim>\<open>const [key, value] = parts\<close>, and the property key of \<^verbatim>\<open>acc[key]\<close>.\<close>

fun destructure2 :: "jsstring list \<Rightarrow> jsval \<times> jsval" where
  "destructure2 [] = (Undefined, Undefined)"
| "destructure2 [a] = (Str a, Undefined)"
| "destructure2 (a # b # rest) = (Str a, Str b)"

fun prop_key :: "jsval \<Rightarrow> jsstring" where
  "prop_key (Str s) = s"
| "prop_key Undefined = ascii ''undefined''"

definition parseCookieString :: "jsstring \<Rightarrow> jsobject" where
  "parseCookieString cookieString =
     foldl (\<lambda>acc pair.
              (case destructure2 (split_chr ch_eq pair) of
                 (key, val) \<Rightarrow> obj_set acc (prop_key key) val))
           []
           (map trim (split_chr ch_semi cookieString))"

section \<open>The rendered document\<close>

text \<open>
  An element is what the extraction routines read of it: its text, its attributes, its
  serialisation, the descendants a selector matches (in document order), the closest
  ancestor matching a selector, and its parent. A document is the elements each selector
  matches, in document order. Selectors are the literal strings of the source.
\<close>

datatype element = Element
  (textContent: "jsstring option")
  (getAttribute: "jsstring \<Rightarrow> jsstring option")
  (outerHTML: jsstring)
  (querySelectorAll: "jsstring \<Rightarrow> element list")
  (closest: "jsstring \<Rightarrow> element option")
  (parentElement: "element option")

type_synonym document = "jsstring \<Rightarrow> element list"

definition first_of :: "element list \<Rightarrow> element option" where
  "first_of es = (case es of [] \<Rightarrow> None | e # rest \<Rightarrow> Some e)"

definition doc_querySelector :: "document \<Rightarrow> jsstring \<Rightarrow> element option" where
  "doc_querySelector d sel = first_of (d sel)"

definition querySelector :: "element \<Rightarrow> jsstring \<Rightarrow> element option" where
  "querySelector e sel = first_of (querySelectorAll e sel)"

text \<open>
  \<^verbatim>\<open>a || b\<close>: on \<^verbatim>\<open>Element | null\<close> the right operand is taken when the left is
  null. A NodeList is an object, and every object is truthy, the empty NodeList too: on
  NodeLists the left operand is always the result.
\<close>

definition elem_or :: "element option \<Rightarrow> element option \<Rightarrow> element option" where
  "elem_or a b = (case a of Some e \<Rightarrow> Some e | None \<Rightarrow> b)"

definition truthy_nodelist :: "element list \<Rightarrow> bool" where
  "truthy_nodelist l = True"

definition nodelist_or :: "element list \<Rightarrow> element list \<Rightarrow> element list" where
  "nodelist_or a b = (if truthy_nodelist a then a else b)"

text \<open>\<^verbatim>\<open>s || d\<close> on \<^verbatim>\<open>string | null | undefined\<close>: the empty string is falsy.\<close>

definition str_or :: "jsstring option \<Rightarrow> jsstring \<Rightarrow> jsstring" where
  "str_or a d = (case a of None \<Rightarrow> d | Some s \<Rightarrow> if s = [] then d else s)"

text \<open>\<^verbatim>\<open>/^\d+$/.test(s)\<close>.\<close>

definition all_digits :: "jsstring \<Rightarrow> bool" where
  "all_digits s \<longleftrightarrow> s \<noteq> [] \<and> list_all is_digit s"

text \<open>\<^verbatim>\<open>s.replace(/^#/, '')\<close> and \<^verbatim>\<open>s.replace(/#$/, '')\<close>.\<close>

definition strip_leading_hash :: "jsstring \<Rightarrow> jsstring" where
  "strip_leading_hash s = (case s of [] \<Rightarrow> [] | c # r \<Rightarrow> if c = ch_hash then r else s)"

definition strip_trailing_hash :: "jsstring \<Rightarrow> jsstring" where
  "strip_trailing_hash s = (if s \<noteq> [] \<and> last s = ch_hash then butlast s else s)"

record author =
  a_id :: jsstring
  a_name :: jsstring
  a_avatar :: jsstring
  a_url :: jsstring

record comment =
  c_content :: jsstring
  c_author :: jsstring
  c_time :: jsstring
  c_likes :: jsnum

text \<open>The image filter both extractors apply to a \<^verbatim>\<open>src\<close> attribute.\<close>

definition image_src_ok :: "jsstring option \<Rightarrow> bool" where
  "image_src_ok src \<longleftrightarrow>
     (case src of None \<Rightarrow> False
      | Some s \<Rightarrow> s \<noteq> [] \<and> \<not> includes_str s (ascii ''avatar'') \<and> \<not> includes_str s (ascii ''emoji''))"

text \<open>
  \<^verbatim>\<open>el && el.textContent ? el.textContent.trim() : ''\<close> and
  \<^verbatim>\<open>el.textContent?.trim() || ''\<close>.
\<close>

definition text_if_present :: "element option \<Rightarrow> jsstring" where
  "text_if_present el =
     (case el of None \<Rightarrow> []
      | Some e \<Rightarrow> (case textContent e of None \<Rightarrow> [] | Some t \<Rightarrow> if t = [] then [] else trim t))"

definition text_or_empty :: "element \<Rightarrow> jsstring" where
  "text_or_empty e = str_or (map_option trim (textContent e)) []"

section \<open>The content extractor of the Xiaohongshu script\<close>

record xhs_interactions =
  xi_likes :: jsnum
  xi_collects :: jsnum
  xi_comments :: jsnum

record xhs_detail =
  xd_title :: jsstring
  xd_content :: jsstring
  xd_htmlContent :: jsstring
  xd_images :: "jsstring list"
  xd_tags :: "jsstring list"
  xd_author :: author
  xd_interactions :: xhs_interactions
  xd_commentList :: "comment list"

definition xhs_htmlContent :: "document \<Rightarrow> jsstring" where
  "xhs_htmlContent d =
     (case elem_or (doc_querySelector d (ascii ''#noteContainer''))
                   (doc_querySelector d (ascii ''.note-container'')) of
        None \<Rightarrow> [] | Some e \<Rightarrow> outerHTML e)"

definition xhs_title :: "document \<Rightarrow> jsstring" where
  "xhs_title d =
     text_if_present
       (elem_or (elem_or (doc_querySelector d (ascii ''#detail-title''))
                         (doc_querySelector d (ascii ''.title'')))
                (doc_querySelector d (ascii ''h1'')))"

definition xhs_content :: "document \<Rightarrow> jsstring" where
  "xhs_content d =
     (case elem_or (elem_or (elem_or (doc_querySelector d (ascii ''#detail-desc''))
                                     (doc_querySelector d (ascii ''.desc'')))
                            (doc_querySelector d (ascii ''.content'')))
                   (doc_querySelector d (ascii ''.note-content'')) of
        None \<Rightarrow> [] | Some e \<Rightarrow> text_or_empty e)"

definition xhs_imageElements :: "document \<Rightarrow> element list" where
  "xhs_imageElements d =
     nodelist_or (nodelist_or (d (ascii ''img.note-slider-img''))
                              (d (ascii ''.media-container img'')))
                 (d (ascii ''.img-container img''))"

definition xhs_images :: "document \<Rightarrow> jsstring list" where
  "xhs_images d =
     List.map_filter
       (\<lambda>img. if image_src_ok (getAttribute img (ascii ''src''))
              then getAttribute img (ascii ''src'') else None)
       (xhs_imageElements d)"

definition xhs_tagElements :: "document \<Rightarrow> element list" where
  "xhs_tagElements d = nodelist_or (d (ascii ''.tag'')) (d (ascii ''a[id=\"hash-tag\"]''))"

definition xhs_tagText :: "jsstring \<Rightarrow> jsstring" where
  "xhs_tagText t = remove_ws (strip_leading_hash (trim t))"

definition xhs_tags :: "document \<Rightarrow> jsstring list" where
  "xhs_tags d =
     List.map_filter
       (\<lambda>tag. case textContent tag of
                None \<Rightarrow> None
              | Some t \<Rightarrow>
                  if t \<noteq> [] \<and> \<not> includes_str t [ch_zuo, ch_zhe]
                  then (if xhs_tagText t \<noteq> [] then Some (xhs_tagText t) else None)
                  else None)
       (xhs_tagElements d)"

text \<open>
  \<^verbatim>\<open>url.match(/profile\/([^?]+)/)\<close>, the first group: at the leftmost place where
  \<^verbatim>\<open>profile/\<close> is followed by a character other than \<^verbatim>\<open>?\<close>, the longest run of
  such characters.
\<close>

fun match_profile :: "jsstring \<Rightarrow> jsstring option" where
  "match_profile [] = None"
| "match_profile (c # s) =
     (if startsWith (c # s) (ascii ''profile/'')
         \<and> takeWhile (\<lambda>x. x \<noteq> ch_quest) (drop 8 (c # s)) \<noteq> []
      then Some (takeWhile (\<lambda>x. x \<noteq> ch_quest) (drop 8 (c # s)))
      else match_profile s)"

definition empty_author :: author where
  "empty_author = \<lparr>a_id = [], a_name = [], a_avatar = [], a_url = []\<rparr>"

definition xhs_author :: "document \<Rightarrow> author" where
  "xhs_author d =
     (let a1 =
        (case elem_or (doc_querySelector d (ascii ''.author-wrapper .name''))
                      (doc_querySelector d (ascii ''.author-wrapper .username'')) of
           None \<Rightarrow> empty_author
         | Some e \<Rightarrow>
             (let a2 = empty_author\<lparr>a_name := text_or_empty e\<rparr>
              in case closest e (ascii ''a'') of
                   None \<Rightarrow> a2
                 | Some l \<Rightarrow>
                     (let u = str_or (getAttribute l (ascii ''href'')) [];
                          a3 = a2\<lparr>a_url := u\<rparr>
                      in case match_profile u of
                           None \<Rightarrow> a3
                         | Some i \<Rightarrow> a3\<lparr>a_id := i\<rparr>)))
      in case elem_or (doc_querySelector d (ascii ''.author-wrapper img''))
                      (doc_querySelector d (ascii ''.avatar-item'')) of
           None \<Rightarrow> a1
         | Some e \<Rightarrow> a1\<lparr>a_avatar := str_or (getAttribute e (ascii ''src'')) []\<rparr>)"

text \<open>
  One count of the interaction bar: the text is trimmed, commas are removed, and the
  result is parsed only when it is all digits; the count is 0 otherwise.
\<close>

definition xhs_count_text :: "jsstring \<Rightarrow> jsnum" where
  "xhs_count_text t =
     (let txt = remove_commas (trim t)
      in if all_digits txt then parseInt10 txt else Fin 0)"

definition xhs_count :: "element \<Rightarrow> jsstring \<Rightarrow> jsnum" where
  "xhs_count bar sel =
     (case querySelector bar sel of
        None \<Rightarrow> Fin 0
      | Some el \<Rightarrow>
          (case textContent el of
             None \<Rightarrow> Fin 0
           | Some t \<Rightarrow> if t = [] then Fin 0 else xhs_count_text t))"

definition xhs_interactions_of :: "document \<Rightarrow> xhs_interactions" where
  "xhs_interactions_of d =
     (case elem_or (doc_querySelector d (ascii ''.engage-bar-style''))
                   (doc_querySelector d (ascii ''.buttons'')) of
        None \<Rightarrow> \<lparr>xi_likes = Fin 0, xi_collects = Fin 0, xi_comments = Fin 0\<rparr>
      | Some bar \<Rightarrow>
          \<lparr>xi_likes = xhs_count bar (ascii ''.like-wrapper .count''),
           xi_collects = xhs_count bar (ascii ''.collect-wrapper .count''),
           xi_comments = xhs_count bar (ascii ''.chat-wrapper .count'')\<rparr>)"

definition xhs_commentLikes :: "element \<Rightarrow> jsnum" where
  "xhs_commentLikes item =
     (case querySelector item (ascii ''.like .count'') of
        None \<Rightarrow> Fin 0
      | Some el \<Rightarrow>
          (case textContent el of
             None \<Rightarrow> Fin 0
           | Some t \<Rightarrow>
               if t = [] then Fin 0
               else if trim t \<noteq> [ch_zan] \<and> all_digits (trim t) then parseInt10 (trim t)
               else Fin 0))"

definition xhs_comment :: "element \<Rightarrow> comment option" where
  "xhs_comment item =
     (let commentContent = text_if_present (querySelector item (ascii ''.content''))
      in if commentContent \<noteq> [] then
           Some \<lparr>c_content = commentContent,
                 c_author = text_if_present (querySelector item (ascii ''.author .name'')),
                 c_time = text_if_present (querySelector item (ascii ''.date span:first-child'')),
                 c_likes = xhs_commentLikes item\<rparr>
         else None)"

definition xhs_commentList :: "document \<Rightarrow> comment list" where
  "xhs_commentList d =
     List.map_filter xhs_comment (d (ascii ''.comment-item:not(.comment-item-sub)''))"

definition extractNoteDetail :: "document \<Rightarrow> xhs_detail" where
  "extractNoteDetail d =
     \<lparr>xd_title = xhs_title d,
      xd_content = xhs_content d,
      xd_htmlContent = xhs_htmlContent d,
      xd_images = xhs_images d,
      xd_tags = xhs_tags d,
      xd_author = xhs_author d,
      xd_interactions = xhs_interactions_of d,
      xd_commentList = xhs_commentList d\<rparr>"

section \<open>The content extractor of the Weibo script\<close>

record wb_interactions =
  wi_likes :: jsnum
  wi_reposts :: jsnum
  wi_comments :: jsnum

record wb_detail =
  wd_content :: jsstring
  wd_htmlContent :: jsstring
  wd_images :: "jsstring list"
  wd_topics :: "jsstring list"
  wd_author :: author
  wd_interactions :: wb_interactions
  wd_commentList :: "comment list"

definition wb_htmlContent :: "document \<Rightarrow> jsstring" where
  "wb_htmlContent d =
     (case elem_or (doc_querySelector d (ascii ''.Feed_body_3R0rO''))
                   (doc_querySelector d (ascii ''.WB_detail'')) of
        None \<Rightarrow> [] | Some e \<Rightarrow> outerHTML e)"

definition wb_content :: "document \<Rightarrow> jsstring" where
  "wb_content d =
     (case elem_or (doc_querySelector d (ascii ''.detail_wbtext_4CRf9''))
                   (doc_querySelector d (ascii ''.WB_text'')) of
        None \<Rightarrow> [] | Some e \<Rightarrow> text_or_empty e)"

text \<open>
  \<^verbatim>\<open>s.replace(/\/thumb\d+\//, '/large/')\<close> and the same with \<^verbatim>\<open>orj\<close>: the
  leftmost place where the keyword is followed by a run of digits and a slash is
  replaced, once.
\<close>

fun replace_sized :: "jsstring \<Rightarrow> jsstring \<Rightarrow> jsstring" where
  "replace_sized kw [] = []"
| "replace_sized kw (c # s) =
     (if startsWith (c # s) kw
         \<and> takeWhile is_digit (drop (length kw) (c # s)) \<noteq> []
         \<and> startsWith (dropWhile is_digit (drop (length kw) (c # s))) [ch_slash]
      then ascii ''/large/'' @ tl (dropWhile is_digit (drop (length kw) (c # s)))
      else c # replace_sized kw s)"

definition originalSrc :: "jsstring \<Rightarrow> jsstring" where
  "originalSrc src = replace_sized (ascii ''/orj'') (replace_sized (ascii ''/thumb'') src)"

definition wb_imageElements :: "document \<Rightarrow> element list" where
  "wb_imageElements d =
     nodelist_or (d (ascii ''.picture_pic_86nBa'')) (d (ascii ''.WB_media_wrap img''))"

definition wb_images :: "document \<Rightarrow> jsstring list" where
  "wb_images d =
     List.map_filter
       (\<lambda>img. if image_src_ok (getAttribute img (ascii ''src''))
              then map_option originalSrc (getAttribute img (ascii ''src'')) else None)
       (wb_imageElements d)"

definition wb_topicElements :: "document \<Rightarrow> element list" where
  "wb_topicElements d =
     nodelist_or (d (ascii ''a[href*=\"/k/\"]'')) (d (ascii ''a.a_topic''))"

definition wb_topicText :: "jsstring \<Rightarrow> jsstring" where
  "wb_topicText t = remove_ws (strip_trailing_hash (strip_leading_hash (trim t)))"

definition wb_topics :: "document \<Rightarrow> jsstring list" where
  "wb_topics d =
     List.map_filter
       (\<lambda>topic. case textContent topic of
                  None \<Rightarrow> None
                | Some t \<Rightarrow>
                    if t \<noteq> [] \<and> wb_topicText t \<noteq> [] then Some (wb_topicText t) else None)
       (wb_topicElements d)"

text \<open>\<^verbatim>\<open>url.match(/\/u\/([^?/]+)/)\<close>, the first group.\<close>

fun match_u :: "jsstring \<Rightarrow> jsstring option" where
  "match_u [] = None"
| "match_u (c # s) =
     (if startsWith (c # s) (ascii ''/u/'')
         \<and> takeWhile (\<lambda>x. x \<noteq> ch_quest \<and> x \<noteq> ch_slash) (drop 3 (c # s)) \<noteq> []
      then Some (takeWhile (\<lambda>x. x \<noteq> ch_quest \<and> x \<noteq> ch_slash) (drop 3 (c # s)))
      else match_u s)"

definition wb_absolute :: "jsstring \<Rightarrow> jsstring" where
  "wb_absolute u = (if startsWith u (ascii ''http'') then u else ascii ''https://weibo.com'' @ u)"

definition wb_author :: "document \<Rightarrow> author" where
  "wb_author d =
     (let a1 =
        (case elem_or (doc_querySelector d (ascii ''.Profile_name_3gQf8''))
                      (doc_querySelector d (ascii ''.WB_info a'')) of
           None \<Rightarrow> empty_author
         | Some e \<Rightarrow>
             (let a2 = empty_author\<lparr>a_name := text_or_empty e\<rparr>;
                  a3 = a2\<lparr>a_url := wb_absolute (str_or (getAttribute e (ascii ''href'')) [])\<rparr>
              in case match_u (a_url a3) of
                   None \<Rightarrow> a3
                 | Some i \<Rightarrow> a3\<lparr>a_id := i\<rparr>))
      in case elem_or (doc_querySelector d (ascii ''.Profile_avatar_3oBfK img''))
                      (doc_querySelector d (ascii ''.WB_face img'')) of
           None \<Rightarrow> a1
         | Some e \<Rightarrow> a1\<lparr>a_avatar := str_or (getAttribute e (ascii ''src'')) []\<rparr>)"

text \<open>The toolbar buttons are selected by their Chinese titles.\<close>

definition sel_like :: jsstring where
  "sel_like = ascii ''button[title=\"'' @ [ch_zan] @ ascii ''\"] .toolbar_num_JXZul''"

definition sel_repost :: jsstring where
  "sel_repost = ascii ''button[title=\"'' @ [36716, 21457] @ ascii ''\"] .toolbar_num_JXZul''"

definition sel_comment :: jsstring where
  "sel_comment = ascii ''button[title=\"'' @ [35780, 35770] @ ascii ''\"] .toolbar_num_JXZul''"

definition wb_count :: "element option \<Rightarrow> jsnum" where
  "wb_count el =
     (case el of
        None \<Rightarrow> Fin 0
      | Some e \<Rightarrow>
          (case textContent e of
             None \<Rightarrow> Fin 0
           | Some t \<Rightarrow> if t = [] then Fin 0 else parseNumberWithUnit (trim t)))"

definition wb_interactions_of :: "document \<Rightarrow> wb_interactions" where
  "wb_interactions_of d =
     \<lparr>wi_likes =
        wb_count (elem_or (doc_querySelector d sel_like)
                          (doc_querySelector d (ascii ''span[node-type=\"like_status\"] em:last-child''))),
      wi_reposts =
        wb_count (elem_or (doc_querySelector d sel_repost)
                          (doc_querySelector d (ascii ''span[node-type=\"forward_btn_text\"] em:last-child''))),
      wi_comments =
        wb_count (elem_or (doc_querySelector d sel_comment)
                          (doc_querySelector d (ascii ''span[node-type=\"comment_btn_text\"] em:last-child'')))\<rparr>"

definition wb_commentLikes :: "element \<Rightarrow> jsnum" where
  "wb_commentLikes item =
     (case elem_or (querySelector item (ascii ''.Comment_like_3G0g-''))
                   (querySelector item (ascii ''.WB_handle span[node-type=\"like\"]'')) of
        None \<Rightarrow> Fin 0
      | Some el \<Rightarrow>
          (case textContent el of
             None \<Rightarrow> Fin 0
           | Some t \<Rightarrow>
               if t = [] then Fin 0
               else if trim t \<noteq> [ch_zan] then parseNumberWithUnit (trim t)
               else Fin 0))"

definition wb_comment :: "element \<Rightarrow> comment option" where
  "wb_comment item =
     (let commentContent =
            text_if_present (elem_or (querySelector item (ascii ''.Comment_text_20osR''))
                                     (querySelector item (ascii ''.WB_text'')))
      in if commentContent \<noteq> [] then
           Some \<lparr>c_content = commentContent,
                 c_author =
                   text_if_present (elem_or (querySelector item (ascii ''.Comment_name_24BZa''))
                                            (querySelector item (ascii ''.WB_text a[usercard]''))),
                 c_time =
                   text_if_present (elem_or (querySelector item (ascii ''.Comment_time_1gesR''))
                                            (querySelector item (ascii ''.WB_from span''))),
                 c_likes = wb_commentLikes item\<rparr>
         else None)"

definition wb_commentItems :: "document \<Rightarrow> element list" where
  "wb_commentItems d =
     nodelist_or (d (ascii ''.Comment_content_22-FY'')) (d (ascii ''.WB_comment .list_li''))"

definition wb_commentList :: "document \<Rightarrow> comment list" where
  "wb_commentList d = List.map_filter wb_comment (wb_commentItems d)"

definition extractWeiboDetail :: "document \<Rightarrow> wb_detail" where
  "extractWeiboDetail d =
     \<lparr>wd_content = wb_content d,
      wd_htmlContent = wb_htmlContent d,
      wd_images = wb_images d,
      wd_topics = wb_topics d,
      wd_author = wb_author d,
      wd_interactions = wb_interactions_of d,
      wd_commentList = wb_commentList d\<rparr>"

section \<open>The feed walker: enumeration of the summary cards\<close>

text \<open>
  \<^verbatim>\<open>items.slice(0, limit)\<close> for a Number \<^verbatim>\<open>limit\<close>: the end is converted to an
  integer (NaN to 0, a fraction towards zero); a negative end counts from the end of the
  array.
\<close>

definition trunc_rat :: "rat \<Rightarrow> int" where
  "trunc_rat r = (if 0 \<le> r then \<lfloor>r\<rfloor> else \<lceil>r\<rceil>)"

definition slice0 :: "'a list \<Rightarrow> jsnum \<Rightarrow> 'a list" where
  "slice0 xs stop =
     (case stop of
        NaN \<Rightarrow> []
      | PosInf \<Rightarrow> xs
      | NegInf \<Rightarrow> []
      | Fin r \<Rightarrow>
          (if trunc_rat r < 0 then take (nat (int (length xs) + trunc_rat r)) xs
           else take (nat (trunc_rat r)) xs))"

definition nth_opt :: "'a list \<Rightarrow> nat \<Rightarrow> 'a option" where
  "nth_opt xs i = (if i < length xs then Some (xs ! i) else None)"

text \<open>\<^verbatim>\<open>u ? u.split('/').pop()?.split('?')[0] || '' : ''\<close>.\<close>

definition last_segment_id :: "jsstring \<Rightarrow> jsstring" where
  "last_segment_id u =
     (if u = [] then []
      else (case rev (split_chr ch_slash u) of
              [] \<Rightarrow> []
            | seg # before \<Rightarrow> (case split_chr ch_quest seg of [] \<Rightarrow> [] | x # after \<Rightarrow> x)))"

text \<open>\<^verbatim>\<open>el ? el.textContent?.trim() || dflt : dflt\<close> and \<^verbatim>\<open>el ? el.getAttribute(a) || '' : ''\<close>.\<close>

definition text_of :: "element option \<Rightarrow> jsstring \<Rightarrow> jsstring" where
  "text_of el dflt =
     (case el of None \<Rightarrow> dflt | Some e \<Rightarrow> str_or (map_option trim (textContent e)) dflt)"

definition attr_of :: "element option \<Rightarrow> jsstring \<Rightarrow> jsstring" where
  "attr_of el a = (case el of None \<Rightarrow> [] | Some e \<Rightarrow> str_or (getAttribute e a) [])"

subsection \<open>Xiaohongshu\<close>

record XHSNote =
  n_id :: jsstring
  n_title :: jsstring
  n_summary :: jsstring
  n_fullContent :: "jsstring option"
  n_htmlContent :: "jsstring option"
  n_coverImage :: jsstring
  n_images :: "jsstring list option"
  n_publishTime :: jsstring
  n_likes :: jsnum
  n_collects :: jsnum
  n_comments :: jsnum
  n_url :: jsstring
  n_tags :: "jsstring list option"
  n_author :: "author option"
  n_commentList :: "comment list option"

definition xhs_absolute :: "jsstring \<Rightarrow> jsstring" where
  "xhs_absolute u =
     (if startsWith u (ascii ''http'') then u else ascii ''https://www.xiaohongshu.com'' @ u)"

definition xhs_cardLikes :: "jsstring \<Rightarrow> jsnum" where
  "xhs_cardLikes likeCountText =
     (if likeCountText \<noteq> [] then
        (if includes_str likeCountText [ch_wan] then
           num_times (parseFloat (replace_str likeCountText [ch_wan] [])) (Fin 10000)
         else if likeCountText \<noteq> [ch_zan] then
           num_or (parseInt10 (remove_commas likeCountText)) (Fin 0)
         else Fin 0)
      else Fin 0)"

definition xhs_card :: "element \<Rightarrow> XHSNote" where
  "xhs_card cardEl =
     (let linkElement = elem_or (querySelector cardEl (ascii ''a.cover''))
                                (nth_opt (querySelectorAll cardEl (ascii ''a'')) 1);
          href = (case linkElement of None \<Rightarrow> Some [] | Some l \<Rightarrow> getAttribute l (ascii ''href''));
          url = (case href of None \<Rightarrow> [] | Some h \<Rightarrow> if h = [] then [] else xhs_absolute h);
          title = text_of (querySelector cardEl (ascii ''.title span'')) [];
          imgElement = (case linkElement of None \<Rightarrow> None | Some l \<Rightarrow> querySelector l (ascii ''img''));
          authorUrl = attr_of (querySelector cardEl (ascii ''.author-wrapper a.author'')) (ascii ''href'')
      in \<lparr>n_id = last_segment_id url,
          n_title = title,
          n_summary = title,
          n_fullContent = Some [],
          n_htmlContent = Some [],
          n_coverImage = attr_of imgElement (ascii ''src''),
          n_images = Some [],
          n_publishTime = [],
          n_likes = xhs_cardLikes (text_of (querySelector cardEl (ascii ''.like-wrapper .count'')) (ascii ''0'')),
          n_collects = Fin 0,
          n_comments = Fin 0,
          n_url = url,
          n_tags = Some [],
          n_author =
            Some \<lparr>a_id = last_segment_id authorUrl,
                  a_name = text_of (querySelector cardEl (ascii ''.author-wrapper .name'')) [],
                  a_avatar = attr_of (querySelector cardEl (ascii ''.author-wrapper .author-avatar'')) (ascii ''src''),
                  a_url = xhs_absolute authorUrl\<rparr>,
          n_commentList = Some []\<rparr>)"

definition xhs_noteCards :: "document \<Rightarrow> jsnum \<Rightarrow> XHSNote list" where
  "xhs_noteCards d limitParam = map xhs_card (slice0 (d (ascii ''section.note-item'')) limitParam)"

subsection \<open>Weibo\<close>

record WeiboPost =
  p_id :: jsstring
  p_content :: jsstring
  p_htmlContent :: "jsstring option"
  p_coverImage :: "jsstring option"
  p_images :: "jsstring list option"
  p_publishTime :: jsstring
  p_likes :: jsnum
  p_reposts :: jsnum
  p_comments :: jsnum
  p_url :: jsstring
  p_topics :: "jsstring list option"
  p_author :: "author option"
  p_commentList :: "comment list option"

definition wb_cardCount :: "element option \<Rightarrow> jsnum" where
  "wb_cardCount el =
     (case el of
        None \<Rightarrow> Fin 0
      | Some e \<Rightarrow>
          (case textContent e of
             None \<Rightarrow> Fin 0
           | Some t \<Rightarrow>
               if t = [] then Fin 0
               else if includes_str (trim t) [ch_wan] then
                 num_times (parseFloat (replace_str (trim t) [ch_wan] [])) (Fin 10000)
               else num_or (parseInt10 (remove_commas (trim t))) (Fin 0)))"

definition wb_cardUrl :: "element \<Rightarrow> jsstring" where
  "wb_cardUrl cardEl =
     (case querySelector cardEl (ascii ''.head_name_24eEB'') of
        None \<Rightarrow> []
      | Some linkElement \<Rightarrow>
          (case parentElement linkElement of
             None \<Rightarrow> []
           | Some parent \<Rightarrow>
               (case getAttribute parent (ascii ''href'') of
                  None \<Rightarrow> []
                | Some parentLink \<Rightarrow> if parentLink = [] then [] else wb_absolute parentLink)))"

definition wb_card :: "element \<Rightarrow> WeiboPost" where
  "wb_card cardEl =
     (let authorElement = querySelector cardEl (ascii ''.head_name_24eEB'');
          authorLinkElement = (case authorElement of None \<Rightarrow> None | Some e \<Rightarrow> closest e (ascii ''a''));
          authorUrl = attr_of authorLinkElement (ascii ''href'')
      in \<lparr>p_id = attr_of (querySelector cardEl (ascii ''.Feed_card_2hGMK[mid]'')) (ascii ''mid''),
          p_content = text_of (querySelector cardEl (ascii ''.detail_wbtext_4CRf9'')) [],
          p_htmlContent = Some [],
          p_coverImage = Some (attr_of (querySelector cardEl (ascii ''.picture_pic_86nBa'')) (ascii ''src'')),
          p_images = Some [],
          p_publishTime = text_of (querySelector cardEl (ascii ''.head_time_1WJv8'')) [],
          p_likes = wb_cardCount (querySelector cardEl sel_like),
          p_reposts = wb_cardCount (querySelector cardEl sel_repost),
          p_comments = wb_cardCount (querySelector cardEl sel_comment),
          p_url = wb_cardUrl cardEl,
          p_topics = Some [],
          p_author =
            Some \<lparr>a_id = last_segment_id authorUrl,
                  a_name = text_of authorElement [],
                  a_avatar = attr_of (querySelector cardEl (ascii ''.head_avatar_1pn5W img'')) (ascii ''src''),
                  a_url = wb_absolute authorUrl\<rparr>,
          p_commentList = Some []\<rparr>)"

definition wb_weiboCards :: "document \<Rightarrow> jsnum \<Rightarrow> WeiboPost list" where
  "wb_weiboCards d limitParam = map wb_card (slice0 (d (ascii ''.Feed_item_2xmo1'')) limitParam)"

section \<open>The feed walker: the merge of a detail into a card\<close>

definition xhs_merge :: "XHSNote \<Rightarrow> xhs_detail \<Rightarrow> XHSNote" where
  "xhs_merge cardRec noteDetail =
     cardRec\<lparr>n_title := str_or (Some (xd_title noteDetail)) (n_title cardRec),
          n_fullContent := Some (xd_content noteDetail),
          n_htmlContent := Some (xd_htmlContent noteDetail),
          n_images := Some (xd_images noteDetail),
          n_tags := Some (xd_tags noteDetail),
          n_likes := num_or (xi_likes (xd_interactions noteDetail)) (n_likes cardRec),
          n_collects := num_or (xi_collects (xd_interactions noteDetail)) (n_collects cardRec),
          n_comments := num_or (xi_comments (xd_interactions noteDetail)) (n_comments cardRec),
          n_author := (if a_id (xd_author noteDetail) \<noteq> [] then Some (xd_author noteDetail)
                       else n_author cardRec),
          n_commentList := Some (xd_commentList noteDetail)\<rparr>"

definition wb_merge :: "WeiboPost \<Rightarrow> wb_detail \<Rightarrow> WeiboPost" where
  "wb_merge cardRec weiboDetail =
     cardRec\<lparr>p_content := str_or (Some (wd_content weiboDetail)) (p_content cardRec),
          p_htmlContent := Some (wd_htmlContent weiboDetail),
          p_images := Some (wd_images weiboDetail),
          p_topics := Some (wd_topics weiboDetail),
          p_likes := num_or (wi_likes (wd_interactions weiboDetail)) (p_likes cardRec),
          p_reposts := num_or (wi_reposts (wd_interactions weiboDetail)) (p_reposts cardRec),
          p_comments := num_or (wi_comments (wd_interactions weiboDetail)) (p_comments cardRec),
          p_author := (if a_id (wd_author weiboDetail) \<noteq> [] then Some (wd_author weiboDetail)
                       else p_author cardRec),
          p_commentList := Some (wd_commentList weiboDetail)\<rparr>"

text \<open>
  What is shown of every record of a result: its url is empty or begins with
  \<^verbatim>\<open>http\<close> (the test the scripts themselves apply to an href), and no image url
  contains \<^verbatim>\<open>avatar\<close> or \<^verbatim>\<open>emoji\<close>.
\<close>

definition note_ok :: "XHSNote \<Rightarrow> bool" where
  "note_ok n \<longleftrightarrow>
     (n_url n = [] \<or> startsWith (n_url n) (ascii ''http'')) \<and>
     (\<exists>imgs. n_images n = Some imgs \<and>
        (\<forall>u \<in> set imgs. \<not> includes_str u (ascii ''avatar'') \<and> \<not> includes_str u (ascii ''emoji'')))"

definition post_ok :: "WeiboPost \<Rightarrow> bool" where
  "post_ok q \<longleftrightarrow>
     (p_url q = [] \<or> startsWith (p_url q) (ascii ''http'')) \<and>
     (\<exists>imgs. p_images q = Some imgs \<and>
        (\<forall>u \<in> set imgs. \<not> includes_str u (ascii ''avatar'') \<and> \<not> includes_str u (ascii ''emoji'')))"

section \<open>The feed walker: browser effects and the run\<close>

text \<open>
  The browser is outside the scripts. Each awaited browser call either throws an error
  or returns; a run is a function of these outcomes. \<^verbatim>\<open>delay\<close> is a timer promise
  that is only ever resolved, so it has no outcome to give. The promise of an
  \<^verbatim>\<open>async\<close> function is rejected by an error that escapes it and resolved by the
  value it returns.
\<close>

datatype jserror = JsError (message: jsstring)

datatype 'a outcome = Throws jserror | Returns 'a

datatype 'a promise = Rejected jserror | Resolved 'a

definition obind :: "'a outcome \<Rightarrow> ('a \<Rightarrow> 'b outcome) \<Rightarrow> 'b outcome" where
  "obind m f = (case m of Throws e \<Rightarrow> Throws e | Returns x \<Rightarrow> f x)"

definition throws :: "'a outcome \<Rightarrow> bool" where
  "throws m = (case m of Throws e \<Rightarrow> True | Returns x \<Rightarrow> False)"

text \<open>
  What one iteration of the enrichment loop meets: opening the detail page, setting
  its viewport, the navigation, the evaluation of the extraction routine (which throws,
  or runs on the document the page then holds), and closing the page.
\<close>

record item_env =
  ie_newPage :: "unit outcome"
  ie_setViewport :: "unit outcome"
  ie_goto :: "unit outcome"
  ie_evaluate :: "document outcome"
  ie_close :: "unit outcome"

text \<open>
  What a run meets: the launch, the listing page, the cookie variable of the
  environment, the calls of \<^verbatim>\<open>setupCookies\<close>, the navigation to the home page,
  the scrolling, the evaluation of the enumeration (on the listing document), the
  iterations by index, and closing the browser.
\<close>

record run_env =
  re_launch :: "unit outcome"
  re_newPage :: "unit outcome"
  re_cookie :: "jsstring option"
  re_cookies :: "unit outcome"
  re_deleteCookie :: "unit outcome"
  re_setCookie :: "jsstring \<Rightarrow> jsval \<Rightarrow> unit outcome"
  re_goto :: "unit outcome"
  re_autoScroll :: "unit outcome"
  re_listing :: "document outcome"
  re_items :: "nat \<Rightarrow> item_env"
  re_close :: "unit outcome"

fun set_all :: "(jsstring \<Rightarrow> jsval \<Rightarrow> unit outcome) \<Rightarrow> jsobject \<Rightarrow> unit outcome" where
  "set_all f [] = Returns ()"
| "set_all f ((k, v) # rest) = obind (f k v) (\<lambda>u. set_all f rest)"

definition setupCookies :: "run_env \<Rightarrow> jsstring \<Rightarrow> unit outcome" where
  "setupCookies env cookieString =
     obind (re_cookies env) (\<lambda>u.
     obind (re_deleteCookie env) (\<lambda>u.
     set_all (re_setCookie env) (parseCookieString cookieString)))"

text \<open>The steps of the guarded block before the loop, ending with the enumeration.\<close>

definition listing_document :: "run_env \<Rightarrow> document outcome" where
  "listing_document env =
     obind (re_newPage env) (\<lambda>u.
     obind (setupCookies env (str_or (re_cookie env) [])) (\<lambda>u.
     obind (re_goto env) (\<lambda>u.
     obind (re_autoScroll env) (\<lambda>u.
     re_listing env))))"

text \<open>\<^verbatim>\<open>limit: number = 10\<close>.\<close>

definition limit_or_default :: "jsnum option \<Rightarrow> jsnum" where
  "limit_or_default limit = (case limit of None \<Rightarrow> Fin 10 | Some l \<Rightarrow> l)"

subsection \<open>Xiaohongshu\<close>

text \<open>
  One iteration. An error of the navigation is caught and dropped; the extraction is
  attempted in either case. An error of the extraction appends the card. An error of any
  other call of the iteration reaches the outer handler, which appends the card.
\<close>

definition xhs_item :: "item_env \<Rightarrow> XHSNote \<Rightarrow> XHSNote list \<Rightarrow> XHSNote list" where
  "xhs_item ie cardRec completeNotes =
     (if n_url cardRec = [] then completeNotes @ [cardRec]
      else
        (case ie_newPage ie of
           Throws e \<Rightarrow> completeNotes @ [cardRec]
         | Returns u \<Rightarrow>
             (case ie_setViewport ie of
                Throws e \<Rightarrow> completeNotes @ [cardRec]
              | Returns u \<Rightarrow>
                  (let navigated = (case ie_goto ie of Throws navError \<Rightarrow> () | Returns u \<Rightarrow> ());
                       pushed =
                         (case ie_evaluate ie of
                            Throws extractError \<Rightarrow> completeNotes @ [cardRec]
                          | Returns d \<Rightarrow> completeNotes @ [xhs_merge cardRec (extractNoteDetail d)])
                   in case ie_close ie of
                        Throws e \<Rightarrow> pushed @ [cardRec]
                      | Returns u \<Rightarrow> pushed))))"

fun xhs_loop :: "(nat \<Rightarrow> item_env) \<Rightarrow> nat \<Rightarrow> XHSNote list \<Rightarrow> XHSNote list \<Rightarrow> XHSNote list" where
  "xhs_loop items i [] completeNotes = completeNotes"
| "xhs_loop items i (cardRec # rest) completeNotes =
     xhs_loop items (Suc i) rest (xhs_item (items i) cardRec completeNotes)"

record FetchNotesResult =
  fr_success :: bool
  fr_notes :: "XHSNote list option"
  fr_error :: "jsstring option"

definition fetchLatestNotes :: "run_env \<Rightarrow> jsnum option \<Rightarrow> FetchNotesResult promise" where
  "fetchLatestNotes env limit =
     (case re_launch env of
        Throws e \<Rightarrow> Rejected e
      | Returns u \<Rightarrow>
          (let result =
                 (case listing_document env of
                    Throws error \<Rightarrow>
                      \<lparr>fr_success = False, fr_notes = None, fr_error = Some (message error)\<rparr>
                  | Returns d \<Rightarrow>
                      \<lparr>fr_success = True,
                       fr_notes = Some (xhs_loop (re_items env) 0
                                          (xhs_noteCards d (limit_or_default limit)) []),
                       fr_error = None\<rparr>)
           in case re_close env of
                Throws e \<Rightarrow> Rejected e
              | Returns u \<Rightarrow> Resolved result))"

subsection \<open>Weibo\<close>

definition wb_item :: "item_env \<Rightarrow> WeiboPost \<Rightarrow> WeiboPost list \<Rightarrow> WeiboPost list" where
  "wb_item ie cardRec completePosts =
     (if p_url cardRec = [] then completePosts @ [cardRec]
      else
        (case ie_newPage ie of
           Throws e \<Rightarrow> completePosts @ [cardRec]
         | Returns u \<Rightarrow>
             (case ie_setViewport ie of
                Throws e \<Rightarrow> completePosts @ [cardRec]
              | Returns u \<Rightarrow>
                  (let navigated = (case ie_goto ie of Throws navError \<Rightarrow> () | Returns u \<Rightarrow> ());
                       pushed =
                         (case ie_evaluate ie of
                            Throws extractError \<Rightarrow> completePosts @ [cardRec]
                          | Returns d \<Rightarrow> completePosts @ [wb_merge cardRec (extractWeiboDetail d)])
                   in case ie_close ie of
                        Throws e \<Rightarrow> pushed @ [cardRec]
                      | Returns u \<Rightarrow> pushed))))"

fun wb_loop :: "(nat \<Rightarrow> item_env) \<Rightarrow> nat \<Rightarrow> WeiboPost list \<Rightarrow> WeiboPost list \<Rightarrow> WeiboPost list" where
  "wb_loop items i [] completePosts = completePosts"
| "wb_loop items i (cardRec # rest) completePosts =
     wb_loop items (Suc i) rest (wb_item (items i) cardRec completePosts)"

record FetchWeiboResult =
  wr_success :: bool
  wr_posts :: "WeiboPost list option"
  wr_error :: "jsstring option"

definition fetchLatestWeibo :: "run_env \<Rightarrow> jsnum option \<Rightarrow> FetchWeiboResult promise" where
  "fetchLatestWeibo env limit =
     (case re_launch env of
        Throws e \<Rightarrow> Rejected e
      | Returns u \<Rightarrow>
          (let result =
                 (case listing_document env of
                    Throws error \<Rightarrow>
                      \<lparr>wr_success = False, wr_posts = None, wr_error = Some (message error)\<rparr>
                  | Returns d \<Rightarrow>
                      \<lparr>wr_success = True,
                       wr_posts = Some (wb_loop (re_items env) 0
                                          (wb_weiboCards d (limit_or_default limit)) []),
                       wr_error = None\<rparr>)
           in case re_close env of
                Throws e \<Rightarrow> Rejected e
              | Returns u \<Rightarrow> Resolved result))"

section \<open>Example documents and runs\<close>

text \<open>Small elements, documents and browser outcomes on which the functions are evaluated.\<close>

definition no_attr :: "jsstring \<Rightarrow> jsstring option" where
  "no_attr a = None"

definition attr1 :: "jsstring \<Rightarrow> jsstring \<Rightarrow> jsstring \<Rightarrow> jsstring option" where
  "attr1 k v a = (if a = k then Some v else None)"

definition leaf_el :: "jsstring option \<Rightarrow> (jsstring \<Rightarrow> jsstring option) \<Rightarrow> element" where
  "leaf_el txt attrs = Element txt attrs [] (\<lambda>s. []) (\<lambda>s. None) None"

definition parent_el :: "(jsstring \<Rightarrow> element list) \<Rightarrow> element" where
  "parent_el q = Element (Some []) no_attr [] q (\<lambda>s. None) None"

text \<open>
  A detail page in the older markup only: images, tags, topics and comments are found by
  the second selector of each pair and by no first one.
\<close>

definition legacy_comment :: element where
  "legacy_comment =
     parent_el (\<lambda>s. if s = ascii ''.WB_text'' then [leaf_el (Some (ascii ''nice'')) no_attr] else [])"

definition legacy_doc :: document where
  "legacy_doc s =
     (if s = ascii ''.media-container img'' then
        [leaf_el None (attr1 (ascii ''src'') (ascii ''https://img.example/1.jpg''))]
      else if s = ascii ''a[id=\"hash-tag\"]'' then [leaf_el (Some (ascii ''#AI'')) no_attr]
      else if s = ascii ''.WB_media_wrap img'' then
        [leaf_el None (attr1 (ascii ''src'') (ascii ''https://img.example/2.jpg''))]
      else if s = ascii ''a.a_topic'' then [leaf_el (Some (ascii ''#AI#'')) no_attr]
      else if s = ascii ''.WB_comment .list_li'' then [legacy_comment]
      else [])"

text \<open>A detail page whose like count reads \<^verbatim>\<open>2.5\<close> followed by U+4E07, on either site.\<close>

definition tok_25wan :: jsstring where
  "tok_25wan = ascii ''2.5'' @ [ch_wan]"

definition count_bar :: element where
  "count_bar =
     parent_el (\<lambda>s. if s = ascii ''.like-wrapper .count'' then [leaf_el (Some tok_25wan) no_attr]
                     else [])"

definition count_doc :: document where
  "count_doc s =
     (if s = ascii ''.engage-bar-style'' then [count_bar]
      else if s = sel_like then [leaf_el (Some tok_25wan) no_attr]
      else [])"

text \<open>A raw tag text, and a detail page carrying it under the first selector of each site.\<close>

definition tag_raw :: jsstring where
  "tag_raw = ascii ''  #AI '' @ [ch_xue, ch_xi] @ ascii ''  ''"

definition tag_clean :: jsstring where
  "tag_clean = ascii ''AI'' @ [ch_xue, ch_xi]"

definition tag_doc :: document where
  "tag_doc s =
     (if s = ascii ''.tag'' \<or> s = ascii ''a[href*=\"/k/\"]'' then [leaf_el (Some tag_raw) no_attr]
      else [])"

text \<open>Listing pages: a card with a cover link, a card without any link.\<close>

definition linked_card :: "jsstring \<Rightarrow> element" where
  "linked_card href =
     parent_el (\<lambda>s. if s = ascii ''a.cover'' then [leaf_el None (attr1 (ascii ''href'') href)]
                     else [])"

definition bare_card :: element where
  "bare_card = parent_el (\<lambda>s. [])"

definition listing_of :: "element list \<Rightarrow> document" where
  "listing_of cards s =
     (if s = ascii ''section.note-item'' \<or> s = ascii ''.Feed_item_2xmo1'' then cards else [])"

definition five_cards :: "element list" where
  "five_cards =
     [linked_card (ascii ''/explore/a1''), linked_card (ascii ''/explore/a2''),
      linked_card (ascii ''/explore/a3''), linked_card (ascii ''/explore/a4''),
      linked_card (ascii ''/explore/a5'')]"

definition body_doc :: document where
  "body_doc s = (if s = ascii ''#detail-desc'' then [leaf_el (Some (ascii ''body'')) no_attr] else [])"

text \<open>
  Outcomes: an iteration in which every call returns, and a run in which every call
  returns. The cookie variable of the run holds one pair, and \<^verbatim>\<open>setCookie\<close> refuses a
  value that is \<^verbatim>\<open>undefined\<close>.
\<close>

definition boom :: jserror where
  "boom = JsError (ascii ''boom'')"

definition plain_item :: "document \<Rightarrow> item_env" where
  "plain_item d =
     \<lparr>ie_newPage = Returns (), ie_setViewport = Returns (), ie_goto = Returns (),
      ie_evaluate = Returns d, ie_close = Returns ()\<rparr>"

definition plain_env :: "document \<Rightarrow> (nat \<Rightarrow> item_env) \<Rightarrow> run_env" where
  "plain_env d items =
     \<lparr>re_launch = Returns (), re_newPage = Returns (), re_cookie = Some (ascii ''sid=abc''),
      re_cookies = Returns (), re_deleteCookie = Returns (),
      re_setCookie = (\<lambda>k v. case v of Undefined \<Rightarrow> Throws boom | Str s \<Rightarrow> Returns ()),
      re_goto = Returns (), re_autoScroll = Returns (),
      re_listing = Returns d, re_items = items, re_close = Returns ()\<rparr>"

definition close_fails :: "nat \<Rightarrow> item_env" where
  "close_fails j = (plain_item body_doc)\<lparr>ie_close := Throws boom\<rparr>"

definition nav_fails :: "nat \<Rightarrow> item_env" where
  "nav_fails j = (plain_item body_doc)\<lparr>ie_goto := Throws boom\<rparr>"

definition second_fails :: "nat \<Rightarrow> item_env" where
  "second_fails j =
     (if j = 1 then (plain_item body_doc)\<lparr>ie_goto := Throws boom, ie_evaluate := Throws boom\<rparr>
      else plain_item body_doc)"

definition all_fine :: "nat \<Rightarrow> item_env" where
  "all_fine j = plain_item body_doc"

definition three_cards :: "element list" where
  "three_cards =
     [linked_card (ascii ''/explore/a1''), linked_card (ascii ''/explore/a2''),
      linked_card (ascii ''/explore/a3'')]"

text \<open>A Weibo card whose author name sits in a link.\<close>

definition wb_linked_card :: "jsstring \<Rightarrow> element" where
  "wb_linked_card href =
     parent_el (\<lambda>s. if s = ascii ''.head_name_24eEB'' then
                       [Element (Some (ascii ''name'')) no_attr [] (\<lambda>s. []) (\<lambda>s. None)
                          (Some (leaf_el None (attr1 (ascii ''href'') href)))]
                     else [])"

definition wb_three_cards :: "element list" where
  "wb_three_cards =
     [wb_linked_card (ascii ''/u/1/p1''), wb_linked_card (ascii ''/u/1/p2''),
      wb_linked_card (ascii ''/u/1/p3'')]"

text \<open>A detail page with two slider images, one of them an avatar.\<close>

definition image_doc :: document where
  "image_doc s =
     (if s = ascii ''img.note-slider-img'' then
        [leaf_el None (attr1 (ascii ''src'') (ascii ''https://img.example/1.jpg'')),
         leaf_el None (attr1 (ascii ''src'') (ascii ''https://img.example/avatar/2.png''))]
      else if s = ascii ''.picture_pic_86nBa'' then
        [leaf_el None (attr1 (ascii ''src'') (ascii ''https://img.example/thumb150/3.jpg'')),
         leaf_el None (attr1 (ascii ''src'') (ascii ''https://img.example/emoji/4.png''))]
      else [])"

definition imaged :: "nat \<Rightarrow> item_env" where
  "imaged j = plain_item image_doc"

text \<open>Records for the merge step.\<close>

definition card_author :: author where
  "card_author = \<lparr>a_id = ascii ''c9'', a_name = ascii ''card'', a_avatar = [], a_url = []\<rparr>"

definition detail_author :: "jsstring \<Rightarrow> author" where
  "detail_author i = \<lparr>a_id = i, a_name = ascii ''detail'', a_avatar = [], a_url = []\<rparr>"

definition sample_note :: XHSNote where
  "sample_note =
     \<lparr>n_id = ascii ''a1'', n_title = ascii ''t'', n_summary = ascii ''t'',
      n_fullContent = Some [], n_htmlContent = Some [], n_coverImage = [], n_images = Some [],
      n_publishTime = [], n_likes = Fin 3, n_collects = Fin 7, n_comments = Fin 0,
      n_url = ascii ''https://www.xiaohongshu.com/explore/a1'', n_tags = Some [],
      n_author = Some card_author, n_commentList = Some []\<rparr>"

definition sample_detail :: "jsstring \<Rightarrow> xhs_detail" where
  "sample_detail i =
     \<lparr>xd_title = [], xd_content = ascii ''body'', xd_htmlContent = [], xd_images = [],
      xd_tags = [], xd_author = detail_author i,
      xd_interactions = \<lparr>xi_likes = Fin 5, xi_collects = Fin 0, xi_comments = NaN\<rparr>,
      xd_commentList = []\<rparr>"

definition sample_post :: WeiboPost where
  "sample_post =
     \<lparr>p_id = ascii ''m1'', p_content = ascii ''t'', p_htmlContent = Some [],
      p_coverImage = Some [], p_images = Some [], p_publishTime = [], p_likes = Fin 3,
      p_reposts = Fin 7, p_comments = Fin 0, p_url = ascii ''https://weibo.com/1/m1'',
      p_topics = Some [], p_author = Some card_author, p_commentList = Some []\<rparr>"

definition sample_wdetail :: "jsstring \<Rightarrow> wb_detail" where
  "sample_wdetail i =
     \<lparr>wd_content = ascii ''body'', wd_htmlContent = [], wd_images = [], wd_topics = [],
      wd_author = detail_author i,
      wd_interactions = \<lparr>wi_likes = Fin 5, wi_reposts = Fin 0, wi_comments = NaN\<rparr>,
      wd_commentList = []\<rparr>"

section \<open>Evaluation and arithmetic helpers\<close>

named_theorems js_eval
lemmas [js_eval] = ascii_def ch_wan_def ch_yi_def ch_zan_def ch_xue_def ch_xi_def ch_zuo_def
  ch_zhe_def ch_hash_def ch_plus_def ch_comma_def ch_minus_def ch_dot_def ch_slash_def
  ch_semi_def ch_eq_def ch_quest_def is_ws_def is_digit_def trim_def remove_commas_def
  remove_ws_def Let_def

lemma two_pow_64_below_overflow: "(2::rat) ^ 64 < dbl_overflow"
proof -
  have a: "(2::rat) ^ 1024 = 2 ^ 970 * 2 ^ 54" by (simp flip: power_add)
  have b: "(2::rat) ^ 64 \<le> 2 ^ 970" by (rule power_increasing) simp_all
  have c: "(2::rat) ^ 970 * 2 ^ 54 - 2 ^ 970 = 2 ^ 970 * (2 ^ 54 - 1)" by (simp add: algebra_simps)
  have d: "(2::rat) ^ 970 * 1 < 2 ^ 970 * (2 ^ 54 - 1)" by (rule mult_strict_left_mono) simp_all
  show ?thesis unfolding dbl_overflow_def a c using b d by simp
qed

lemma to_number_small: "\<bar>x\<bar> < 2 ^ 64 \<Longrightarrow> to_number x = Fin x"
  using two_pow_64_below_overflow by (auto simp: to_number_def)

lemma parseInt10_shape:
  "parseInt10 s = NaN \<or> parseInt10 s = PosInf \<or> parseInt10 s = NegInf \<or> is_integer (parseInt10 s)"
  by (simp add: parseInt10_def Let_def to_number_def)

lemmas parse_eval = parseNumberWithUnit_def parseFloat_def parseInt10_def digits_value_def
  exponent_part_def pow10_def num_or_def truthy_num_def to_number_small

lemmas dom_eval = doc_querySelector_def querySelector_def first_of_def elem_or_def
  nodelist_or_def truthy_nodelist_def str_or_def text_if_present_def
  text_or_empty_def text_of_def attr_of_def image_src_ok_def no_attr_def attr1_def leaf_el_def
  parent_el_def all_digits_def strip_leading_hash_def strip_trailing_hash_def


section \<open>The numeric normalizer\<close>

text \<open>
  C1 (as the code has it). \<open>parseNumberWithUnit\<close> returns 0 for the empty token. A token
  containing U+4E07 gives \<open>parseFloat\<close> of the token without its first U+4E07, times
  10000, with no truncation to an integer; a token containing U+4EBF and no U+4E07 gives
  the same with 100000000. Any other token has its commas removed and is parsed in base
  10, NaN becoming 0; that result is an integer, or an infinity when the digits exceed
  the double range. The tokens \<^verbatim>\<open>2.5\<close>+U+4E07, \<^verbatim>\<open>1,234\<close> and U+8D5E give 25000,
  1234 and 0.
\<close>

theorem parseNumberWithUnit_branches:
  "parseNumberWithUnit [] = Fin 0 \<and>
   (includes_str t [ch_wan] \<longrightarrow>
      parseNumberWithUnit t = num_times (parseFloat (replace_str t [ch_wan] [])) (Fin 10000)) \<and>
   (\<not> includes_str t [ch_wan] \<and> includes_str t [ch_yi] \<longrightarrow>
      parseNumberWithUnit t = num_times (parseFloat (replace_str t [ch_yi] [])) (Fin 100000000)) \<and>
   (\<not> includes_str t [ch_wan] \<and> \<not> includes_str t [ch_yi] \<longrightarrow>
      parseNumberWithUnit t =
        (if parseInt10 (remove_commas t) = NaN then Fin 0 else parseInt10 (remove_commas t)) \<and>
      (is_integer (parseNumberWithUnit t) \<or> parseNumberWithUnit t = PosInf
         \<or> parseNumberWithUnit t = NegInf)) \<and>
   parseNumberWithUnit (ascii ''2.5'' @ [ch_wan]) = Fin 25000 \<and>
   parseNumberWithUnit (ascii ''1,234'') = Fin 1234 \<and>
   parseNumberWithUnit [ch_zan] = Fin 0"
proof -
  have e0: "parseNumberWithUnit [] = Fin 0" by (simp add: parseNumberWithUnit_def)
  have w: "includes_str t [ch_wan] \<Longrightarrow>
      parseNumberWithUnit t = num_times (parseFloat (replace_str t [ch_wan] [])) (Fin 10000)"
    by (cases t) (simp_all add: parseNumberWithUnit_def)
  have y: "\<not> includes_str t [ch_wan] \<Longrightarrow> includes_str t [ch_yi] \<Longrightarrow>
      parseNumberWithUnit t = num_times (parseFloat (replace_str t [ch_yi] [])) (Fin 100000000)"
    by (cases t) (simp_all add: parseNumberWithUnit_def)
  have nan_empty: "parseInt10 [] = NaN" by (simp add: parseInt10_def)
  have o1: "\<not> includes_str t [ch_wan] \<Longrightarrow> \<not> includes_str t [ch_yi] \<Longrightarrow>
      parseNumberWithUnit t =
        (if parseInt10 (remove_commas t) = NaN then Fin 0 else parseInt10 (remove_commas t))"
    by (cases "t = []")
       (auto simp: parseNumberWithUnit_def num_or_def truthy_num_def remove_commas_def nan_empty)
  have o2: "\<not> includes_str t [ch_wan] \<Longrightarrow> \<not> includes_str t [ch_yi] \<Longrightarrow>
      is_integer (parseNumberWithUnit t) \<or> parseNumberWithUnit t = PosInf
         \<or> parseNumberWithUnit t = NegInf"
    using parseInt10_shape [of "remove_commas t"] by (auto simp: o1)
  have x1: "parseNumberWithUnit (ascii ''2.5'' @ [ch_wan]) = Fin 25000"
    by (simp add: parse_eval js_eval)
  have x2: "parseNumberWithUnit (ascii ''1,234'') = Fin 1234"
    by (simp add: parse_eval js_eval)
  have x3: "parseNumberWithUnit [ch_zan] = Fin 0"
    by (simp add: parse_eval js_eval)
  from o1 o2 have o: "\<not> includes_str t [ch_wan] \<and> \<not> includes_str t [ch_yi] \<longrightarrow>
      parseNumberWithUnit t =
        (if parseInt10 (remove_commas t) = NaN then Fin 0 else parseInt10 (remove_commas t)) \<and>
      (is_integer (parseNumberWithUnit t) \<or> parseNumberWithUnit t = PosInf
         \<or> parseNumberWithUnit t = NegInf)"
    by (intro impI conjI) (elim conjE, assumption)+
  from y have y': "\<not> includes_str t [ch_wan] \<and> includes_str t [ch_yi] \<longrightarrow>
      parseNumberWithUnit t = num_times (parseFloat (replace_str t [ch_yi] [])) (Fin 100000000)"
    by (intro impI) (elim conjE)
  from w have w': "includes_str t [ch_wan] \<longrightarrow>
      parseNumberWithUnit t = num_times (parseFloat (replace_str t [ch_wan] [])) (Fin 10000)"
    by (intro impI)
  from e0 w' y' o x1 x2 x3 show ?thesis by (intro conjI)
qed

theorem parseNumberWithUnit_branches_witness:
  "includes_str (ascii ''2.5'' @ [ch_wan]) [ch_wan] \<and>
   parseNumberWithUnit (ascii ''2.5'' @ [ch_wan])
     = num_times (parseFloat (ascii ''2.5'')) (Fin 10000) \<and>
   \<not> includes_str (ascii ''3'' @ [ch_yi]) [ch_wan] \<and> includes_str (ascii ''3'' @ [ch_yi]) [ch_yi] \<and>
   parseNumberWithUnit (ascii ''3'' @ [ch_yi]) = num_times (parseFloat (ascii ''3'')) (Fin 100000000) \<and>
   \<not> includes_str (ascii ''1,234'') [ch_wan] \<and> \<not> includes_str (ascii ''1,234'') [ch_yi] \<and>
   is_integer (parseNumberWithUnit (ascii ''1,234''))"
proof -
  have a1: "includes_str (ascii ''2.5'' @ [ch_wan]) [ch_wan]" by (simp add: js_eval)
  have a2: "replace_str (ascii ''2.5'' @ [ch_wan]) [ch_wan] [] = ascii ''2.5''"
    by (simp add: js_eval)
  have b1: "\<not> includes_str (ascii ''3'' @ [ch_yi]) [ch_wan] \<and> includes_str (ascii ''3'' @ [ch_yi]) [ch_yi]"
    by (simp add: js_eval)
  have b2: "replace_str (ascii ''3'' @ [ch_yi]) [ch_yi] [] = ascii ''3''"
    by (simp add: js_eval)
  have c1: "\<not> includes_str (ascii ''1,234'') [ch_wan] \<and> \<not> includes_str (ascii ''1,234'') [ch_yi]"
    by (simp add: js_eval)
  note A = parseNumberWithUnit_branches [of "ascii ''2.5'' @ [ch_wan]"]
  note B = parseNumberWithUnit_branches [of "ascii ''3'' @ [ch_yi]"]
  note C = parseNumberWithUnit_branches [of "ascii ''1,234''"]
  have ra: "parseNumberWithUnit (ascii ''2.5'' @ [ch_wan])
     = num_times (parseFloat (ascii ''2.5'')) (Fin 10000)"
    using A [THEN conjunct2, THEN conjunct1, rule_format, OF a1] unfolding a2 .
  have rb: "parseNumberWithUnit (ascii ''3'' @ [ch_yi]) = num_times (parseFloat (ascii ''3'')) (Fin 100000000)"
    using B [THEN conjunct2, THEN conjunct2, THEN conjunct1, rule_format, OF b1] unfolding b2 .
  have c2: "parseNumberWithUnit (ascii ''1,234'') = Fin 1234"
    using C [THEN conjunct2, THEN conjunct2, THEN conjunct2, THEN conjunct2, THEN conjunct2, THEN conjunct1] .
  have rc: "is_integer (parseNumberWithUnit (ascii ''1,234''))"
    using C [THEN conjunct2, THEN conjunct2, THEN conjunct2, THEN conjunct1, rule_format, OF c1, THEN conjunct2]
    unfolding c2 by simp
  show ?thesis using a1 ra b1 rb c1 rc by (intro conjI) (elim conjE, assumption)+
qed

text \<open>
  C1 as stated fails: the token that is U+4E07 alone gives NaN, and \<^verbatim>\<open>1.23456\<close>+U+4E07
  gives a fraction (12345.6 in exact arithmetic), so the result is not an integer for
  every token and the product is not truncated.
\<close>

theorem parseNumberWithUnit_not_integer:
  "parseNumberWithUnit [ch_wan] = NaN \<and> \<not> is_integer (parseNumberWithUnit [ch_wan]) \<and>
   \<not> is_integer (parseNumberWithUnit (ascii ''1.23456'' @ [ch_wan]))"
proof -
  have t1: "parseNumberWithUnit [ch_wan] = NaN"
    by (simp add: parse_eval js_eval)
  have t2: "parseNumberWithUnit (ascii ''1.23456'' @ [ch_wan]) = Fin (61728 / 5)"
    by (simp add: parse_eval js_eval)
  have t3: "\<not> is_integer (Fin (61728 / 5))"
  proof
    assume "is_integer (Fin (61728 / 5))"
    then have "rat_of_int \<lfloor>61728 / 5 :: rat\<rfloor> = 61728 / 5" by simp
    then obtain k :: int where k: "rat_of_int k = 61728 / 5" by blast
    then have "rat_of_int (k * 5) = rat_of_int 61728" by simp
    then have "k * 5 = 61728" by (simp only: of_int_eq_iff)
    then show False by presburger
  qed
  have t4: "\<not> is_integer NaN" by simp
  show ?thesis unfolding t1 t2 using t3 t4 by (intro conjI refl)
qed

section \<open>The merge policy\<close>

text \<open>
  C2. In the merge step of either script, each numeric interaction field of the merged
  record is the detail value when that value is truthy (neither 0 nor NaN) and the
  card's value otherwise, so a merged 0 means the card already had 0; the author is the
  detail author when the detail author's id is non-empty, and the card's author when it
  is empty.
\<close>

theorem merge_policy:
  "n_likes (xhs_merge c d) =
     (if truthy_num (xi_likes (xd_interactions d)) then xi_likes (xd_interactions d) else n_likes c) \<and>
   n_collects (xhs_merge c d) =
     (if truthy_num (xi_collects (xd_interactions d)) then xi_collects (xd_interactions d)
      else n_collects c) \<and>
   n_comments (xhs_merge c d) =
     (if truthy_num (xi_comments (xd_interactions d)) then xi_comments (xd_interactions d)
      else n_comments c) \<and>
   (n_likes (xhs_merge c d) = Fin 0 \<longrightarrow> n_likes c = Fin 0) \<and>
   (n_collects (xhs_merge c d) = Fin 0 \<longrightarrow> n_collects c = Fin 0) \<and>
   (n_comments (xhs_merge c d) = Fin 0 \<longrightarrow> n_comments c = Fin 0) \<and>
   (a_id (xd_author d) \<noteq> [] \<longrightarrow> n_author (xhs_merge c d) = Some (xd_author d)) \<and>
   (a_id (xd_author d) = [] \<longrightarrow> n_author (xhs_merge c d) = n_author c) \<and>
   p_likes (wb_merge p w) =
     (if truthy_num (wi_likes (wd_interactions w)) then wi_likes (wd_interactions w) else p_likes p) \<and>
   p_reposts (wb_merge p w) =
     (if truthy_num (wi_reposts (wd_interactions w)) then wi_reposts (wd_interactions w)
      else p_reposts p) \<and>
   p_comments (wb_merge p w) =
     (if truthy_num (wi_comments (wd_interactions w)) then wi_comments (wd_interactions w)
      else p_comments p) \<and>
   (p_likes (wb_merge p w) = Fin 0 \<longrightarrow> p_likes p = Fin 0) \<and>
   (p_reposts (wb_merge p w) = Fin 0 \<longrightarrow> p_reposts p = Fin 0) \<and>
   (p_comments (wb_merge p w) = Fin 0 \<longrightarrow> p_comments p = Fin 0) \<and>
   (a_id (wd_author w) \<noteq> [] \<longrightarrow> p_author (wb_merge p w) = Some (wd_author w)) \<and>
   (a_id (wd_author w) = [] \<longrightarrow> p_author (wb_merge p w) = p_author p)"
  by (simp add: xhs_merge_def wb_merge_def num_or_def truthy_num_def)

theorem merge_policy_witness:
  "n_likes (xhs_merge sample_note (sample_detail (ascii ''u123''))) = Fin 5 \<and>
   n_collects (xhs_merge sample_note (sample_detail (ascii ''u123''))) = Fin 7 \<and>
   n_comments (xhs_merge sample_note (sample_detail (ascii ''u123''))) = Fin 0 \<and>
   n_author (xhs_merge sample_note (sample_detail (ascii ''u123''))) = Some (detail_author (ascii ''u123'')) \<and>
   n_author (xhs_merge sample_note (sample_detail [])) = Some card_author \<and>
   p_likes (wb_merge sample_post (sample_wdetail (ascii ''u123''))) = Fin 5 \<and>
   p_reposts (wb_merge sample_post (sample_wdetail (ascii ''u123''))) = Fin 7 \<and>
   p_comments (wb_merge sample_post (sample_wdetail (ascii ''u123''))) = Fin 0 \<and>
   p_author (wb_merge sample_post (sample_wdetail (ascii ''u123''))) = Some (detail_author (ascii ''u123'')) \<and>
   p_author (wb_merge sample_post (sample_wdetail [])) = Some card_author"
proof -
  have i1: "a_id (xd_author (sample_detail (ascii ''u123''))) \<noteq> []"
    by (simp add: sample_detail_def detail_author_def ascii_def)
  have i2: "a_id (xd_author (sample_detail [])) = []"
    by (simp add: sample_detail_def detail_author_def)
  have i3: "a_id (wd_author (sample_wdetail (ascii ''u123''))) \<noteq> []"
    by (simp add: sample_wdetail_def detail_author_def ascii_def)
  have i4: "a_id (wd_author (sample_wdetail [])) = []"
    by (simp add: sample_wdetail_def detail_author_def)
  have v: "xd_interactions (sample_detail i) = \<lparr>xi_likes = Fin 5, xi_collects = Fin 0, xi_comments = NaN\<rparr>"
          "wd_interactions (sample_wdetail i) = \<lparr>wi_likes = Fin 5, wi_reposts = Fin 0, wi_comments = NaN\<rparr>"
          "xd_author (sample_detail i) = detail_author i"
          "wd_author (sample_wdetail i) = detail_author i"
          "n_collects sample_note = Fin 7" "n_comments sample_note = Fin 0"
          "p_reposts sample_post = Fin 7" "p_comments sample_post = Fin 0"
          "n_author sample_note = Some card_author" "p_author sample_post = Some card_author" for i
    by (simp_all add: sample_detail_def sample_wdetail_def sample_note_def sample_post_def)
  note with_id = merge_policy [of sample_note "sample_detail (ascii ''u123'')" sample_post
                                  "sample_wdetail (ascii ''u123'')"]
  note without_id = merge_policy [of sample_note "sample_detail []" sample_post "sample_wdetail []"]
  show ?thesis
    using with_id without_id i1 i2 i3 i4 by (simp add: v truthy_num_def)
qed

section \<open>The cookie parser\<close>

text \<open>The keys of the parsed object are unique, whatever the cookie string.\<close>

lemma obj_set_distinct: "distinct (map fst acc) \<Longrightarrow> distinct (map fst (obj_set acc k v))"
  by (simp add: obj_set_def distinct_update)

lemma parseCookieString_keys_unique: "distinct (map fst (parseCookieString cookieString))"
proof -
  have "distinct (map fst acc) \<Longrightarrow>
        distinct (map fst (foldl (\<lambda>acc pair.
              (case destructure2 (split_chr ch_eq pair) of
                 (key, val) \<Rightarrow> obj_set acc (prop_key key) val)) acc pairs))" for acc pairs
    by (induction pairs arbitrary: acc) (simp_all add: obj_set_distinct split: prod.splits)
  then show ?thesis by (simp add: parseCookieString_def)
qed

text \<open>
  What the parser does on well-formed input: pairs are trimmed, a later pair overwrites an
  earlier one with the same key, a pair ending in \<^verbatim>\<open>=\<close> has the empty value, and the
  empty cookie string gives one entry with the empty key.
\<close>

lemma parseCookieString_examples:
  "parseCookieString (ascii ''sid=abc; theme=dark'')
     = [(ascii ''sid'', Str (ascii ''abc'')), (ascii ''theme'', Str (ascii ''dark''))]"
  "parseCookieString (ascii ''a=1; a=2'') = [(ascii ''a'', Str (ascii ''2''))]"
  "parseCookieString (ascii ''k='') = [(ascii ''k'', Str [])]"
  "parseCookieString [] = [([], Undefined)]"
  by (simp_all add: parseCookieString_def obj_set_def js_eval)

text \<open>
  C4, evaluated where the code departs from it. The pair is split at every \<^verbatim>\<open>=\<close> and
  only the first two pieces are kept: the cookie string \<^verbatim>\<open>a=b=c\<close> stores \<^verbatim>\<open>b\<close> for
  \<^verbatim>\<open>a\<close>, not \<^verbatim>\<open>b=c\<close>. A pair without \<^verbatim>\<open>=\<close> stores
  \<^verbatim>\<open>undefined\<close>, not the empty string.
\<close>

theorem parseCookieString_splits_every_eq:
  "parseCookieString (ascii ''a=b=c'') = [(ascii ''a'', Str (ascii ''b''))] \<and>
   parseCookieString (ascii ''k'') = [(ascii ''k'', Undefined)]"
  by (simp add: parseCookieString_def obj_set_def js_eval)

section \<open>The content extractor\<close>

text \<open>
  For the fields read with \<^verbatim>\<open>querySelector\<close> the second selector is used when the
  first finds no element.
\<close>

lemma single_element_fallback:
  "doc_querySelector d (ascii ''#noteContainer'') = None \<Longrightarrow>
   doc_querySelector d (ascii ''.note-container'') = Some e \<Longrightarrow>
   xhs_htmlContent d = outerHTML e"
  "doc_querySelector d (ascii ''.detail_wbtext_4CRf9'') = None \<Longrightarrow>
   doc_querySelector d (ascii ''.WB_text'') = Some e \<Longrightarrow>
   wb_content d = text_or_empty e"
  by (simp_all add: xhs_htmlContent_def wb_content_def elem_or_def)

text \<open>What the second image selector of the Xiaohongshu extractor would have given on \<open>legacy_doc\<close>.\<close>

lemma legacy_doc_alternates:
  "List.map_filter (\<lambda>img. if image_src_ok (getAttribute img (ascii ''src''))
              then getAttribute img (ascii ''src'') else None) (legacy_doc (ascii ''.media-container img''))
    = [ascii ''https://img.example/1.jpg'']"
  by (simp add: legacy_doc_def dom_eval js_eval)

text \<open>
  C5, evaluated where the code departs from it. For the fields read with
  \<^verbatim>\<open>querySelectorAll\<close> (images and tags on Xiaohongshu; images, topics and comments on
  Weibo) the elements read are those of the first selector, whatever the document: the
  NodeList on the left of \<^verbatim>\<open>||\<close> is truthy even when empty. On \<open>legacy_doc\<close>, which
  matches the second selectors only, each of these fields is extracted empty.
\<close>

theorem nodelist_fallback_not_taken:
  "xhs_imageElements d = d (ascii ''img.note-slider-img'') \<and>
   xhs_tagElements d = d (ascii ''.tag'') \<and>
   wb_imageElements d = d (ascii ''.picture_pic_86nBa'') \<and>
   wb_topicElements d = d (ascii ''a[href*=\"/k/\"]'') \<and>
   wb_commentItems d = d (ascii ''.Comment_content_22-FY'') \<and>
   legacy_doc (ascii ''.media-container img'') \<noteq> [] \<and>
   xd_images (extractNoteDetail legacy_doc) = [] \<and>
   legacy_doc (ascii ''a[id=\"hash-tag\"]'') \<noteq> [] \<and>
   xd_tags (extractNoteDetail legacy_doc) = [] \<and>
   legacy_doc (ascii ''.WB_media_wrap img'') \<noteq> [] \<and>
   wd_images (extractWeiboDetail legacy_doc) = [] \<and>
   legacy_doc (ascii ''a.a_topic'') \<noteq> [] \<and>
   wd_topics (extractWeiboDetail legacy_doc) = [] \<and>
   legacy_doc (ascii ''.WB_comment .list_li'') \<noteq> [] \<and>
   wd_commentList (extractWeiboDetail legacy_doc) = []"
proof -
  have g: "xhs_imageElements d = d (ascii ''img.note-slider-img'')"
          "xhs_tagElements d = d (ascii ''.tag'')"
          "wb_imageElements d = d (ascii ''.picture_pic_86nBa'')"
          "wb_topicElements d = d (ascii ''a[href*=\"/k/\"]'')"
          "wb_commentItems d = d (ascii ''.Comment_content_22-FY'')" for d
    by (simp_all add: xhs_imageElements_def xhs_tagElements_def wb_imageElements_def
          wb_topicElements_def wb_commentItems_def nodelist_or_def truthy_nodelist_def)
  have p: "legacy_doc (ascii ''img.note-slider-img'') = []" "legacy_doc (ascii ''.tag'') = []"
          "legacy_doc (ascii ''.picture_pic_86nBa'') = []"
          "legacy_doc (ascii ''a[href*=\"/k/\"]'') = []"
          "legacy_doc (ascii ''.Comment_content_22-FY'') = []"
    by (simp_all add: legacy_doc_def ascii_def)
  have a: "legacy_doc (ascii ''.media-container img'') \<noteq> []"
          "legacy_doc (ascii ''a[id=\"hash-tag\"]'') \<noteq> []"
          "legacy_doc (ascii ''.WB_media_wrap img'') \<noteq> []"
          "legacy_doc (ascii ''a.a_topic'') \<noteq> []"
          "legacy_doc (ascii ''.WB_comment .list_li'') \<noteq> []"
    by (simp_all add: legacy_doc_def ascii_def)
  have e: "xd_images (extractNoteDetail legacy_doc) = []"
          "xd_tags (extractNoteDetail legacy_doc) = []"
          "wd_images (extractWeiboDetail legacy_doc) = []"
          "wd_topics (extractWeiboDetail legacy_doc) = []"
          "wd_commentList (extractWeiboDetail legacy_doc) = []"
    by (simp_all add: extractNoteDetail_def extractWeiboDetail_def xhs_images_def xhs_tags_def
          wb_images_def wb_topics_def wb_commentList_def g p)
  from g a e show ?thesis by (intro conjI)
qed

text \<open>
  Where the two count parsers agree: on a text that is all digits once trimmed and
  stripped of commas, the Xiaohongshu extractor returns what \<open>parseNumberWithUnit\<close>
  returns.
\<close>

lemma includes_str_single: "includes_str s [c] \<longleftrightarrow> c \<in> set s"
  by (induction s) auto

lemma num_or_zero: "x \<noteq> NaN \<Longrightarrow> num_or x (Fin 0) = x"
  by (auto simp: num_or_def truthy_num_def)

lemma parseInt10_digits: "all_digits z \<Longrightarrow> parseInt10 z \<noteq> NaN"
proof -
  assume a: "all_digits z"
  then obtain c z' where z: "z = c # z'" and c: "is_digit c"
    by (cases z) (auto simp: all_digits_def)
  from c have "\<not> is_ws c" "c \<noteq> ch_minus" "c \<noteq> ch_plus"
    by (auto simp: is_digit_def is_ws_def ch_minus_def ch_plus_def)
  with z c show ?thesis
    by (simp add: parseInt10_def Let_def to_number_def)
qed

lemma xhs_count_text_agrees:
  assumes "all_digits (remove_commas (trim t))"
  shows "xhs_count_text t = parseNumberWithUnit (trim t)"
proof -
  have digits: "\<forall>c \<in> set (trim t). c = ch_comma \<or> is_digit c"
    using assms by (auto simp: all_digits_def remove_commas_def list_all_iff)
  have nw: "\<not> includes_str (trim t) [ch_wan]" and ny: "\<not> includes_str (trim t) [ch_yi]"
    using digits
    by (auto simp: includes_str_single is_digit_def ch_wan_def ch_yi_def ch_comma_def)
  have ne: "trim t \<noteq> []" using assms by (auto simp: all_digits_def remove_commas_def)
  from ne nw ny have "parseNumberWithUnit (trim t) = num_or (parseInt10 (remove_commas (trim t))) (Fin 0)"
    by (simp add: parseNumberWithUnit_def)
  also have "\<dots> = parseInt10 (remove_commas (trim t))"
    using parseInt10_digits [OF assms] by (rule num_or_zero)
  finally show ?thesis using assms by (simp add: xhs_count_text_def)
qed

text \<open>
  C6, evaluated where the code departs from it. On a detail page whose like count reads
  \<^verbatim>\<open>2.5\<close> followed by U+4E07, the Weibo extractor returns 25000, the value of
  \<open>parseNumberWithUnit\<close>; the Xiaohongshu extractor, which parses only all-digit text,
  returns 0.
\<close>

theorem detail_counts_with_unit:
  "xi_likes (xd_interactions (extractNoteDetail count_doc)) = Fin 0 \<and>
   wi_likes (wd_interactions (extractWeiboDetail count_doc)) = Fin 25000 \<and>
   parseNumberWithUnit tok_25wan = Fin 25000 \<and>
   xhs_count_text tok_25wan = Fin 0"
proof -
  have tr: "trim tok_25wan = tok_25wan" by (simp add: tok_25wan_def js_eval)
  have ne: "tok_25wan \<noteq> []" by (simp add: tok_25wan_def)
  have n: "parseNumberWithUnit tok_25wan = Fin 25000"
    by (simp add: tok_25wan_def parse_eval js_eval)
  have x: "xhs_count_text tok_25wan = Fin 0"
    by (simp add: xhs_count_text_def tr) (simp add: tok_25wan_def all_digits_def js_eval)
  have sl: "sel_like \<noteq> ascii ''.engage-bar-style''" by (simp add: sel_like_def ascii_def)
  have a: "xi_likes (xd_interactions (extractNoteDetail count_doc)) = Fin 0"
    by (simp add: extractNoteDetail_def xhs_interactions_of_def xhs_count_def count_doc_def
          count_bar_def dom_eval ne x)
  have b: "wi_likes (wd_interactions (extractWeiboDetail count_doc)) = Fin 25000"
    by (simp add: extractWeiboDetail_def wb_interactions_of_def wb_count_def count_doc_def sl
          dom_eval ne tr n)
  from a b n x show ?thesis by (intro conjI)
qed

section \<open>Tag normalization\<close>

lemma remove_ws_subset: "set (remove_ws s) \<subseteq> set s"
  by (auto simp: remove_ws_def)

lemma xhs_tags_members: "tag \<in> set (xhs_tags d) \<Longrightarrow> \<exists>t. tag = xhs_tagText t"
  by (auto simp: xhs_tags_def List.map_filter_def split: option.splits if_splits)

lemma wb_topics_members: "tag \<in> set (wb_topics d) \<Longrightarrow> \<exists>t. tag = wb_topicText t"
  by (auto simp: wb_topics_def List.map_filter_def split: option.splits if_splits)

lemma strip_leading_hash_cases:
  "s = ch_hash # rest \<Longrightarrow> strip_leading_hash s = rest"
  "\<forall>b. s \<noteq> ch_hash # b \<Longrightarrow> strip_leading_hash s = s"
  by (auto simp: strip_leading_hash_def split: list.splits)

lemma strip_trailing_hash_cases:
  "s = front @ [ch_hash] \<Longrightarrow> strip_trailing_hash s = front"
  "\<forall>m. s \<noteq> m @ [ch_hash] \<Longrightarrow> strip_trailing_hash s = s"
proof -
  show "s = front @ [ch_hash] \<Longrightarrow> strip_trailing_hash s = front"
    by (simp add: strip_trailing_hash_def)
  show "\<forall>m. s \<noteq> m @ [ch_hash] \<Longrightarrow> strip_trailing_hash s = s"
  proof -
    assume a: "\<forall>m. s \<noteq> m @ [ch_hash]"
    have "\<not> (s \<noteq> [] \<and> last s = ch_hash)"
    proof
      assume "s \<noteq> [] \<and> last s = ch_hash"
      then have "s = butlast s @ [ch_hash]" using append_butlast_last_id [of s] by simp
      with a show False by blast
    qed
    then show ?thesis by (auto simp: strip_trailing_hash_def)
  qed
qed

lemma tag_general:
  "(trim t = ch_hash # body \<longrightarrow> xhs_tagText t = remove_ws body) \<and>
   ((\<forall>b. trim t \<noteq> ch_hash # b) \<longrightarrow> xhs_tagText t = remove_ws (trim t)) \<and>
   (trim t = ch_hash # body @ [ch_hash] \<longrightarrow> wb_topicText t = remove_ws body) \<and>
   (trim t = ch_hash # body \<and> (\<forall>m. body \<noteq> m @ [ch_hash]) \<longrightarrow>
      wb_topicText t = remove_ws body) \<and>
   ((\<forall>b. trim t \<noteq> ch_hash # b) \<and> trim t = body @ [ch_hash] \<longrightarrow>
      wb_topicText t = remove_ws body) \<and>
   ((\<forall>b. trim t \<noteq> ch_hash # b) \<and> (\<forall>m. trim t \<noteq> m @ [ch_hash]) \<longrightarrow>
      wb_topicText t = remove_ws (trim t))"
proof (intro conjI impI)
  show "xhs_tagText t = remove_ws body" if "trim t = ch_hash # body"
    using that by (simp add: xhs_tagText_def strip_leading_hash_cases(1))
  show "xhs_tagText t = remove_ws (trim t)" if "\<forall>b. trim t \<noteq> ch_hash # b"
    using that by (simp add: xhs_tagText_def strip_leading_hash_cases(2))
  show "wb_topicText t = remove_ws body" if "trim t = ch_hash # body @ [ch_hash]"
  proof -
    from that have "strip_leading_hash (trim t) = body @ [ch_hash]"
      by (rule strip_leading_hash_cases(1))
    then show ?thesis by (simp add: wb_topicText_def strip_trailing_hash_cases(1))
  qed
  show "wb_topicText t = remove_ws body"
    if "trim t = ch_hash # body \<and> (\<forall>m. body \<noteq> m @ [ch_hash])"
  proof -
    from that have "strip_leading_hash (trim t) = body"
      by (simp add: strip_leading_hash_cases(1))
    with that show ?thesis by (simp add: wb_topicText_def strip_trailing_hash_cases(2))
  qed
  show "wb_topicText t = remove_ws body"
    if "(\<forall>b. trim t \<noteq> ch_hash # b) \<and> trim t = body @ [ch_hash]"
  proof -
    from that have nl: "\<forall>b. trim t \<noteq> ch_hash # b" and tr: "trim t = body @ [ch_hash]"
      by blast+
    from nl have "strip_leading_hash (trim t) = trim t"
      by (rule strip_leading_hash_cases(2))
    moreover from tr have "strip_trailing_hash (trim t) = body"
      by (rule strip_trailing_hash_cases(1))
    ultimately show ?thesis by (simp add: wb_topicText_def)
  qed
  show "wb_topicText t = remove_ws (trim t)"
    if "(\<forall>b. trim t \<noteq> ch_hash # b) \<and> (\<forall>m. trim t \<noteq> m @ [ch_hash])"
  proof -
    from that have nl: "\<forall>b. trim t \<noteq> ch_hash # b" and nt: "\<forall>m. trim t \<noteq> m @ [ch_hash]"
      by blast+
    from nl have "strip_leading_hash (trim t) = trim t"
      by (rule strip_leading_hash_cases(2))
    moreover from nt have "strip_trailing_hash (trim t) = trim t"
      by (rule strip_trailing_hash_cases(2))
    ultimately show ?thesis by (simp add: wb_topicText_def)
  qed
qed

text \<open>
  C8 (as the code has it). For every raw tag text the normalized tag is the trimmed
  text, without its first character when that is \<^verbatim>\<open>#\<close>, on Weibo then also without
  its last character when that is \<^verbatim>\<open>#\<close>, and with all white space removed. So the
  normalized tag of either extractor contains no white space, and so does every tag
  the extractors return; and when the trimmed text is \<^verbatim>\<open>#\<close> and a body without
  \<^verbatim>\<open>#\<close> (on Weibo also when the body is followed by one \<^verbatim>\<open>#\<close>), the normalized
  tag is the body without its white space and contains no \<^verbatim>\<open>#\<close>. The raw text
  \<open>tag_raw\<close> (\<^verbatim>\<open>#AI\<close>, a space and U+5B66 U+4E60, between spaces) gives
  \<open>tag_clean\<close> on both.
\<close>

theorem tag_normalization:
  "(\<forall>c \<in> set (xhs_tagText t). \<not> is_ws c) \<and>
   (\<forall>c \<in> set (wb_topicText t). \<not> is_ws c) \<and>
   (\<forall>tag \<in> set (xd_tags (extractNoteDetail d)). \<forall>c \<in> set tag. \<not> is_ws c) \<and>
   (\<forall>tag \<in> set (wd_topics (extractWeiboDetail d)). \<forall>c \<in> set tag. \<not> is_ws c) \<and>
   (trim t = ch_hash # body \<and> ch_hash \<notin> set body \<longrightarrow>
      xhs_tagText t = remove_ws body \<and> ch_hash \<notin> set (xhs_tagText t)) \<and>
   (trim t = ch_hash # body \<and> ch_hash \<notin> set body \<longrightarrow>
      wb_topicText t = remove_ws body \<and> ch_hash \<notin> set (wb_topicText t)) \<and>
   (trim t = ch_hash # body @ [ch_hash] \<and> ch_hash \<notin> set body \<longrightarrow>
      wb_topicText t = remove_ws body \<and> ch_hash \<notin> set (wb_topicText t)) \<and>
   xhs_tagText tag_raw = tag_clean \<and>
   wb_topicText tag_raw = tag_clean \<and>
   (trim t = ch_hash # body \<longrightarrow> xhs_tagText t = remove_ws body) \<and>
   ((\<forall>b. trim t \<noteq> ch_hash # b) \<longrightarrow> xhs_tagText t = remove_ws (trim t)) \<and>
   (trim t = ch_hash # body @ [ch_hash] \<longrightarrow> wb_topicText t = remove_ws body) \<and>
   (trim t = ch_hash # body \<and> (\<forall>m. body \<noteq> m @ [ch_hash]) \<longrightarrow>
      wb_topicText t = remove_ws body) \<and>
   ((\<forall>b. trim t \<noteq> ch_hash # b) \<and> trim t = body @ [ch_hash] \<longrightarrow>
      wb_topicText t = remove_ws body) \<and>
   ((\<forall>b. trim t \<noteq> ch_hash # b) \<and> (\<forall>m. trim t \<noteq> m @ [ch_hash]) \<longrightarrow>
      wb_topicText t = remove_ws (trim t))"
proof -
  have w1: "\<forall>c \<in> set (xhs_tagText t). \<not> is_ws c" for t
    by (simp add: xhs_tagText_def remove_ws_def)
  have w2: "\<forall>c \<in> set (wb_topicText t). \<not> is_ws c" for t
    by (simp add: wb_topicText_def remove_ws_def)
  have e1: "\<forall>tag \<in> set (xd_tags (extractNoteDetail d)). \<forall>c \<in> set tag. \<not> is_ws c"
    using xhs_tags_members w1 by (fastforce simp: extractNoteDetail_def)
  have e2: "\<forall>tag \<in> set (wd_topics (extractWeiboDetail d)). \<forall>c \<in> set tag. \<not> is_ws c"
    using wb_topics_members w2 by (fastforce simp: extractWeiboDetail_def)
  have nh: "ch_hash \<notin> set body \<Longrightarrow> ch_hash \<notin> set (remove_ws body)"
    using remove_ws_subset by blast
  have h1: "trim t = ch_hash # body \<and> ch_hash \<notin> set body \<longrightarrow>
      xhs_tagText t = remove_ws body \<and> ch_hash \<notin> set (xhs_tagText t)"
    using nh by (simp add: xhs_tagText_def strip_leading_hash_def)
  have last_body: "body \<noteq> [] \<Longrightarrow> ch_hash \<notin> set body \<Longrightarrow> last body \<noteq> ch_hash"
    using last_in_set by metis
  have h2: "trim t = ch_hash # body \<and> ch_hash \<notin> set body \<longrightarrow>
      wb_topicText t = remove_ws body \<and> ch_hash \<notin> set (wb_topicText t)"
    using nh last_body
    by (auto simp: wb_topicText_def strip_leading_hash_def strip_trailing_hash_def)
  have h3: "trim t = ch_hash # body @ [ch_hash] \<and> ch_hash \<notin> set body \<longrightarrow>
      wb_topicText t = remove_ws body \<and> ch_hash \<notin> set (wb_topicText t)"
    using nh by (simp add: wb_topicText_def strip_leading_hash_def strip_trailing_hash_def)
  have x1: "xhs_tagText tag_raw = tag_clean"
    by (simp add: xhs_tagText_def tag_raw_def tag_clean_def strip_leading_hash_def js_eval)
  have x2: "wb_topicText tag_raw = tag_clean"
    by (simp add: wb_topicText_def tag_raw_def tag_clean_def strip_leading_hash_def
          strip_trailing_hash_def js_eval)
  note g = tag_general [of t body]
  note g1 = g [THEN conjunct1]
  note g2 = g [THEN conjunct2, THEN conjunct1]
  note g3 = g [THEN conjunct2, THEN conjunct2, THEN conjunct1]
  note g4 = g [THEN conjunct2, THEN conjunct2, THEN conjunct2, THEN conjunct1]
  note g5 = g [THEN conjunct2, THEN conjunct2, THEN conjunct2, THEN conjunct2, THEN conjunct1]
  note g6 = g [THEN conjunct2, THEN conjunct2, THEN conjunct2, THEN conjunct2, THEN conjunct2]
  from w1 w2 e1 e2 h1 h2 h3 x1 x2 g1 g2 g3 g4 g5 g6 show ?thesis by (intro conjI)
qed

theorem tag_normalization_witness:
  "trim tag_raw = ch_hash # (ascii ''AI '' @ [ch_xue, ch_xi]) \<and>
   ch_hash \<notin> set (ascii ''AI '' @ [ch_xue, ch_xi]) \<and>
   xhs_tagText tag_raw = remove_ws (ascii ''AI '' @ [ch_xue, ch_xi]) \<and>
   ch_hash \<notin> set (xhs_tagText tag_raw) \<and>
   wb_topicText tag_raw = remove_ws (ascii ''AI '' @ [ch_xue, ch_xi]) \<and>
   trim (ascii ''#AI#'') = ch_hash # ascii ''AI'' @ [ch_hash] \<and>
   ch_hash \<notin> set (ascii ''AI'') \<and>
   wb_topicText (ascii ''#AI#'') = remove_ws (ascii ''AI'') \<and>
   ch_hash \<notin> set (wb_topicText (ascii ''#AI#'')) \<and>
   xd_tags (extractNoteDetail tag_doc) = [tag_clean] \<and>
   wd_topics (extractWeiboDetail tag_doc) = [tag_clean] \<and>
   ch_xue \<in> set tag_clean \<and> \<not> is_ws ch_xue \<and>
   trim (ascii ''AI'') = ascii ''AI'' \<and>
   xhs_tagText (ascii ''AI'') = remove_ws (ascii ''AI'') \<and>
   wb_topicText (ascii ''AI'') = remove_ws (ascii ''AI'') \<and>
   trim (ascii ''#AI'') = ch_hash # ascii ''AI'' \<and>
   wb_topicText (ascii ''#AI'') = remove_ws (ascii ''AI'') \<and>
   trim (ascii ''AI#'') = ascii ''AI'' @ [ch_hash] \<and>
   wb_topicText (ascii ''AI#'') = remove_ws (ascii ''AI'') \<and>
   xhs_tagText (ascii ''AI#'') = remove_ws (ascii ''AI#'')"
proof -
  have a1: "trim tag_raw = ch_hash # (ascii ''AI '' @ [ch_xue, ch_xi]) \<and>
            ch_hash \<notin> set (ascii ''AI '' @ [ch_xue, ch_xi])"
    by (simp add: tag_raw_def js_eval)
  have b1: "trim (ascii ''#AI#'') = ch_hash # ascii ''AI'' @ [ch_hash] \<and> ch_hash \<notin> set (ascii ''AI'')"
    by (simp add: js_eval)
  note A = tag_normalization [of tag_raw tag_doc "ascii ''AI '' @ [ch_xue, ch_xi]"]
  note B = tag_normalization [of "ascii ''#AI#''" tag_doc "ascii ''AI''"]
  have a2: "xhs_tagText tag_raw = remove_ws (ascii ''AI '' @ [ch_xue, ch_xi]) \<and>
            ch_hash \<notin> set (xhs_tagText tag_raw)"
    using A a1 by blast
  have a3: "wb_topicText tag_raw = remove_ws (ascii ''AI '' @ [ch_xue, ch_xi])"
    using A a1 by blast
  have b2: "wb_topicText (ascii ''#AI#'') = remove_ws (ascii ''AI'') \<and>
            ch_hash \<notin> set (wb_topicText (ascii ''#AI#''))"
    using B b1 by blast
  have x: "xhs_tagText tag_raw = tag_clean" "wb_topicText tag_raw = tag_clean"
    using A by blast+
  have ne: "tag_raw \<noteq> []" "tag_clean \<noteq> []" "\<not> includes_str tag_raw [ch_zuo, ch_zhe]"
    by (simp_all add: tag_raw_def tag_clean_def js_eval)
  have s: "ascii ''a[href*=\"/k/\"]'' \<noteq> ascii ''.tag''" by (simp add: ascii_def)
  have t1: "xd_tags (extractNoteDetail tag_doc) = [tag_clean]"
    by (simp add: extractNoteDetail_def xhs_tags_def xhs_tagElements_def tag_doc_def
          nodelist_or_def truthy_nodelist_def leaf_el_def x ne)
  have t2: "wd_topics (extractWeiboDetail tag_doc) = [tag_clean]"
    by (simp add: extractWeiboDetail_def wb_topics_def wb_topicElements_def tag_doc_def
          nodelist_or_def truthy_nodelist_def leaf_el_def x ne)
  have t3: "ch_xue \<in> set tag_clean" by (simp add: tag_clean_def)
  from A t1 have "\<forall>tag \<in> set [tag_clean]. \<forall>c \<in> set tag. \<not> is_ws c" by simp
  with t3 have t4: "\<not> is_ws ch_xue" by simp
  have no_end: "\<forall>m. s \<noteq> m @ [ch_hash]" if "s \<noteq> []" "last s \<noteq> ch_hash" for s
    using that by auto
  have c1: "trim (ascii ''AI'') = ascii ''AI''" by (simp add: js_eval)
  have c2: "\<forall>b. trim (ascii ''AI'') \<noteq> ch_hash # b" by (simp add: js_eval)
  have c3: "\<forall>m. trim (ascii ''AI'') \<noteq> m @ [ch_hash]"
    unfolding c1 by (rule no_end) (simp_all add: js_eval)
  note C = tag_normalization [of "ascii ''AI''" tag_doc "ascii ''AI''"]
  from C c2 have c4: "xhs_tagText (ascii ''AI'') = remove_ws (trim (ascii ''AI''))" by blast
  from C c2 c3 have c5: "wb_topicText (ascii ''AI'') = remove_ws (trim (ascii ''AI''))" by blast
  have d1: "trim (ascii ''#AI'') = ch_hash # ascii ''AI''" by (simp add: js_eval)
  have d2: "\<forall>m. ascii ''AI'' \<noteq> m @ [ch_hash]"
    by (rule no_end) (simp_all add: js_eval)
  note D = tag_normalization [of "ascii ''#AI''" tag_doc "ascii ''AI''"]
  from D d1 d2 have d3: "wb_topicText (ascii ''#AI'') = remove_ws (ascii ''AI'')" by blast
  have e1: "trim (ascii ''AI#'') = ascii ''AI'' @ [ch_hash]" by (simp add: js_eval)
  have e2: "\<forall>b. trim (ascii ''AI#'') \<noteq> ch_hash # b" by (simp add: js_eval)
  note E = tag_normalization [of "ascii ''AI#''" tag_doc "ascii ''AI''"]
  from E e1 e2 have e3: "wb_topicText (ascii ''AI#'') = remove_ws (ascii ''AI'')" by blast
  from E e2 have "xhs_tagText (ascii ''AI#'') = remove_ws (trim (ascii ''AI#''))" by blast
  then have e4: "xhs_tagText (ascii ''AI#'') = remove_ws (ascii ''AI#'')"
    unfolding e1 by (simp add: js_eval)
  from a1 a2 a3 b1 b2 t1 t2 t3 t4 c1 c4 [unfolded c1] c5 [unfolded c1] d1 d3 e1 e3 e4
  show ?thesis by (intro conjI) (elim conjE, assumption)+
qed

text \<open>
  C8 as stated fails: a second leading \<^verbatim>\<open>#\<close> stays on both sites, a second trailing
  one stays on Weibo, and on Xiaohongshu no trailing \<^verbatim>\<open>#\<close> is removed at all.
\<close>

theorem tag_normalization_counterexample:
  "xhs_tagText (ascii ''##AI'') = ascii ''#AI'' \<and>
   wb_topicText (ascii ''##AI'') = ascii ''#AI'' \<and>
   wb_topicText (ascii ''#AI##'') = ascii ''AI#'' \<and>
   xhs_tagText (ascii ''#AI#'') = ascii ''AI#''"
  by (simp add: xhs_tagText_def wb_topicText_def strip_leading_hash_def
        strip_trailing_hash_def js_eval)

section \<open>The feed walker: the enrichment loop\<close>

lemma throws_simps [simp]: "throws (Throws e)" "\<not> throws (Returns x)"
  by (simp_all add: throws_def)

lemma throws_obind_unit:
  "throws (obind m (\<lambda>u. k)) \<longleftrightarrow> throws m \<or> throws k" for m :: "unit outcome"
  by (cases m) (simp_all add: obind_def)

lemma listing_document_throws:
  "throws (listing_document env) \<longleftrightarrow>
     throws (re_newPage env) \<or> throws (re_cookies env) \<or> throws (re_deleteCookie env) \<or>
     throws (set_all (re_setCookie env) (parseCookieString (str_or (re_cookie env) []))) \<or>
     throws (re_goto env) \<or> throws (re_autoScroll env) \<or> throws (re_listing env)"
  by (simp add: listing_document_def setupCookies_def throws_obind_unit)

subsection \<open>Xiaohongshu\<close>

lemma xhs_item_append: "xhs_item ie c acc = acc @ xhs_item ie c []"
  by (simp add: xhs_item_def Let_def split: outcome.splits)

lemma xhs_item_nonempty: "xhs_item ie c [] \<noteq> []"
  by (simp add: xhs_item_def Let_def split: outcome.splits)

lemma xhs_item_members:
  "r \<in> set (xhs_item ie c []) \<Longrightarrow>
     r = c \<or> (\<exists>d. ie_evaluate ie = Returns d \<and> r = xhs_merge c (extractNoteDetail d))"
  by (auto simp: xhs_item_def Let_def split: outcome.splits if_splits)

lemma xhs_item_goto: "xhs_item (ie\<lparr>ie_goto := g\<rparr>) c acc = xhs_item ie c acc"
  by (simp add: xhs_item_def Let_def split: outcome.splits)

lemma xhs_item_closed:
  "\<not> throws (ie_close ie) \<Longrightarrow>
   xhs_item ie c [] =
     [if n_url c = [] \<or> throws (ie_newPage ie) \<or> throws (ie_setViewport ie) then c
      else (case ie_evaluate ie of
              Throws e \<Rightarrow> c
            | Returns d \<Rightarrow> xhs_merge c (extractNoteDetail d))]"
  by (cases "ie_close ie") (simp_all add: xhs_item_def Let_def split: outcome.splits)

lemma xhs_item_close_throws:
  "n_url c \<noteq> [] \<Longrightarrow> \<not> throws (ie_newPage ie) \<Longrightarrow> \<not> throws (ie_setViewport ie) \<Longrightarrow>
   throws (ie_close ie) \<Longrightarrow>
   xhs_item ie c [] =
     [case ie_evaluate ie of Throws e \<Rightarrow> c | Returns d \<Rightarrow> xhs_merge c (extractNoteDetail d), c]"
  by (cases "ie_close ie"; cases "ie_newPage ie"; cases "ie_setViewport ie")
     (simp_all add: xhs_item_def Let_def split: outcome.splits)

lemma xhs_loop_append: "xhs_loop items i cs acc = acc @ xhs_loop items i cs []"
proof (induction cs arbitrary: i acc)
  case Nil
  show ?case by simp
next
  case (Cons c cs)
  have "xhs_loop items i (c # cs) acc = xhs_loop items (Suc i) cs (xhs_item (items i) c acc)"
    by simp
  also have "\<dots> = xhs_item (items i) c acc @ xhs_loop items (Suc i) cs []"
    by (rule Cons.IH)
  also have "\<dots> = acc @ xhs_item (items i) c [] @ xhs_loop items (Suc i) cs []"
    by (subst xhs_item_append) simp
  also have "xhs_item (items i) c [] @ xhs_loop items (Suc i) cs []
               = xhs_loop items (Suc i) cs (xhs_item (items i) c [])"
    by (rule Cons.IH [symmetric])
  finally show ?case by simp
qed

lemma xhs_loop_Cons:
  "xhs_loop items i (c # cs) [] = xhs_item (items i) c [] @ xhs_loop items (Suc i) cs []"
  using xhs_loop_append [of items "Suc i" cs "xhs_item (items i) c []"] by simp

lemma xhs_loop_concat:
  "xhs_loop items i cs [] =
     concat (map (\<lambda>j. xhs_item (items (i + j)) (cs ! j) []) [0..<length cs])"
proof (induction cs arbitrary: i)
  case Nil
  show ?case by simp
next
  case (Cons c cs)
  have "[0..<length (c # cs)] = 0 # map Suc [0..<length cs]"
    by (simp add: upt_conv_Cons map_Suc_upt del: upt_Suc)
  then show ?case
    by (simp add: xhs_loop_Cons Cons.IH comp_def del: upt_Suc xhs_loop.simps)
qed

lemma xhs_loop_length_ge: "length cs \<le> length (xhs_loop items i cs [])"
proof (induction cs arbitrary: i)
  case Nil
  show ?case by simp
next
  case (Cons c cs)
  have "1 \<le> length (xhs_item (items i) c [])"
    using xhs_item_nonempty [of "items i" c] by (cases "xhs_item (items i) c []") simp_all
  with Cons.IH [of "Suc i"] show ?case by (simp add: xhs_loop_Cons del: xhs_loop.simps)
qed

lemma xhs_loop_length_gt:
  "j < length cs \<Longrightarrow> 2 \<le> length (xhs_item (items (i + j)) (cs ! j) []) \<Longrightarrow>
   length cs < length (xhs_loop items i cs [])"
proof (induction cs arbitrary: i j)
  case Nil
  then show ?case by simp
next
  case (Cons c cs)
  show ?case
  proof (cases j)
    case 0
    with Cons.prems have "2 \<le> length (xhs_item (items i) c [])" by simp
    with xhs_loop_length_ge [of cs items "Suc i"] show ?thesis by (simp add: xhs_loop_Cons del: xhs_loop.simps)
  next
    case (Suc k)
    with Cons.prems have "k < length cs" "2 \<le> length (xhs_item (items (Suc i + k)) (cs ! k) [])"
      by simp_all
    then have "length cs < length (xhs_loop items (Suc i) cs [])" by (rule Cons.IH)
    moreover have "1 \<le> length (xhs_item (items i) c [])"
      using xhs_item_nonempty [of "items i" c] by (cases "xhs_item (items i) c []") simp_all
    ultimately show ?thesis by (simp add: xhs_loop_Cons del: xhs_loop.simps)
  qed
qed

lemma xhs_loop_members:
  "r \<in> set (xhs_loop items i cs []) \<Longrightarrow>
     \<exists>c \<in> set cs. r = c \<or> (\<exists>d. r = xhs_merge c (extractNoteDetail d))"
proof (induction cs arbitrary: i)
  case Nil
  then show ?case by simp
next
  case (Cons c cs)
  from Cons.prems have "r \<in> set (xhs_item (items i) c []) \<or> r \<in> set (xhs_loop items (Suc i) cs [])"
    by (simp add: xhs_loop_Cons del: xhs_loop.simps)
  then show ?case
  proof
    assume "r \<in> set (xhs_item (items i) c [])"
    from xhs_item_members [OF this] show ?thesis by auto
  next
    assume "r \<in> set (xhs_loop items (Suc i) cs [])"
    from Cons.IH [OF this] show ?thesis by auto
  qed
qed

lemma xhs_loop_closed:
  "(\<forall>j < length cs. \<not> throws (ie_close (items (i + j)))) \<Longrightarrow>
   xhs_loop items i cs [] =
     map (\<lambda>j. if n_url (cs ! j) = [] \<or> throws (ie_newPage (items (i + j)))
                   \<or> throws (ie_setViewport (items (i + j))) then cs ! j
               else (case ie_evaluate (items (i + j)) of
                       Throws e \<Rightarrow> cs ! j
                     | Returns d \<Rightarrow> xhs_merge (cs ! j) (extractNoteDetail d)))
         [0..<length cs]"
proof -
  assume closed: "\<forall>j < length cs. \<not> throws (ie_close (items (i + j)))"
  have "map (\<lambda>j. xhs_item (items (i + j)) (cs ! j) []) [0..<length cs]
        = map (\<lambda>j. [if n_url (cs ! j) = [] \<or> throws (ie_newPage (items (i + j)))
                   \<or> throws (ie_setViewport (items (i + j))) then cs ! j
               else (case ie_evaluate (items (i + j)) of
                       Throws e \<Rightarrow> cs ! j
                     | Returns d \<Rightarrow> xhs_merge (cs ! j) (extractNoteDetail d))]) [0..<length cs]"
    using closed by (intro map_cong refl xhs_item_closed) simp
  then show ?thesis
    by (simp only: xhs_loop_concat) (simp add: concat_map_singleton del: upt_Suc)
qed

subsection \<open>Weibo\<close>

lemma wb_item_append: "wb_item ie c acc = acc @ wb_item ie c []"
  by (simp add: wb_item_def Let_def split: outcome.splits)

lemma wb_item_nonempty: "wb_item ie c [] \<noteq> []"
  by (simp add: wb_item_def Let_def split: outcome.splits)

lemma wb_item_members:
  "r \<in> set (wb_item ie c []) \<Longrightarrow>
     r = c \<or> (\<exists>d. ie_evaluate ie = Returns d \<and> r = wb_merge c (extractWeiboDetail d))"
  by (auto simp: wb_item_def Let_def split: outcome.splits if_splits)

lemma wb_item_goto: "wb_item (ie\<lparr>ie_goto := g\<rparr>) c acc = wb_item ie c acc"
  by (simp add: wb_item_def Let_def split: outcome.splits)

lemma wb_item_closed:
  "\<not> throws (ie_close ie) \<Longrightarrow>
   wb_item ie c [] =
     [if p_url c = [] \<or> throws (ie_newPage ie) \<or> throws (ie_setViewport ie) then c
      else (case ie_evaluate ie of
              Throws e \<Rightarrow> c
            | Returns d \<Rightarrow> wb_merge c (extractWeiboDetail d))]"
  by (cases "ie_close ie") (simp_all add: wb_item_def Let_def split: outcome.splits)

lemma wb_item_close_throws:
  "p_url c \<noteq> [] \<Longrightarrow> \<not> throws (ie_newPage ie) \<Longrightarrow> \<not> throws (ie_setViewport ie) \<Longrightarrow>
   throws (ie_close ie) \<Longrightarrow>
   wb_item ie c [] =
     [case ie_evaluate ie of Throws e \<Rightarrow> c | Returns d \<Rightarrow> wb_merge c (extractWeiboDetail d), c]"
  by (cases "ie_close ie"; cases "ie_newPage ie"; cases "ie_setViewport ie")
     (simp_all add: wb_item_def Let_def split: outcome.splits)

lemma wb_loop_append: "wb_loop items i cs acc = acc @ wb_loop items i cs []"
proof (induction cs arbitrary: i acc)
  case Nil
  show ?case by simp
next
  case (Cons c cs)
  have "wb_loop items i (c # cs) acc = wb_loop items (Suc i) cs (wb_item (items i) c acc)"
    by simp
  also have "\<dots> = wb_item (items i) c acc @ wb_loop items (Suc i) cs []"
    by (rule Cons.IH)
  also have "\<dots> = acc @ wb_item (items i) c [] @ wb_loop items (Suc i) cs []"
    by (subst wb_item_append) simp
  also have "wb_item (items i) c [] @ wb_loop items (Suc i) cs []
               = wb_loop items (Suc i) cs (wb_item (items i) c [])"
    by (rule Cons.IH [symmetric])
  finally show ?case by simp
qed

lemma wb_loop_Cons:
  "wb_loop items i (c # cs) [] = wb_item (items i) c [] @ wb_loop items (Suc i) cs []"
  using wb_loop_append [of items "Suc i" cs "wb_item (items i) c []"] by simp

lemma wb_loop_concat:
  "wb_loop items i cs [] =
     concat (map (\<lambda>j. wb_item (items (i + j)) (cs ! j) []) [0..<length cs])"
proof (induction cs arbitrary: i)
  case Nil
  show ?case by simp
next
  case (Cons c cs)
  have "[0..<length (c # cs)] = 0 # map Suc [0..<length cs]"
    by (simp add: upt_conv_Cons map_Suc_upt del: upt_Suc)
  then show ?case
    by (simp add: wb_loop_Cons Cons.IH comp_def del: upt_Suc wb_loop.simps)
qed

lemma wb_loop_length_ge: "length cs \<le> length (wb_loop items i cs [])"
proof (induction cs arbitrary: i)
  case Nil
  show ?case by simp
next
  case (Cons c cs)
  have "1 \<le> length (wb_item (items i) c [])"
    using wb_item_nonempty [of "items i" c] by (cases "wb_item (items i) c []") simp_all
  with Cons.IH [of "Suc i"] show ?case by (simp add: wb_loop_Cons del: wb_loop.simps)
qed

lemma wb_loop_length_gt:
  "j < length cs \<Longrightarrow> 2 \<le> length (wb_item (items (i + j)) (cs ! j) []) \<Longrightarrow>
   length cs < length (wb_loop items i cs [])"
proof (induction cs arbitrary: i j)
  case Nil
  then show ?case by simp
next
  case (Cons c cs)
  show ?case
  proof (cases j)
    case 0
    with Cons.prems have "2 \<le> length (wb_item (items i) c [])" by simp
    with wb_loop_length_ge [of cs items "Suc i"] show ?thesis by (simp add: wb_loop_Cons del: wb_loop.simps)
  next
    case (Suc k)
    with Cons.prems have "k < length cs" "2 \<le> length (wb_item (items (Suc i + k)) (cs ! k) [])"
      by simp_all
    then have "length cs < length (wb_loop items (Suc i) cs [])" by (rule Cons.IH)
    moreover have "1 \<le> length (wb_item (items i) c [])"
      using wb_item_nonempty [of "items i" c] by (cases "wb_item (items i) c []") simp_all
    ultimately show ?thesis by (simp add: wb_loop_Cons del: wb_loop.simps)
  qed
qed

lemma wb_loop_members:
  "r \<in> set (wb_loop items i cs []) \<Longrightarrow>
     \<exists>c \<in> set cs. r = c \<or> (\<exists>d. r = wb_merge c (extractWeiboDetail d))"
proof (induction cs arbitrary: i)
  case Nil
  then show ?case by simp
next
  case (Cons c cs)
  from Cons.prems have "r \<in> set (wb_item (items i) c []) \<or> r \<in> set (wb_loop items (Suc i) cs [])"
    by (simp add: wb_loop_Cons del: wb_loop.simps)
  then show ?case
  proof
    assume "r \<in> set (wb_item (items i) c [])"
    from wb_item_members [OF this] show ?thesis by auto
  next
    assume "r \<in> set (wb_loop items (Suc i) cs [])"
    from Cons.IH [OF this] show ?thesis by auto
  qed
qed

lemma wb_loop_closed:
  "(\<forall>j < length cs. \<not> throws (ie_close (items (i + j)))) \<Longrightarrow>
   wb_loop items i cs [] =
     map (\<lambda>j. if p_url (cs ! j) = [] \<or> throws (ie_newPage (items (i + j)))
                   \<or> throws (ie_setViewport (items (i + j))) then cs ! j
               else (case ie_evaluate (items (i + j)) of
                       Throws e \<Rightarrow> cs ! j
                     | Returns d \<Rightarrow> wb_merge (cs ! j) (extractWeiboDetail d)))
         [0..<length cs]"
proof -
  assume closed: "\<forall>j < length cs. \<not> throws (ie_close (items (i + j)))"
  have "map (\<lambda>j. wb_item (items (i + j)) (cs ! j) []) [0..<length cs]
        = map (\<lambda>j. [if p_url (cs ! j) = [] \<or> throws (ie_newPage (items (i + j)))
                   \<or> throws (ie_setViewport (items (i + j))) then cs ! j
               else (case ie_evaluate (items (i + j)) of
                       Throws e \<Rightarrow> cs ! j
                     | Returns d \<Rightarrow> wb_merge (cs ! j) (extractWeiboDetail d))]) [0..<length cs]"
    using closed by (intro map_cong refl wb_item_closed) simp
  then show ?thesis
    by (simp only: wb_loop_concat) (simp add: concat_map_singleton del: upt_Suc)
qed

section \<open>The feed walker: runs\<close>

lemma fetchLatestNotes_rejected:
  "fetchLatestNotes env limit = Rejected e \<longleftrightarrow>
     re_launch env = Throws e \<or> (\<not> throws (re_launch env) \<and> re_close env = Throws e)"
  by (cases "re_launch env"; cases "re_close env")
     (simp_all add: fetchLatestNotes_def Let_def)

lemma fetchLatestNotes_failure:
  "\<not> throws (re_launch env) \<Longrightarrow> \<not> throws (re_close env) \<Longrightarrow>
   listing_document env = Throws err \<Longrightarrow>
   fetchLatestNotes env limit =
     Resolved \<lparr>fr_success = False, fr_notes = None, fr_error = Some (message err)\<rparr>"
  by (cases "re_launch env"; cases "re_close env")
     (simp_all add: fetchLatestNotes_def Let_def)

lemma fetchLatestNotes_success:
  "\<not> throws (re_launch env) \<Longrightarrow> \<not> throws (re_close env) \<Longrightarrow>
   listing_document env = Returns d \<Longrightarrow>
   fetchLatestNotes env limit =
     Resolved \<lparr>fr_success = True,
               fr_notes = Some (xhs_loop (re_items env) 0
                                  (xhs_noteCards d (limit_or_default limit)) []),
               fr_error = None\<rparr>"
  by (cases "re_launch env"; cases "re_close env")
     (simp_all add: fetchLatestNotes_def Let_def)

lemma fetchLatestWeibo_rejected:
  "fetchLatestWeibo env limit = Rejected e \<longleftrightarrow>
     re_launch env = Throws e \<or> (\<not> throws (re_launch env) \<and> re_close env = Throws e)"
  by (cases "re_launch env"; cases "re_close env")
     (simp_all add: fetchLatestWeibo_def Let_def)

lemma fetchLatestWeibo_failure:
  "\<not> throws (re_launch env) \<Longrightarrow> \<not> throws (re_close env) \<Longrightarrow>
   listing_document env = Throws err \<Longrightarrow>
   fetchLatestWeibo env limit =
     Resolved \<lparr>wr_success = False, wr_posts = None, wr_error = Some (message err)\<rparr>"
  by (cases "re_launch env"; cases "re_close env")
     (simp_all add: fetchLatestWeibo_def Let_def)

lemma fetchLatestWeibo_success:
  "\<not> throws (re_launch env) \<Longrightarrow> \<not> throws (re_close env) \<Longrightarrow>
   listing_document env = Returns d \<Longrightarrow>
   fetchLatestWeibo env limit =
     Resolved \<lparr>wr_success = True,
               wr_posts = Some (wb_loop (re_items env) 0
                                  (wb_weiboCards d (limit_or_default limit)) []),
               wr_error = None\<rparr>"
  by (cases "re_launch env"; cases "re_close env")
     (simp_all add: fetchLatestWeibo_def Let_def)

lemma parseCookieString_sid:
  "parseCookieString (ascii ''sid=abc'') = [(ascii ''sid'', Str (ascii ''abc''))]"
  by (simp add: parseCookieString_def obj_set_def js_eval)

lemma plain_env_cookies_set:
  "setupCookies (plain_env d items) (str_or (re_cookie (plain_env d items)) []) = Returns ()"
proof -
  have c: "str_or (Some (ascii ''sid=abc'')) [] = ascii ''sid=abc''"
    by (simp add: str_or_def ascii_def)
  show ?thesis
    by (simp add: plain_env_def setupCookies_def obind_def c parseCookieString_sid)
qed

lemma plain_env_fields:
  "re_launch (plain_env d items) = Returns ()"
  "re_close (plain_env d items) = Returns ()"
  "re_items (plain_env d items) = items"
  "listing_document (plain_env d items) = Returns d"
  using plain_env_cookies_set [of d items]
  by (simp_all add: listing_document_def obind_def) (simp_all add: plain_env_def)

lemma linked_card_url:
  "h \<noteq> [] \<Longrightarrow> n_url (xhs_card (linked_card h)) = xhs_absolute h"
  by (simp add: xhs_card_def linked_card_def dom_eval Let_def)

lemma wb_linked_card_url:
  "h \<noteq> [] \<Longrightarrow> p_url (wb_card (wb_linked_card h)) = wb_absolute h"
  by (simp add: wb_card_def wb_cardUrl_def wb_linked_card_def dom_eval Let_def)

lemma bare_card_url: "n_url (xhs_card bare_card) = []"
  by (simp add: xhs_card_def bare_card_def dom_eval nth_opt_def Let_def)

lemma xhs_card_initial:
  "n_images (xhs_card el) = Some []" "n_fullContent (xhs_card el) = Some []"
  by (simp_all add: xhs_card_def Let_def)

lemma body_doc_content: "xhs_content body_doc = ascii ''body''"
  by (simp add: xhs_content_def body_doc_def dom_eval js_eval)

lemma xhs_merge_fields:
  "n_url (xhs_merge c d) = n_url c" "n_id (xhs_merge c d) = n_id c"
  "n_images (xhs_merge c d) = Some (xd_images d)"
  "n_fullContent (xhs_merge c d) = Some (xd_content d)"
  by (simp_all add: xhs_merge_def)

lemma wb_merge_fields:
  "p_url (wb_merge c d) = p_url c" "p_id (wb_merge c d) = p_id c"
  "p_images (wb_merge c d) = Some (wd_images d)"
  by (simp_all add: wb_merge_def)

text \<open>
  C10. In the enrichment loop of either script the result is the concatenation, in card
  order, of what each iteration appends. Every iteration appends at least one record,
  each of them the card or its merge with the extracted detail, so the result is never
  shorter than the list of cards. When the detail page was opened and its viewport set
  but closing the page throws, the iteration has already appended a record (the merged
  one, or the card after a failed extraction) and the outer handler appends the card
  again: two records for one card, and a result longer than the list of cards.
\<close>

theorem duplicate_append:
  "xhs_loop items 0 cs [] = concat (map (\<lambda>j. xhs_item (items j) (cs ! j) []) [0..<length cs]) \<and>
   (\<forall>j < length cs.
      xhs_item (items j) (cs ! j) [] \<noteq> [] \<and>
      (\<forall>r \<in> set (xhs_item (items j) (cs ! j) []).
         r = cs ! j \<or>
         (\<exists>d. ie_evaluate (items j) = Returns d \<and> r = xhs_merge (cs ! j) (extractNoteDetail d)))) \<and>
   length cs \<le> length (xhs_loop items 0 cs []) \<and>
   (\<forall>j < length cs.
      n_url (cs ! j) \<noteq> [] \<and> \<not> throws (ie_newPage (items j)) \<and>
      \<not> throws (ie_setViewport (items j)) \<and> throws (ie_close (items j)) \<longrightarrow>
        xhs_item (items j) (cs ! j) [] =
          [case ie_evaluate (items j) of
             Throws e \<Rightarrow> cs ! j
           | Returns d \<Rightarrow> xhs_merge (cs ! j) (extractNoteDetail d),
           cs ! j] \<and>
        length cs < length (xhs_loop items 0 cs [])) \<and>
   wb_loop items 0 ps [] = concat (map (\<lambda>j. wb_item (items j) (ps ! j) []) [0..<length ps]) \<and>
   (\<forall>j < length ps.
      wb_item (items j) (ps ! j) [] \<noteq> [] \<and>
      (\<forall>r \<in> set (wb_item (items j) (ps ! j) []).
         r = ps ! j \<or>
         (\<exists>d. ie_evaluate (items j) = Returns d \<and> r = wb_merge (ps ! j) (extractWeiboDetail d)))) \<and>
   length ps \<le> length (wb_loop items 0 ps []) \<and>
   (\<forall>j < length ps.
      p_url (ps ! j) \<noteq> [] \<and> \<not> throws (ie_newPage (items j)) \<and>
      \<not> throws (ie_setViewport (items j)) \<and> throws (ie_close (items j)) \<longrightarrow>
        wb_item (items j) (ps ! j) [] =
          [case ie_evaluate (items j) of
             Throws e \<Rightarrow> ps ! j
           | Returns d \<Rightarrow> wb_merge (ps ! j) (extractWeiboDetail d),
           ps ! j] \<and>
        length ps < length (wb_loop items 0 ps []))"
proof -
  have x1: "xhs_loop items 0 cs [] = concat (map (\<lambda>j. xhs_item (items j) (cs ! j) []) [0..<length cs])"
    using xhs_loop_concat [of items 0 cs] by simp
  have x2: "\<forall>j < length cs.
      xhs_item (items j) (cs ! j) [] \<noteq> [] \<and>
      (\<forall>r \<in> set (xhs_item (items j) (cs ! j) []).
         r = cs ! j \<or>
         (\<exists>d. ie_evaluate (items j) = Returns d \<and> r = xhs_merge (cs ! j) (extractNoteDetail d)))"
    using xhs_item_nonempty xhs_item_members by blast
  have x3: "length cs \<le> length (xhs_loop items 0 cs [])"
    by (rule xhs_loop_length_ge)
  have x4: "\<forall>j < length cs.
      n_url (cs ! j) \<noteq> [] \<and> \<not> throws (ie_newPage (items j)) \<and>
      \<not> throws (ie_setViewport (items j)) \<and> throws (ie_close (items j)) \<longrightarrow>
        xhs_item (items j) (cs ! j) [] =
          [case ie_evaluate (items j) of
             Throws e \<Rightarrow> cs ! j
           | Returns d \<Rightarrow> xhs_merge (cs ! j) (extractNoteDetail d),
           cs ! j] \<and>
        length cs < length (xhs_loop items 0 cs [])"
  proof (intro allI impI)
    fix j
    assume j: "j < length cs"
      and h: "n_url (cs ! j) \<noteq> [] \<and> \<not> throws (ie_newPage (items j)) \<and>
              \<not> throws (ie_setViewport (items j)) \<and> throws (ie_close (items j))"
    from h have two: "xhs_item (items j) (cs ! j) [] =
          [case ie_evaluate (items j) of
             Throws e \<Rightarrow> cs ! j
           | Returns d \<Rightarrow> xhs_merge (cs ! j) (extractNoteDetail d),
           cs ! j]"
      by (intro xhs_item_close_throws) simp_all
    then have "2 \<le> length (xhs_item (items (0 + j)) (cs ! j) [])" by simp
    with j have "length cs < length (xhs_loop items 0 cs [])" by (rule xhs_loop_length_gt)
    with two show "xhs_item (items j) (cs ! j) [] =
          [case ie_evaluate (items j) of
             Throws e \<Rightarrow> cs ! j
           | Returns d \<Rightarrow> xhs_merge (cs ! j) (extractNoteDetail d),
           cs ! j] \<and>
        length cs < length (xhs_loop items 0 cs [])" by (rule conjI)
  qed
  have w1: "wb_loop items 0 ps [] = concat (map (\<lambda>j. wb_item (items j) (ps ! j) []) [0..<length ps])"
    using wb_loop_concat [of items 0 ps] by simp
  have w2: "\<forall>j < length ps.
      wb_item (items j) (ps ! j) [] \<noteq> [] \<and>
      (\<forall>r \<in> set (wb_item (items j) (ps ! j) []).
         r = ps ! j \<or>
         (\<exists>d. ie_evaluate (items j) = Returns d \<and> r = wb_merge (ps ! j) (extractWeiboDetail d)))"
    using wb_item_nonempty wb_item_members by blast
  have w3: "length ps \<le> length (wb_loop items 0 ps [])"
    by (rule wb_loop_length_ge)
  have w4: "\<forall>j < length ps.
      p_url (ps ! j) \<noteq> [] \<and> \<not> throws (ie_newPage (items j)) \<and>
      \<not> throws (ie_setViewport (items j)) \<and> throws (ie_close (items j)) \<longrightarrow>
        wb_item (items j) (ps ! j) [] =
          [case ie_evaluate (items j) of
             Throws e \<Rightarrow> ps ! j
           | Returns d \<Rightarrow> wb_merge (ps ! j) (extractWeiboDetail d),
           ps ! j] \<and>
        length ps < length (wb_loop items 0 ps [])"
  proof (intro allI impI)
    fix j
    assume j: "j < length ps"
      and h: "p_url (ps ! j) \<noteq> [] \<and> \<not> throws (ie_newPage (items j)) \<and>
              \<not> throws (ie_setViewport (items j)) \<and> throws (ie_close (items j))"
    from h have two: "wb_item (items j) (ps ! j) [] =
          [case ie_evaluate (items j) of
             Throws e \<Rightarrow> ps ! j
           | Returns d \<Rightarrow> wb_merge (ps ! j) (extractWeiboDetail d),
           ps ! j]"
      by (intro wb_item_close_throws) simp_all
    then have "2 \<le> length (wb_item (items (0 + j)) (ps ! j) [])" by simp
    with j have "length ps < length (wb_loop items 0 ps [])" by (rule wb_loop_length_gt)
    with two show "wb_item (items j) (ps ! j) [] =
          [case ie_evaluate (items j) of
             Throws e \<Rightarrow> ps ! j
           | Returns d \<Rightarrow> wb_merge (ps ! j) (extractWeiboDetail d),
           ps ! j] \<and>
        length ps < length (wb_loop items 0 ps [])" by (rule conjI)
  qed
  from x1 x2 x3 x4 w1 w2 w3 w4 show ?thesis by (intro conjI)
qed

lemma sample_urls: "n_url sample_note \<noteq> []" "p_url sample_post \<noteq> []"
  by (simp_all add: sample_note_def sample_post_def ascii_def)

lemma close_fails_fields:
  "ie_newPage (close_fails j) = Returns ()" "ie_setViewport (close_fails j) = Returns ()"
  "ie_evaluate (close_fails j) = Returns body_doc" "ie_close (close_fails j) = Throws boom"
  by (simp_all add: close_fails_def plain_item_def)

theorem duplicate_append_witness:
  "n_url sample_note \<noteq> [] \<and> throws (ie_close (close_fails 0)) \<and>
   xhs_loop close_fails 0 [sample_note] [] =
     [xhs_merge sample_note (extractNoteDetail body_doc), sample_note] \<and>
   length [sample_note] < length (xhs_loop close_fails 0 [sample_note] []) \<and>
   p_url sample_post \<noteq> [] \<and>
   wb_loop close_fails 0 [sample_post] [] =
     [wb_merge sample_post (extractWeiboDetail body_doc), sample_post] \<and>
   length [sample_post] < length (wb_loop close_fails 0 [sample_post] [])"
proof -
  note D = duplicate_append [of close_fails "[sample_note]" "[sample_post]"]
  have hx: "n_url ([sample_note] ! 0) \<noteq> [] \<and> \<not> throws (ie_newPage (close_fails 0)) \<and>
      \<not> throws (ie_setViewport (close_fails 0)) \<and> throws (ie_close (close_fails 0))"
    by (simp add: sample_urls close_fails_fields)
  have hw: "p_url ([sample_post] ! 0) \<noteq> [] \<and> \<not> throws (ie_newPage (close_fails 0)) \<and>
      \<not> throws (ie_setViewport (close_fails 0)) \<and> throws (ie_close (close_fails 0))"
    by (simp add: sample_urls close_fails_fields)
  from D have x4: "\<forall>j < length [sample_note].
      n_url ([sample_note] ! j) \<noteq> [] \<and> \<not> throws (ie_newPage (close_fails j)) \<and>
      \<not> throws (ie_setViewport (close_fails j)) \<and> throws (ie_close (close_fails j)) \<longrightarrow>
        xhs_item (close_fails j) ([sample_note] ! j) [] =
          [case ie_evaluate (close_fails j) of
             Throws e \<Rightarrow> [sample_note] ! j
           | Returns d \<Rightarrow> xhs_merge ([sample_note] ! j) (extractNoteDetail d),
           [sample_note] ! j] \<and>
        length [sample_note] < length (xhs_loop close_fails 0 [sample_note] [])"
    by (elim conjE)
  from D have w4: "\<forall>j < length [sample_post].
      p_url ([sample_post] ! j) \<noteq> [] \<and> \<not> throws (ie_newPage (close_fails j)) \<and>
      \<not> throws (ie_setViewport (close_fails j)) \<and> throws (ie_close (close_fails j)) \<longrightarrow>
        wb_item (close_fails j) ([sample_post] ! j) [] =
          [case ie_evaluate (close_fails j) of
             Throws e \<Rightarrow> [sample_post] ! j
           | Returns d \<Rightarrow> wb_merge ([sample_post] ! j) (extractWeiboDetail d),
           [sample_post] ! j] \<and>
        length [sample_post] < length (wb_loop close_fails 0 [sample_post] [])"
    by (elim conjE)
  from D have x1: "xhs_loop close_fails 0 [sample_note] [] =
      concat (map (\<lambda>j. xhs_item (close_fails j) ([sample_note] ! j) []) [0..<length [sample_note]])"
    by (elim conjE)
  from D have w1: "wb_loop close_fails 0 [sample_post] [] =
      concat (map (\<lambda>j. wb_item (close_fails j) ([sample_post] ! j) []) [0..<length [sample_post]])"
    by (elim conjE)
  from x4 hx have xi: "xhs_item (close_fails 0) sample_note [] =
       [xhs_merge sample_note (extractNoteDetail body_doc), sample_note]"
     and xl: "length [sample_note] < length (xhs_loop close_fails 0 [sample_note] [])"
    by (simp_all add: close_fails_fields)
  from w4 hw have wi: "wb_item (close_fails 0) sample_post [] =
       [wb_merge sample_post (extractWeiboDetail body_doc), sample_post]"
     and wl: "length [sample_post] < length (wb_loop close_fails 0 [sample_post] [])"
    by (simp_all add: close_fails_fields)
  have xv: "xhs_loop close_fails 0 [sample_note] [] =
     [xhs_merge sample_note (extractNoteDetail body_doc), sample_note]"
    unfolding x1 by (simp add: xi)
  have wv: "wb_loop close_fails 0 [sample_post] [] =
     [wb_merge sample_post (extractWeiboDetail body_doc), sample_post]"
    unfolding w1 by (simp add: wi)
  have t: "throws (ie_close (close_fails 0))" by (simp add: close_fails_fields)
  from sample_urls t xv xl wv wl show ?thesis by (intro conjI)
qed

lemma xhs_loop_closed_nth:
  assumes "\<forall>j < length cs. \<not> throws (ie_close (items j))" and "j < length cs"
  shows "xhs_loop items 0 cs [] ! j =
           (if n_url (cs ! j) = [] \<or> throws (ie_newPage (items j))
               \<or> throws (ie_setViewport (items j)) then cs ! j
            else (case ie_evaluate (items j) of
                    Throws e \<Rightarrow> cs ! j
                  | Returns d \<Rightarrow> xhs_merge (cs ! j) (extractNoteDetail d)))"
    and "length (xhs_loop items 0 cs []) = length cs"
  using assms xhs_loop_closed [of cs items 0] by (simp_all split: outcome.splits)

lemma wb_loop_closed_nth:
  assumes "\<forall>j < length cs. \<not> throws (ie_close (items j))" and "j < length cs"
  shows "wb_loop items 0 cs [] ! j =
           (if p_url (cs ! j) = [] \<or> throws (ie_newPage (items j))
               \<or> throws (ie_setViewport (items j)) then cs ! j
            else (case ie_evaluate (items j) of
                    Throws e \<Rightarrow> cs ! j
                  | Returns d \<Rightarrow> wb_merge (cs ! j) (extractWeiboDetail d)))"
    and "length (wb_loop items 0 cs []) = length cs"
  using assms wb_loop_closed [of cs items 0] by (simp_all split: outcome.splits)

lemma xhs_loop_closed_length:
  "\<forall>j < length cs. \<not> throws (ie_close (items j)) \<Longrightarrow> length (xhs_loop items 0 cs []) = length cs"
  using xhs_loop_closed [of cs items 0] by simp

lemma wb_loop_closed_length:
  "\<forall>j < length cs. \<not> throws (ie_close (items j)) \<Longrightarrow> length (wb_loop items 0 cs []) = length cs"
  using wb_loop_closed [of cs items 0] by simp

lemma slice0_all: "slice0 xs (Fin (of_nat (length xs))) = xs"
  by (simp add: slice0_def trunc_rat_def)

lemma three_cards_enumerated:
  "xhs_noteCards (listing_of three_cards) (limit_or_default (Some (Fin 3))) = map xhs_card three_cards"
  using slice0_all [of three_cards]
  by (simp add: xhs_noteCards_def listing_of_def limit_or_default_def three_cards_def)

lemma plain_env_goto_throws:
  "listing_document ((plain_env d items)\<lparr>re_goto := Throws err\<rparr>) = Throws err"
proof -
  have c: "str_or (Some (ascii ''sid=abc'')) [] = ascii ''sid=abc''"
    by (simp add: str_or_def ascii_def)
  show ?thesis
    by (simp add: plain_env_def listing_document_def setupCookies_def obind_def c
          parseCookieString_sid)
qed

lemma plain_env_cookies_throws:
  "listing_document ((plain_env d items)\<lparr>re_cookies := Throws err\<rparr>) = Throws err"
  by (simp add: plain_env_def listing_document_def setupCookies_def obind_def str_or_def)

lemma second_fails_fields:
  "\<not> throws (ie_close (second_fails j))" "\<not> throws (ie_newPage (second_fails j))"
  "\<not> throws (ie_setViewport (second_fails j))"
  "throws (ie_evaluate (second_fails 1))" "ie_evaluate (second_fails 0) = Returns body_doc"
  by (simp_all add: second_fails_def plain_item_def)

lemma three_cards_urls:
  "n_url (xhs_card (linked_card (ascii ''/explore/a1''))) \<noteq> []"
  by (simp add: linked_card_url xhs_absolute_def ascii_def)

lemma wb_three_cards_enumerated:
  "wb_weiboCards (listing_of wb_three_cards) (limit_or_default (Some (Fin 3))) = map wb_card wb_three_cards"
  using slice0_all [of wb_three_cards]
  by (simp add: wb_weiboCards_def listing_of_def limit_or_default_def wb_three_cards_def)

lemma wb_three_cards_urls:
  "p_url (wb_card (wb_linked_card (ascii ''/u/1/p1''))) \<noteq> []"
  by (simp add: wb_linked_card_url wb_absolute_def ascii_def)

lemma feed_walk_outcomes_xhs:
  "(fetchLatestNotes env limit = Rejected e \<longleftrightarrow>
      re_launch env = Throws e \<or> (\<not> throws (re_launch env) \<and> re_close env = Throws e)) \<and>
   (throws (listing_document env) \<longleftrightarrow>
      throws (re_newPage env) \<or> throws (re_cookies env) \<or> throws (re_deleteCookie env) \<or>
      throws (set_all (re_setCookie env) (parseCookieString (str_or (re_cookie env) []))) \<or>
      throws (re_goto env) \<or> throws (re_autoScroll env) \<or> throws (re_listing env)) \<and>
   (\<not> throws (re_launch env) \<and> \<not> throws (re_close env) \<longrightarrow>
      (\<forall>err. listing_document env = Throws err \<longrightarrow>
         fetchLatestNotes env limit =
           Resolved \<lparr>fr_success = False, fr_notes = None, fr_error = Some (message err)\<rparr>) \<and>
      (\<forall>d. listing_document env = Returns d \<longrightarrow>
         fetchLatestNotes env limit =
           Resolved \<lparr>fr_success = True,
                     fr_notes = Some (xhs_loop (re_items env) 0
                                        (xhs_noteCards d (limit_or_default limit)) []),
                     fr_error = None\<rparr>)) \<and>
   (\<forall>r. fetchLatestNotes env limit = Resolved r \<longrightarrow>
      (\<not> fr_success r \<longleftrightarrow> throws (listing_document env)) \<and>
      (\<not> fr_success r \<longrightarrow> fr_notes r = None)) \<and>
   xhs_item (ie\<lparr>ie_goto := g\<rparr>) c acc = xhs_item ie c acc \<and>
   ((\<forall>j < length cs. \<not> throws (ie_close (items j))) \<longrightarrow>
      length (xhs_loop items 0 cs []) = length cs \<and>
      (\<forall>j < length cs.
         (n_url (cs ! j) = [] \<or> throws (ie_newPage (items j)) \<or>
          throws (ie_setViewport (items j)) \<or> throws (ie_evaluate (items j)) \<longrightarrow>
            xhs_loop items 0 cs [] ! j = cs ! j) \<and>
         (\<forall>d. n_url (cs ! j) \<noteq> [] \<and> \<not> throws (ie_newPage (items j)) \<and>
              \<not> throws (ie_setViewport (items j)) \<and> ie_evaluate (items j) = Returns d \<longrightarrow>
            xhs_loop items 0 cs [] ! j = xhs_merge (cs ! j) (extractNoteDetail d))))"
proof -
  have p1: "fetchLatestNotes env limit = Rejected e \<longleftrightarrow>
      re_launch env = Throws e \<or> (\<not> throws (re_launch env) \<and> re_close env = Throws e)"
    by (rule fetchLatestNotes_rejected)
  note p2 = listing_document_throws [of env]
  have p3: "\<not> throws (re_launch env) \<and> \<not> throws (re_close env) \<longrightarrow>
      (\<forall>err. listing_document env = Throws err \<longrightarrow>
         fetchLatestNotes env limit =
           Resolved \<lparr>fr_success = False, fr_notes = None, fr_error = Some (message err)\<rparr>) \<and>
      (\<forall>d. listing_document env = Returns d \<longrightarrow>
         fetchLatestNotes env limit =
           Resolved \<lparr>fr_success = True,
                     fr_notes = Some (xhs_loop (re_items env) 0
                                        (xhs_noteCards d (limit_or_default limit)) []),
                     fr_error = None\<rparr>)"
    using fetchLatestNotes_failure fetchLatestNotes_success by blast
  have p4: "\<forall>r. fetchLatestNotes env limit = Resolved r \<longrightarrow>
      (\<not> fr_success r \<longleftrightarrow> throws (listing_document env)) \<and>
      (\<not> fr_success r \<longrightarrow> fr_notes r = None)"
    by (cases "re_launch env"; cases "re_close env"; cases "listing_document env")
       (auto simp: fetchLatestNotes_def Let_def)
  have p5: "xhs_item (ie\<lparr>ie_goto := g\<rparr>) c acc = xhs_item ie c acc"
    by (rule xhs_item_goto)
  have p6: "(\<forall>j < length cs. \<not> throws (ie_close (items j))) \<longrightarrow>
      length (xhs_loop items 0 cs []) = length cs \<and>
      (\<forall>j < length cs.
         (n_url (cs ! j) = [] \<or> throws (ie_newPage (items j)) \<or>
          throws (ie_setViewport (items j)) \<or> throws (ie_evaluate (items j)) \<longrightarrow>
            xhs_loop items 0 cs [] ! j = cs ! j) \<and>
         (\<forall>d. n_url (cs ! j) \<noteq> [] \<and> \<not> throws (ie_newPage (items j)) \<and>
              \<not> throws (ie_setViewport (items j)) \<and> ie_evaluate (items j) = Returns d \<longrightarrow>
            xhs_loop items 0 cs [] ! j = xhs_merge (cs ! j) (extractNoteDetail d)))"
  proof (intro impI conjI allI)
    assume closed: "\<forall>j < length cs. \<not> throws (ie_close (items j))"
    show "length (xhs_loop items 0 cs []) = length cs"
      using closed by (rule xhs_loop_closed_length)
    fix j
    assume j: "j < length cs"
    note nth = xhs_loop_closed_nth(1) [OF closed j]
    show "xhs_loop items 0 cs [] ! j = cs ! j"
      if "n_url (cs ! j) = [] \<or> throws (ie_newPage (items j)) \<or>
          throws (ie_setViewport (items j)) \<or> throws (ie_evaluate (items j))"
      using that unfolding nth by (cases "ie_evaluate (items j)") auto
    show "xhs_loop items 0 cs [] ! j = xhs_merge (cs ! j) (extractNoteDetail d)"
      if "n_url (cs ! j) \<noteq> [] \<and> \<not> throws (ie_newPage (items j)) \<and>
              \<not> throws (ie_setViewport (items j)) \<and> ie_evaluate (items j) = Returns d" for d
      using that unfolding nth by simp
  qed
  from p1 p2 p3 p4 p5 p6 show ?thesis by (intro conjI)
qed

lemma feed_walk_outcomes_wb:
  "(fetchLatestWeibo env limit = Rejected e \<longleftrightarrow>
      re_launch env = Throws e \<or> (\<not> throws (re_launch env) \<and> re_close env = Throws e)) \<and>
   (throws (listing_document env) \<longleftrightarrow>
      throws (re_newPage env) \<or> throws (re_cookies env) \<or> throws (re_deleteCookie env) \<or>
      throws (set_all (re_setCookie env) (parseCookieString (str_or (re_cookie env) []))) \<or>
      throws (re_goto env) \<or> throws (re_autoScroll env) \<or> throws (re_listing env)) \<and>
   (\<not> throws (re_launch env) \<and> \<not> throws (re_close env) \<longrightarrow>
      (\<forall>err. listing_document env = Throws err \<longrightarrow>
         fetchLatestWeibo env limit =
           Resolved \<lparr>wr_success = False, wr_posts = None, wr_error = Some (message err)\<rparr>) \<and>
      (\<forall>d. listing_document env = Returns d \<longrightarrow>
         fetchLatestWeibo env limit =
           Resolved \<lparr>wr_success = True,
                     wr_posts = Some (wb_loop (re_items env) 0
                                        (wb_weiboCards d (limit_or_default limit)) []),
                     wr_error = None\<rparr>)) \<and>
   (\<forall>r. fetchLatestWeibo env limit = Resolved r \<longrightarrow>
      (\<not> wr_success r \<longleftrightarrow> throws (listing_document env)) \<and>
      (\<not> wr_success r \<longrightarrow> wr_posts r = None)) \<and>
   wb_item (ie\<lparr>ie_goto := g\<rparr>) c acc = wb_item ie c acc \<and>
   ((\<forall>j < length cs. \<not> throws (ie_close (items j))) \<longrightarrow>
      length (wb_loop items 0 cs []) = length cs \<and>
      (\<forall>j < length cs.
         (p_url (cs ! j) = [] \<or> throws (ie_newPage (items j)) \<or>
          throws (ie_setViewport (items j)) \<or> throws (ie_evaluate (items j)) \<longrightarrow>
            wb_loop items 0 cs [] ! j = cs ! j) \<and>
         (\<forall>d. p_url (cs ! j) \<noteq> [] \<and> \<not> throws (ie_newPage (items j)) \<and>
              \<not> throws (ie_setViewport (items j)) \<and> ie_evaluate (items j) = Returns d \<longrightarrow>
            wb_loop items 0 cs [] ! j = wb_merge (cs ! j) (extractWeiboDetail d))))"
proof -
  have p1: "fetchLatestWeibo env limit = Rejected e \<longleftrightarrow>
      re_launch env = Throws e \<or> (\<not> throws (re_launch env) \<and> re_close env = Throws e)"
    by (rule fetchLatestWeibo_rejected)
  note p2 = listing_document_throws [of env]
  have p3: "\<not> throws (re_launch env) \<and> \<not> throws (re_close env) \<longrightarrow>
      (\<forall>err. listing_document env = Throws err \<longrightarrow>
         fetchLatestWeibo env limit =
           Resolved \<lparr>wr_success = False, wr_posts = None, wr_error = Some (message err)\<rparr>) \<and>
      (\<forall>d. listing_document env = Returns d \<longrightarrow>
         fetchLatestWeibo env limit =
           Resolved \<lparr>wr_success = True,
                     wr_posts = Some (wb_loop (re_items env) 0
                                        (wb_weiboCards d (limit_or_default limit)) []),
                     wr_error = None\<rparr>)"
    using fetchLatestWeibo_failure fetchLatestWeibo_success by blast
  have p4: "\<forall>r. fetchLatestWeibo env limit = Resolved r \<longrightarrow>
      (\<not> wr_success r \<longleftrightarrow> throws (listing_document env)) \<and>
      (\<not> wr_success r \<longrightarrow> wr_posts r = None)"
    by (cases "re_launch env"; cases "re_close env"; cases "listing_document env")
       (auto simp: fetchLatestWeibo_def Let_def)
  have p5: "wb_item (ie\<lparr>ie_goto := g\<rparr>) c acc = wb_item ie c acc"
    by (rule wb_item_goto)
  have p6: "(\<forall>j < length cs. \<not> throws (ie_close (items j))) \<longrightarrow>
      length (wb_loop items 0 cs []) = length cs \<and>
      (\<forall>j < length cs.
         (p_url (cs ! j) = [] \<or> throws (ie_newPage (items j)) \<or>
          throws (ie_setViewport (items j)) \<or> throws (ie_evaluate (items j)) \<longrightarrow>
            wb_loop items 0 cs [] ! j = cs ! j) \<and>
         (\<forall>d. p_url (cs ! j) \<noteq> [] \<and> \<not> throws (ie_newPage (items j)) \<and>
              \<not> throws (ie_setViewport (items j)) \<and> ie_evaluate (items j) = Returns d \<longrightarrow>
            wb_loop items 0 cs [] ! j = wb_merge (cs ! j) (extractWeiboDetail d)))"
  proof (intro impI conjI allI)
    assume closed: "\<forall>j < length cs. \<not> throws (ie_close (items j))"
    show "length (wb_loop items 0 cs []) = length cs"
      using closed by (rule wb_loop_closed_length)
    fix j
    assume j: "j < length cs"
    note nth = wb_loop_closed_nth(1) [OF closed j]
    show "wb_loop items 0 cs [] ! j = cs ! j"
      if "p_url (cs ! j) = [] \<or> throws (ie_newPage (items j)) \<or>
          throws (ie_setViewport (items j)) \<or> throws (ie_evaluate (items j))"
      using that unfolding nth by (cases "ie_evaluate (items j)") auto
    show "wb_loop items 0 cs [] ! j = wb_merge (cs ! j) (extractWeiboDetail d)"
      if "p_url (cs ! j) \<noteq> [] \<and> \<not> throws (ie_newPage (items j)) \<and>
              \<not> throws (ie_setViewport (items j)) \<and> ie_evaluate (items j) = Returns d" for d
      using that unfolding nth by simp
  qed
  from p1 p2 p3 p4 p5 p6 show ?thesis by (intro conjI)
qed

text \<open>
  C3 (as the code has it), for the walker of either script. The launch is outside the guarded
  block: its error, like an error of the final close of the browser, rejects the promise.
  When both return, the result is \<^verbatim>\<open>{success: false, error}\<close> without records exactly
  when a step of the guarded block before the loop throws (opening the listing page, the
  cookie setup, the navigation, the scrolling, the enumeration), and
  \<^verbatim>\<open>{success: true}\<close> with the records of the loop otherwise. In an iteration the
  outcome of the detail navigation changes nothing: the extraction is attempted in
  either case. When the detail pages close normally the loop returns exactly one record
  per card, in order: the card itself when it has no url or when opening the page,
  setting the viewport or the extraction throws, and the merge of the card with the
  extracted detail otherwise.
\<close>

theorem feed_walk_outcomes:
  "((fetchLatestNotes env limit = Rejected e \<longleftrightarrow>
      re_launch env = Throws e \<or> (\<not> throws (re_launch env) \<and> re_close env = Throws e)) \<and>
   (throws (listing_document env) \<longleftrightarrow>
      throws (re_newPage env) \<or> throws (re_cookies env) \<or> throws (re_deleteCookie env) \<or>
      throws (set_all (re_setCookie env) (parseCookieString (str_or (re_cookie env) []))) \<or>
      throws (re_goto env) \<or> throws (re_autoScroll env) \<or> throws (re_listing env)) \<and>
   (\<not> throws (re_launch env) \<and> \<not> throws (re_close env) \<longrightarrow>
      (\<forall>err. listing_document env = Throws err \<longrightarrow>
         fetchLatestNotes env limit =
           Resolved \<lparr>fr_success = False, fr_notes = None, fr_error = Some (message err)\<rparr>) \<and>
      (\<forall>d. listing_document env = Returns d \<longrightarrow>
         fetchLatestNotes env limit =
           Resolved \<lparr>fr_success = True,
                     fr_notes = Some (xhs_loop (re_items env) 0
                                        (xhs_noteCards d (limit_or_default limit)) []),
                     fr_error = None\<rparr>)) \<and>
   (\<forall>r. fetchLatestNotes env limit = Resolved r \<longrightarrow>
      (\<not> fr_success r \<longleftrightarrow> throws (listing_document env)) \<and>
      (\<not> fr_success r \<longrightarrow> fr_notes r = None)) \<and>
   xhs_item (ie\<lparr>ie_goto := g\<rparr>) c acc = xhs_item ie c acc \<and>
   ((\<forall>j < length cs. \<not> throws (ie_close (items j))) \<longrightarrow>
      length (xhs_loop items 0 cs []) = length cs \<and>
      (\<forall>j < length cs.
         (n_url (cs ! j) = [] \<or> throws (ie_newPage (items j)) \<or>
          throws (ie_setViewport (items j)) \<or> throws (ie_evaluate (items j)) \<longrightarrow>
            xhs_loop items 0 cs [] ! j = cs ! j) \<and>
         (\<forall>d. n_url (cs ! j) \<noteq> [] \<and> \<not> throws (ie_newPage (items j)) \<and>
              \<not> throws (ie_setViewport (items j)) \<and> ie_evaluate (items j) = Returns d \<longrightarrow>
            xhs_loop items 0 cs [] ! j = xhs_merge (cs ! j) (extractNoteDetail d))))) \<and>
   ((fetchLatestWeibo env limit = Rejected e \<longleftrightarrow>
      re_launch env = Throws e \<or> (\<not> throws (re_launch env) \<and> re_close env = Throws e)) \<and>
   (throws (listing_document env) \<longleftrightarrow>
      throws (re_newPage env) \<or> throws (re_cookies env) \<or> throws (re_deleteCookie env) \<or>
      throws (set_all (re_setCookie env) (parseCookieString (str_or (re_cookie env) []))) \<or>
      throws (re_goto env) \<or> throws (re_autoScroll env) \<or> throws (re_listing env)) \<and>
   (\<not> throws (re_launch env) \<and> \<not> throws (re_close env) \<longrightarrow>
      (\<forall>err. listing_document env = Throws err \<longrightarrow>
         fetchLatestWeibo env limit =
           Resolved \<lparr>wr_success = False, wr_posts = None, wr_error = Some (message err)\<rparr>) \<and>
      (\<forall>d. listing_document env = Returns d \<longrightarrow>
         fetchLatestWeibo env limit =
           Resolved \<lparr>wr_success = True,
                     wr_posts = Some (wb_loop (re_items env) 0
                                        (wb_weiboCards d (limit_or_default limit)) []),
                     wr_error = None\<rparr>)) \<and>
   (\<forall>r. fetchLatestWeibo env limit = Resolved r \<longrightarrow>
      (\<not> wr_success r \<longleftrightarrow> throws (listing_document env)) \<and>
      (\<not> wr_success r \<longrightarrow> wr_posts r = None)) \<and>
   wb_item (ie\<lparr>ie_goto := g\<rparr>) p pacc = wb_item ie p pacc \<and>
   ((\<forall>j < length ps. \<not> throws (ie_close (items j))) \<longrightarrow>
      length (wb_loop items 0 ps []) = length ps \<and>
      (\<forall>j < length ps.
         (p_url (ps ! j) = [] \<or> throws (ie_newPage (items j)) \<or>
          throws (ie_setViewport (items j)) \<or> throws (ie_evaluate (items j)) \<longrightarrow>
            wb_loop items 0 ps [] ! j = ps ! j) \<and>
         (\<forall>d. p_url (ps ! j) \<noteq> [] \<and> \<not> throws (ie_newPage (items j)) \<and>
              \<not> throws (ie_setViewport (items j)) \<and> ie_evaluate (items j) = Returns d \<longrightarrow>
            wb_loop items 0 ps [] ! j = wb_merge (ps ! j) (extractWeiboDetail d)))))"
  by (rule conjI [OF feed_walk_outcomes_xhs feed_walk_outcomes_wb])

theorem feed_walk_outcomes_witness:
  "fetchLatestNotes (plain_env (listing_of three_cards) second_fails) (Some (Fin 3)) =
     Resolved \<lparr>fr_success = True,
               fr_notes = Some (xhs_loop second_fails 0 (map xhs_card three_cards) []),
               fr_error = None\<rparr> \<and>
   length (xhs_loop second_fails 0 (map xhs_card three_cards) []) = 3 \<and>
   throws (ie_evaluate (second_fails 1)) \<and>
   xhs_loop second_fails 0 (map xhs_card three_cards) [] ! 1
     = xhs_card (linked_card (ascii ''/explore/a2'')) \<and>
   xhs_loop second_fails 0 (map xhs_card three_cards) [] ! 0
     = xhs_merge (xhs_card (linked_card (ascii ''/explore/a1''))) (extractNoteDetail body_doc) \<and>
   fetchLatestNotes ((plain_env (listing_of three_cards) second_fails)\<lparr>re_goto := Throws boom\<rparr>)
       (Some (Fin 3)) =
     Resolved \<lparr>fr_success = False, fr_notes = None, fr_error = Some (ascii ''boom'')\<rparr> \<and>
   fetchLatestNotes ((plain_env (listing_of three_cards) second_fails)\<lparr>re_launch := Throws boom\<rparr>)
       (Some (Fin 3)) = Rejected boom \<and>
   fetchLatestWeibo (plain_env (listing_of wb_three_cards) second_fails) (Some (Fin 3)) =
     Resolved \<lparr>wr_success = True,
               wr_posts = Some (wb_loop second_fails 0 (map wb_card wb_three_cards) []),
               wr_error = None\<rparr> \<and>
   length (wb_loop second_fails 0 (map wb_card wb_three_cards) []) = 3 \<and>
   throws (ie_evaluate (second_fails 1)) \<and>
   wb_loop second_fails 0 (map wb_card wb_three_cards) [] ! 1
     = wb_card (wb_linked_card (ascii ''/u/1/p2'')) \<and>
   wb_loop second_fails 0 (map wb_card wb_three_cards) [] ! 0
     = wb_merge (wb_card (wb_linked_card (ascii ''/u/1/p1''))) (extractWeiboDetail body_doc) \<and>
   fetchLatestWeibo ((plain_env (listing_of wb_three_cards) second_fails)\<lparr>re_goto := Throws boom\<rparr>)
       (Some (Fin 3)) =
     Resolved \<lparr>wr_success = False, wr_posts = None, wr_error = Some (ascii ''boom'')\<rparr> \<and>
   fetchLatestWeibo ((plain_env (listing_of wb_three_cards) second_fails)\<lparr>re_launch := Throws boom\<rparr>)
       (Some (Fin 3)) = Rejected boom"
proof -
  let ?env = "plain_env (listing_of three_cards) second_fails"
  let ?cs = "map xhs_card three_cards"
  note A = feed_walk_outcomes [where env = ?env and limit = "Some (Fin 3)" and cs = ?cs
                                 and items = second_fails, THEN conjunct1]
  note B = feed_walk_outcomes [where env = "?env\<lparr>re_goto := Throws boom\<rparr>"
                                 and limit = "Some (Fin 3)", THEN conjunct1]
  note C = feed_walk_outcomes [where env = "?env\<lparr>re_launch := Throws boom\<rparr>"
                                 and limit = "Some (Fin 3)" and e = boom, THEN conjunct1]
  have ok: "\<not> throws (re_launch ?env) \<and> \<not> throws (re_close ?env)"
    by (simp add: plain_env_fields)
  have okB: "\<not> throws (re_launch (?env\<lparr>re_goto := Throws boom\<rparr>)) \<and>
             \<not> throws (re_close (?env\<lparr>re_goto := Throws boom\<rparr>))"
    by (simp add: plain_env_fields)
  from A ok have "\<forall>d. listing_document ?env = Returns d \<longrightarrow>
         fetchLatestNotes ?env (Some (Fin 3)) =
           Resolved \<lparr>fr_success = True,
                     fr_notes = Some (xhs_loop (re_items ?env) 0
                                        (xhs_noteCards d (limit_or_default (Some (Fin 3)))) []),
                     fr_error = None\<rparr>"
    by blast
  then have r1: "fetchLatestNotes ?env (Some (Fin 3)) =
     Resolved \<lparr>fr_success = True, fr_notes = Some (xhs_loop second_fails 0 ?cs []),
               fr_error = None\<rparr>"
    by (simp add: plain_env_fields three_cards_enumerated)
  have closed: "\<forall>j < length ?cs. \<not> throws (ie_close (second_fails j))"
    by (simp add: second_fails_fields)
  from A closed have loop: "length (xhs_loop second_fails 0 ?cs []) = length ?cs \<and>
      (\<forall>j < length ?cs.
         (n_url (?cs ! j) = [] \<or> throws (ie_newPage (second_fails j)) \<or>
          throws (ie_setViewport (second_fails j)) \<or> throws (ie_evaluate (second_fails j)) \<longrightarrow>
            xhs_loop second_fails 0 ?cs [] ! j = ?cs ! j) \<and>
         (\<forall>d. n_url (?cs ! j) \<noteq> [] \<and> \<not> throws (ie_newPage (second_fails j)) \<and>
              \<not> throws (ie_setViewport (second_fails j)) \<and> ie_evaluate (second_fails j) = Returns d \<longrightarrow>
            xhs_loop second_fails 0 ?cs [] ! j = xhs_merge (?cs ! j) (extractNoteDetail d)))"
    by blast
  have len: "length ?cs = 3" by (simp add: three_cards_def)
  from loop len have r2: "length (xhs_loop second_fails 0 ?cs []) = 3" by simp
  have c1: "?cs ! 1 = xhs_card (linked_card (ascii ''/explore/a2''))"
    and c0: "?cs ! 0 = xhs_card (linked_card (ascii ''/explore/a1''))"
    by (simp_all add: three_cards_def)
  from loop len second_fails_fields(4) have r3: "xhs_loop second_fails 0 ?cs [] ! 1 = ?cs ! 1"
    by simp
  from loop len second_fails_fields three_cards_urls c0
  have r4: "xhs_loop second_fails 0 ?cs [] ! 0 = xhs_merge (?cs ! 0) (extractNoteDetail body_doc)"
    by simp
  from B okB have "\<forall>err. listing_document (?env\<lparr>re_goto := Throws boom\<rparr>) = Throws err \<longrightarrow>
         fetchLatestNotes (?env\<lparr>re_goto := Throws boom\<rparr>) (Some (Fin 3)) =
           Resolved \<lparr>fr_success = False, fr_notes = None, fr_error = Some (message err)\<rparr>"
    by blast
  then have r5: "fetchLatestNotes (?env\<lparr>re_goto := Throws boom\<rparr>) (Some (Fin 3)) =
     Resolved \<lparr>fr_success = False, fr_notes = None, fr_error = Some (ascii ''boom'')\<rparr>"
    by (simp add: plain_env_goto_throws boom_def)
  from C have r6: "fetchLatestNotes (?env\<lparr>re_launch := Throws boom\<rparr>) (Some (Fin 3)) = Rejected boom"
    by simp

  let ?wenv = "plain_env (listing_of wb_three_cards) second_fails"
  let ?ps = "map wb_card wb_three_cards"
  note WA = feed_walk_outcomes [where env = ?wenv and limit = "Some (Fin 3)" and ps = ?ps
                                 and items = second_fails, THEN conjunct2]
  note WB = feed_walk_outcomes [where env = "?wenv\<lparr>re_goto := Throws boom\<rparr>"
                                 and limit = "Some (Fin 3)", THEN conjunct2]
  note WC = feed_walk_outcomes [where env = "?wenv\<lparr>re_launch := Throws boom\<rparr>"
                                 and limit = "Some (Fin 3)" and e = boom, THEN conjunct2]
  have wok: "\<not> throws (re_launch ?wenv) \<and> \<not> throws (re_close ?wenv)"
    by (simp add: plain_env_fields)
  have wokB: "\<not> throws (re_launch (?wenv\<lparr>re_goto := Throws boom\<rparr>)) \<and>
             \<not> throws (re_close (?wenv\<lparr>re_goto := Throws boom\<rparr>))"
    by (simp add: plain_env_fields)
  from WA wok have "\<forall>d. listing_document ?wenv = Returns d \<longrightarrow>
         fetchLatestWeibo ?wenv (Some (Fin 3)) =
           Resolved \<lparr>wr_success = True,
                     wr_posts = Some (wb_loop (re_items ?wenv) 0
                                        (wb_weiboCards d (limit_or_default (Some (Fin 3)))) []),
                     wr_error = None\<rparr>"
    by blast
  then have w1: "fetchLatestWeibo ?wenv (Some (Fin 3)) =
     Resolved \<lparr>wr_success = True, wr_posts = Some (wb_loop second_fails 0 ?ps []),
               wr_error = None\<rparr>"
    by (simp add: plain_env_fields wb_three_cards_enumerated)
  have wclosed: "\<forall>j < length ?ps. \<not> throws (ie_close (second_fails j))"
    by (simp add: second_fails_fields)
  from WA wclosed have wloop: "length (wb_loop second_fails 0 ?ps []) = length ?ps \<and>
      (\<forall>j < length ?ps.
         (p_url (?ps ! j) = [] \<or> throws (ie_newPage (second_fails j)) \<or>
          throws (ie_setViewport (second_fails j)) \<or> throws (ie_evaluate (second_fails j)) \<longrightarrow>
            wb_loop second_fails 0 ?ps [] ! j = ?ps ! j) \<and>
         (\<forall>d. p_url (?ps ! j) \<noteq> [] \<and> \<not> throws (ie_newPage (second_fails j)) \<and>
              \<not> throws (ie_setViewport (second_fails j)) \<and> ie_evaluate (second_fails j) = Returns d \<longrightarrow>
            wb_loop second_fails 0 ?ps [] ! j = wb_merge (?ps ! j) (extractWeiboDetail d)))"
    by blast
  have wlen: "length ?ps = 3" by (simp add: wb_three_cards_def)
  from wloop wlen have w2: "length (wb_loop second_fails 0 ?ps []) = 3" by simp
  have wc1: "?ps ! 1 = wb_card (wb_linked_card (ascii ''/u/1/p2''))"
    and wc0: "?ps ! 0 = wb_card (wb_linked_card (ascii ''/u/1/p1''))"
    by (simp_all add: wb_three_cards_def)
  from wloop wlen second_fails_fields(4) have w3: "wb_loop second_fails 0 ?ps [] ! 1 = ?ps ! 1"
    by simp
  from wloop wlen second_fails_fields wb_three_cards_urls wc0
  have w4: "wb_loop second_fails 0 ?ps [] ! 0 = wb_merge (?ps ! 0) (extractWeiboDetail body_doc)"
    by simp
  from WB wokB have "\<forall>err. listing_document (?wenv\<lparr>re_goto := Throws boom\<rparr>) = Throws err \<longrightarrow>
         fetchLatestWeibo (?wenv\<lparr>re_goto := Throws boom\<rparr>) (Some (Fin 3)) =
           Resolved \<lparr>wr_success = False, wr_posts = None, wr_error = Some (message err)\<rparr>"
    by blast
  then have w5: "fetchLatestWeibo (?wenv\<lparr>re_goto := Throws boom\<rparr>) (Some (Fin 3)) =
     Resolved \<lparr>wr_success = False, wr_posts = None, wr_error = Some (ascii ''boom'')\<rparr>"
    by (simp add: plain_env_goto_throws boom_def)
  from WC have w6: "fetchLatestWeibo (?wenv\<lparr>re_launch := Throws boom\<rparr>) (Some (Fin 3)) = Rejected boom"
    by simp
  from r1 r2 second_fails_fields(4) r3 [unfolded c1] r4 [unfolded c0] r5 r6
       w1 w2 w3 [unfolded wc1] w4 [unfolded wc0] w5 w6
  show ?thesis by (intro conjI)
qed

text \<open>
  C3 as stated fails: a launch failure is not turned into a result but rejects the
  promise; a failure of the cookie setup gives \<^verbatim>\<open>{success: false}\<close> although launch and
  navigation succeeded; and after a failed detail navigation the extraction still runs,
  so the record can differ from the summary card.
\<close>

theorem feed_walk_counterexample:
  "fetchLatestNotes ((plain_env (listing_of three_cards) all_fine)\<lparr>re_launch := Throws boom\<rparr>) None
     = Rejected boom \<and>
   fetchLatestNotes ((plain_env (listing_of three_cards) all_fine)\<lparr>re_cookies := Throws boom\<rparr>) None
     = Resolved \<lparr>fr_success = False, fr_notes = None, fr_error = Some (message boom)\<rparr> \<and>
   throws (ie_goto (nav_fails 0)) \<and>
   fetchLatestNotes (plain_env (listing_of [linked_card (ascii ''/explore/a1'')]) nav_fails) None
     = Resolved \<lparr>fr_success = True,
                 fr_notes = Some [xhs_merge (xhs_card (linked_card (ascii ''/explore/a1'')))
                                            (extractNoteDetail body_doc)],
                 fr_error = None\<rparr> \<and>
   n_fullContent (xhs_merge (xhs_card (linked_card (ascii ''/explore/a1''))) (extractNoteDetail body_doc))
     = Some (ascii ''body'') \<and>
   n_fullContent (xhs_card (linked_card (ascii ''/explore/a1''))) = Some []"
proof -
  have a: "fetchLatestNotes ((plain_env (listing_of three_cards) all_fine)\<lparr>re_launch := Throws boom\<rparr>) None
     = Rejected boom"
    by (simp add: fetchLatestNotes_rejected)
  have b: "fetchLatestNotes ((plain_env (listing_of three_cards) all_fine)\<lparr>re_cookies := Throws boom\<rparr>) None
     = Resolved \<lparr>fr_success = False, fr_notes = None, fr_error = Some (message boom)\<rparr>"
    by (rule fetchLatestNotes_failure) (simp_all add: plain_env_fields plain_env_cookies_throws)
  have c: "throws (ie_goto (nav_fails 0))" by (simp add: nav_fails_def)
  have cards: "xhs_noteCards (listing_of [linked_card (ascii ''/explore/a1'')]) (limit_or_default None)
      = [xhs_card (linked_card (ascii ''/explore/a1''))]"
    by (simp add: xhs_noteCards_def listing_of_def limit_or_default_def slice0_def trunc_rat_def)
  have item: "xhs_item (nav_fails 0) (xhs_card (linked_card (ascii ''/explore/a1''))) []
      = [xhs_merge (xhs_card (linked_card (ascii ''/explore/a1''))) (extractNoteDetail body_doc)]"
    using three_cards_urls by (simp add: xhs_item_def nav_fails_def plain_item_def)
  have d: "fetchLatestNotes (plain_env (listing_of [linked_card (ascii ''/explore/a1'')]) nav_fails) None
     = Resolved \<lparr>fr_success = True,
                 fr_notes = Some [xhs_merge (xhs_card (linked_card (ascii ''/explore/a1'')))
                                            (extractNoteDetail body_doc)],
                 fr_error = None\<rparr>"
    by (subst fetchLatestNotes_success [where d = "listing_of [linked_card (ascii ''/explore/a1'')]"])
       (simp_all add: plain_env_fields cards xhs_loop_Cons item del: xhs_loop.simps(2))
  have e: "n_fullContent (xhs_merge (xhs_card (linked_card (ascii ''/explore/a1''))) (extractNoteDetail body_doc))
     = Some (ascii ''body'')"
    by (simp add: xhs_merge_fields extractNoteDetail_def body_doc_content)
  have f: "n_fullContent (xhs_card (linked_card (ascii ''/explore/a1''))) = Some []"
    by (rule xhs_card_initial)
  from a b c d e f show ?thesis by (intro conjI)
qed

section \<open>The feed walker: enumeration\<close>


lemma ceiling_minus_one_rat: "\<lceil>- 1 :: rat\<rceil> = - 1"
  using ceiling_of_int [of "- 1", where ?'a = rat] by simp










text \<open>
  The limit is passed to \<^verbatim>\<open>slice\<close> as it is: an end below 0 counts from the end of the
  array.
\<close>

lemma slice_negative_limit:
  "length (xhs_noteCards (listing_of five_cards) (Fin (- 1))) = 4 \<and>
   \<not> int (length (xhs_noteCards (listing_of five_cards) (Fin (- 1)))) \<le> - 1 \<and>
   length (wb_weiboCards (listing_of five_cards) (Fin (- 1))) = 4 \<and>
   \<not> int (length (wb_weiboCards (listing_of five_cards) (Fin (- 1)))) \<le> - 1"
  by (simp add: xhs_noteCards_def wb_weiboCards_def listing_of_def five_cards_def slice0_def
        trunc_rat_def ceiling_minus_one_rat)

section \<open>Substrings and the image filter\<close>

lemma startsWith_iff: "startsWith s p \<longleftrightarrow> (\<exists>b. s = p @ b)"
  by (induction s p rule: startsWith.induct) auto

lemma includes_str_iff: "includes_str s p \<longleftrightarrow> (\<exists>a b. s = a @ p @ b)"
proof (induction s)
  case Nil
  show ?case by auto
next
  case (Cons c s)
  show ?case
  proof
    assume "includes_str (c # s) p"
    then have "startsWith (c # s) p \<or> includes_str s p" by simp
    then show "\<exists>a b. c # s = a @ p @ b"
    proof
      assume "startsWith (c # s) p"
      then obtain b where "c # s = p @ b" using startsWith_iff by blast
      then have "c # s = [] @ p @ b" by simp
      then show ?thesis by blast
    next
      assume "includes_str s p"
      then obtain a b where "s = a @ p @ b" using Cons.IH by blast
      then have "c # s = (c # a) @ p @ b" by simp
      then show ?thesis by blast
    qed
  next
    assume "\<exists>a b. c # s = a @ p @ b"
    then obtain a b where ab: "c # s = a @ p @ b" by blast
    show "includes_str (c # s) p"
    proof (cases a)
      case Nil
      with ab have "startsWith (c # s) p" using startsWith_iff by auto
      then show ?thesis by simp
    next
      case (Cons x a')
      with ab have "s = a' @ p @ b" by simp
      then have "includes_str s p" using Cons.IH by blast
      then show ?thesis by simp
    qed
  qed
qed

lemma includes_str_split:
  assumes "c \<notin> set p" and "p \<noteq> []"
  shows "includes_str (a @ c # b) p \<longleftrightarrow> includes_str a p \<or> includes_str b p"
proof
  assume "includes_str (a @ c # b) p"
  then obtain x y where xy: "a @ c # b = x @ p @ y" using includes_str_iff by blast
  then consider us where "a = x @ us" "us @ c # b = p @ y"
    | us where "a @ us = x" "c # b = us @ p @ y"
    by (auto simp: append_eq_append_conv2)
  then show "includes_str a p \<or> includes_str b p"
  proof cases
    case 1
    from 1(2) consider vs where "us = p @ vs" | vs where "us @ vs = p" "c # b = vs @ y"
      by (auto simp: append_eq_append_conv2)
    then show ?thesis
    proof cases
      case 1
      with \<open>a = x @ us\<close> have "a = x @ p @ vs" by simp
      then show ?thesis using includes_str_iff by blast
    next
      case 2
      show ?thesis
      proof (cases vs)
        case Nil
        with 2 \<open>a = x @ us\<close> have "a = x @ p @ []" by simp
        then show ?thesis using includes_str_iff by blast
      next
        case (Cons v vs')
        with 2 have "c \<in> set p" by auto
        with assms show ?thesis by simp
      qed
    qed
  next
    case 2
    show ?thesis
    proof (cases us)
      case Nil
      with 2 assms have "c \<in> set p" by (cases p) auto
      with assms show ?thesis by simp
    next
      case (Cons u us')
      with 2 have "b = us' @ p @ y" by simp
      then show ?thesis using includes_str_iff by blast
    qed
  qed
next
  assume "includes_str a p \<or> includes_str b p"
  then show "includes_str (a @ c # b) p"
  proof
    assume "includes_str a p"
    then obtain x y where "a = x @ p @ y" using includes_str_iff by blast
    then have "a @ c # b = x @ p @ (y @ c # b)" by simp
    then show ?thesis using includes_str_iff by blast
  next
    assume "includes_str b p"
    then obtain x y where "b = x @ p @ y" using includes_str_iff by blast
    then have "a @ c # b = (a @ c # x) @ p @ y" by simp
    then show ?thesis using includes_str_iff by blast
  qed
qed

lemma replace_sized_decomp:
  "replace_sized (ch_slash # kw) s = s \<or>
   (\<exists>pre mid rest. s = pre @ ch_slash # mid @ ch_slash # rest \<and>
      replace_sized (ch_slash # kw) s = pre @ ch_slash # ascii ''large'' @ ch_slash # rest)"
proof (induction s)
  case Nil
  show ?case by simp
next
  case (Cons c s)
  let ?r = "drop (length (ch_slash # kw)) (c # s)"
  show ?case
  proof (cases "startsWith (c # s) (ch_slash # kw) \<and> takeWhile is_digit ?r \<noteq> []
                  \<and> startsWith (dropWhile is_digit ?r) [ch_slash]")
    case True
    then obtain b where b: "c # s = (ch_slash # kw) @ b" using startsWith_iff by blast
    then have r: "?r = b" by simp
    from True r obtain rest where rest: "dropWhile is_digit b = ch_slash # rest"
      using startsWith_iff [of "dropWhile is_digit b" "[ch_slash]"] by auto
    have "b = takeWhile is_digit b @ dropWhile is_digit b" by simp
    with rest have "b = takeWhile is_digit b @ ch_slash # rest" by simp
    with b have s: "c # s = [] @ ch_slash # (kw @ takeWhile is_digit b) @ ch_slash # rest" by simp
    have "replace_sized (ch_slash # kw) (c # s) = ascii ''/large/'' @ tl (dropWhile is_digit ?r)"
      using True by simp
    also have "\<dots> = [] @ ch_slash # ascii ''large'' @ ch_slash # rest"
      using r by (simp add: rest ascii_def ch_slash_def)
    finally show ?thesis using s by blast
  next
    case False
    then have step: "replace_sized (ch_slash # kw) (c # s) = c # replace_sized (ch_slash # kw) s"
      by auto
    from Cons.IH show ?thesis
    proof
      assume "replace_sized (ch_slash # kw) s = s"
      with step show ?thesis by simp
    next
      assume "\<exists>pre mid rest. s = pre @ ch_slash # mid @ ch_slash # rest \<and>
         replace_sized (ch_slash # kw) s = pre @ ch_slash # ascii ''large'' @ ch_slash # rest"
      then obtain pre mid rest where "s = pre @ ch_slash # mid @ ch_slash # rest"
        "replace_sized (ch_slash # kw) s = pre @ ch_slash # ascii ''large'' @ ch_slash # rest"
        by blast
      with step have "c # s = (c # pre) @ ch_slash # mid @ ch_slash # rest"
        "replace_sized (ch_slash # kw) (c # s) = (c # pre) @ ch_slash # ascii ''large'' @ ch_slash # rest"
        by simp_all
      then show ?thesis by blast
    qed
  qed
qed

lemma replace_sized_keeps_absent:
  assumes "ch_slash \<notin> set p" and "p \<noteq> []" and "\<not> includes_str (ascii ''large'') p"
    and "\<not> includes_str s p"
  shows "\<not> includes_str (replace_sized (ch_slash # kw) s) p"
proof -
  from replace_sized_decomp [of kw s] show ?thesis
  proof
    assume "replace_sized (ch_slash # kw) s = s"
    with assms show ?thesis by simp
  next
    assume "\<exists>pre mid rest. s = pre @ ch_slash # mid @ ch_slash # rest \<and>
      replace_sized (ch_slash # kw) s = pre @ ch_slash # ascii ''large'' @ ch_slash # rest"
    then obtain pre mid rest where s: "s = pre @ ch_slash # mid @ ch_slash # rest"
      and r: "replace_sized (ch_slash # kw) s = pre @ ch_slash # ascii ''large'' @ ch_slash # rest"
      by blast
    from assms(4) s have "\<not> includes_str pre p \<and> \<not> includes_str (mid @ ch_slash # rest) p"
      using includes_str_split [OF assms(1,2)] by simp
    then have "\<not> includes_str pre p \<and> \<not> includes_str rest p"
      using includes_str_split [OF assms(1,2)] by simp
    with assms(3) have "\<not> includes_str (pre @ ch_slash # ascii ''large'' @ ch_slash # rest) p"
      using includes_str_split [OF assms(1,2)] by simp
    with r show ?thesis by simp
  qed
qed

lemma originalSrc_keeps_absent:
  assumes "\<not> includes_str s (ascii ''avatar'')" and "\<not> includes_str s (ascii ''emoji'')"
  shows "\<not> includes_str (originalSrc s) (ascii ''avatar'') \<and>
         \<not> includes_str (originalSrc s) (ascii ''emoji'')"
proof -
  have kw: "ascii ''/thumb'' = ch_slash # ascii ''thumb''" "ascii ''/orj'' = ch_slash # ascii ''orj''"
    by (simp_all add: ascii_def ch_slash_def)
  have a: "ch_slash \<notin> set (ascii ''avatar'')" "ascii ''avatar'' \<noteq> []"
          "\<not> includes_str (ascii ''large'') (ascii ''avatar'')"
    by (simp_all add: ascii_def ch_slash_def)
  have e: "ch_slash \<notin> set (ascii ''emoji'')" "ascii ''emoji'' \<noteq> []"
          "\<not> includes_str (ascii ''large'') (ascii ''emoji'')"
    by (simp_all add: ascii_def ch_slash_def)
  show ?thesis
    unfolding originalSrc_def kw
    using replace_sized_keeps_absent [OF a] replace_sized_keeps_absent [OF e] assms by blast
qed


section \<open>Urls and images of the records\<close>

lemma xhs_absolute_http: "startsWith (xhs_absolute h) (ascii ''http'')"
  by (simp add: xhs_absolute_def ascii_def)

lemma wb_absolute_http: "startsWith (wb_absolute h) (ascii ''http'')"
  by (simp add: wb_absolute_def ascii_def)

lemma xhs_card_url_cases:
  "n_url (xhs_card el) = [] \<or>
   (\<exists>h. h \<noteq> [] \<and> n_url (xhs_card el) =
           (if startsWith h (ascii ''http'') then h else ascii ''https://www.xiaohongshu.com'' @ h))"
  by (auto simp: xhs_card_def Let_def xhs_absolute_def split: option.splits)

lemma wb_card_url_cases:
  "p_url (wb_card el) = [] \<or>
   (\<exists>h. h \<noteq> [] \<and> p_url (wb_card el) =
           (if startsWith h (ascii ''http'') then h else ascii ''https://weibo.com'' @ h))"
  by (auto simp: wb_card_def wb_cardUrl_def Let_def wb_absolute_def split: option.splits)

lemma xhs_card_url: "n_url (xhs_card el) = [] \<or> startsWith (n_url (xhs_card el)) (ascii ''http'')"
  using xhs_card_url_cases [of el] xhs_absolute_http by (auto simp: xhs_absolute_def)

lemma wb_card_url: "p_url (wb_card el) = [] \<or> startsWith (p_url (wb_card el)) (ascii ''http'')"
  using wb_card_url_cases [of el] wb_absolute_http by (auto simp: wb_absolute_def)

lemma wb_card_initial: "p_images (wb_card el) = Some []"
  by (simp add: wb_card_def Let_def)

lemma xhs_images_filtered:
  "u \<in> set (xhs_images d) \<Longrightarrow>
     \<not> includes_str u (ascii ''avatar'') \<and> \<not> includes_str u (ascii ''emoji'')"
  by (auto simp: xhs_images_def List.map_filter_def image_src_ok_def
           split: option.splits if_splits)

lemma wb_images_filtered:
  "u \<in> set (wb_images d) \<Longrightarrow>
     \<not> includes_str u (ascii ''avatar'') \<and> \<not> includes_str u (ascii ''emoji'')"
proof -
  assume "u \<in> set (wb_images d)"
  then obtain s where "u = originalSrc s" "\<not> includes_str s (ascii ''avatar'')"
      "\<not> includes_str s (ascii ''emoji'')"
    by (auto simp: wb_images_def List.map_filter_def image_src_ok_def
             split: option.splits if_splits)
  then show ?thesis using originalSrc_keeps_absent by simp
qed

lemma xhs_loop_records_ok:
  assumes "n \<in> set (xhs_loop items 0 (xhs_noteCards d l) [])"
  shows "note_ok n"
proof -
  from xhs_loop_members [OF assms] obtain c where c: "c \<in> set (xhs_noteCards d l)"
    and n: "n = c \<or> (\<exists>dd. n = xhs_merge c (extractNoteDetail dd))" by blast
  from c obtain el where el: "c = xhs_card el" by (auto simp: xhs_noteCards_def)
  from n show ?thesis
  proof
    assume "n = c"
    with el show ?thesis using xhs_card_url [of el] by (simp add: note_ok_def xhs_card_initial)
  next
    assume "\<exists>dd. n = xhs_merge c (extractNoteDetail dd)"
    then obtain dd where "n = xhs_merge c (extractNoteDetail dd)" by blast
    with el show ?thesis
      using xhs_card_url [of el] xhs_images_filtered [of _ dd]
      by (simp add: note_ok_def xhs_merge_fields extractNoteDetail_def)
  qed
qed

lemma wb_loop_records_ok:
  assumes "q \<in> set (wb_loop items 0 (wb_weiboCards d l) [])"
  shows "post_ok q"
proof -
  from wb_loop_members [OF assms] obtain c where c: "c \<in> set (wb_weiboCards d l)"
    and n: "q = c \<or> (\<exists>dd. q = wb_merge c (extractWeiboDetail dd))" by blast
  from c obtain el where el: "c = wb_card el" by (auto simp: wb_weiboCards_def)
  from n show ?thesis
  proof
    assume "q = c"
    with el show ?thesis using wb_card_url [of el] by (simp add: post_ok_def wb_card_initial)
  next
    assume "\<exists>dd. q = wb_merge c (extractWeiboDetail dd)"
    then obtain dd where "q = wb_merge c (extractWeiboDetail dd)" by blast
    with el show ?thesis
      using wb_card_url [of el] wb_images_filtered [of _ dd]
      by (simp add: post_ok_def wb_merge_fields extractWeiboDetail_def)
  qed
qed

lemma fetchLatestNotes_resolved_success:
  assumes "fetchLatestNotes env limit = Resolved r" and "fr_success r"
  shows "\<exists>d. fr_notes r = Some (xhs_loop (re_items env) 0 (xhs_noteCards d (limit_or_default limit)) [])"
  using assms
  by (cases "re_launch env"; cases "re_close env"; cases "listing_document env")
     (auto simp: fetchLatestNotes_def Let_def)

lemma fetchLatestWeibo_resolved_success:
  assumes "fetchLatestWeibo env limit = Resolved r" and "wr_success r"
  shows "\<exists>d. wr_posts r = Some (wb_loop (re_items env) 0 (wb_weiboCards d (limit_or_default limit)) [])"
  using assms
  by (cases "re_launch env"; cases "re_close env"; cases "listing_document env")
     (auto simp: fetchLatestWeibo_def Let_def)

lemma image_doc_images:
  "xhs_images image_doc = [ascii ''https://img.example/1.jpg'']"
  "wb_images image_doc = [ascii ''https://img.example/large/3.jpg'']"
  by (simp_all add: xhs_images_def xhs_imageElements_def wb_images_def wb_imageElements_def
        image_doc_def originalSrc_def dom_eval js_eval)

lemma imaged_fields:
  "ie_newPage (imaged j) = Returns ()" "ie_setViewport (imaged j) = Returns ()"
  "ie_evaluate (imaged j) = Returns image_doc" "ie_close (imaged j) = Returns ()"
  by (simp_all add: imaged_def plain_item_def)

lemma one_card_walk:
  "n_url (xhs_card el) \<noteq> [] \<Longrightarrow>
   fetchLatestNotes (plain_env (listing_of [el]) imaged) None =
     Resolved \<lparr>fr_success = True,
               fr_notes = Some [xhs_merge (xhs_card el) (extractNoteDetail image_doc)],
               fr_error = None\<rparr>"
  by (subst fetchLatestNotes_success [where d = "listing_of [el]"])
     (simp_all add: plain_env_fields xhs_noteCards_def listing_of_def limit_or_default_def
        slice0_def trunc_rat_def xhs_item_def imaged_fields)

lemma one_card_walk_wb:
  "p_url (wb_card el) \<noteq> [] \<Longrightarrow>
   fetchLatestWeibo (plain_env (listing_of [el]) imaged) None =
     Resolved \<lparr>wr_success = True,
               wr_posts = Some [wb_merge (wb_card el) (extractWeiboDetail image_doc)],
               wr_error = None\<rparr>"
  by (subst fetchLatestWeibo_success [where d = "listing_of [el]"])
     (simp_all add: plain_env_fields wb_weiboCards_def listing_of_def limit_or_default_def
        slice0_def trunc_rat_def wb_item_def imaged_fields)

lemmas cj1 = conjunct1
lemmas cj2 = conjunct2 [THEN cj1]
lemmas cj3 = conjunct2 [THEN cj2]
lemmas cj4 = conjunct2 [THEN cj3]
lemmas cj5 = conjunct2 [THEN cj4]
lemmas cj6 = conjunct2 [THEN cj5]
lemmas cj7 = conjunct2 [THEN cj6]
lemmas cj8 = conjunct2 [THEN cj7]
lemmas cj9 = conjunct2 [THEN cj8]
lemmas cj10 = conjunct2 [THEN cj9]
lemmas cj11 = conjunct2 [THEN cj10]
lemmas cj12 = conjunct2 [THEN conjunct2, THEN conjunct2, THEN conjunct2, THEN conjunct2,
                THEN conjunct2, THEN conjunct2, THEN conjunct2, THEN conjunct2, THEN conjunct2,
                THEN conjunct2]

lemma slice0_member: "x \<in> set (slice0 xs l) \<Longrightarrow> x \<in> set xs"
  by (cases l) (auto simp: slice0_def dest: in_set_takeD split: if_splits)

lemma fetchLatestNotes_resolved_listing:
  assumes "fetchLatestNotes env limit = Resolved r" and "fr_success r"
  shows "\<exists>d. listing_document env = Returns d \<and>
             fr_notes r = Some (xhs_loop (re_items env) 0 (xhs_noteCards d (limit_or_default limit)) [])"
  using assms
  by (cases "re_launch env"; cases "re_close env"; cases "listing_document env")
     (auto simp: fetchLatestNotes_def Let_def)

lemma fetchLatestWeibo_resolved_listing:
  assumes "fetchLatestWeibo env limit = Resolved r" and "wr_success r"
  shows "\<exists>d. listing_document env = Returns d \<and>
             wr_posts r = Some (wb_loop (re_items env) 0 (wb_weiboCards d (limit_or_default limit)) [])"
  using assms
  by (cases "re_launch env"; cases "re_close env"; cases "listing_document env")
     (auto simp: fetchLatestWeibo_def Let_def)

lemma xhs_loop_record_card:
  assumes "n \<in> set (xhs_loop items 0 (xhs_noteCards d l) [])"
  shows "\<exists>c. c \<in> set (d (ascii ''section.note-item'')) \<and> n_url n = n_url (xhs_card c)"
proof -
  from xhs_loop_members [OF assms] obtain c where c: "c \<in> set (xhs_noteCards d l)"
    and n: "n = c \<or> (\<exists>dd. n = xhs_merge c (extractNoteDetail dd))" by blast
  from c obtain el where el: "c = xhs_card el" "el \<in> set (d (ascii ''section.note-item''))"
    by (auto simp: xhs_noteCards_def dest: slice0_member)
  from n el(1) have "n_url n = n_url (xhs_card el)" by (auto simp: xhs_merge_fields)
  with el(2) show ?thesis by blast
qed

lemma wb_loop_record_card:
  assumes "q \<in> set (wb_loop items 0 (wb_weiboCards d l) [])"
  shows "\<exists>c. c \<in> set (d (ascii ''.Feed_item_2xmo1'')) \<and> p_url q = p_url (wb_card c)"
proof -
  from wb_loop_members [OF assms] obtain c where c: "c \<in> set (wb_weiboCards d l)"
    and n: "q = c \<or> (\<exists>dd. q = wb_merge c (extractWeiboDetail dd))" by blast
  from c obtain el where el: "c = wb_card el" "el \<in> set (d (ascii ''.Feed_item_2xmo1''))"
    by (auto simp: wb_weiboCards_def dest: slice0_member)
  from n el(1) have "p_url q = p_url (wb_card el)" by (auto simp: wb_merge_fields)
  with el(2) show ?thesis by blast
qed

lemma xhs_card_url_href:
  "(elem_or (querySelector el (ascii ''a.cover'')) (nth_opt (querySelectorAll el (ascii ''a'')) 1) = None
      \<longrightarrow> n_url (xhs_card el) = [])"
  "(elem_or (querySelector el (ascii ''a.cover'')) (nth_opt (querySelectorAll el (ascii ''a'')) 1) = Some lnk \<and>
    (getAttribute lnk (ascii ''href'') = None \<or> getAttribute lnk (ascii ''href'') = Some [])
      \<longrightarrow> n_url (xhs_card el) = [])"
  "(elem_or (querySelector el (ascii ''a.cover'')) (nth_opt (querySelectorAll el (ascii ''a'')) 1) = Some lnk \<and>
    getAttribute lnk (ascii ''href'') = Some h \<and> h \<noteq> [] \<and> startsWith h (ascii ''http'')
      \<longrightarrow> n_url (xhs_card el) = h)"
  "(elem_or (querySelector el (ascii ''a.cover'')) (nth_opt (querySelectorAll el (ascii ''a'')) 1) = Some lnk \<and>
    getAttribute lnk (ascii ''href'') = Some h \<and> h \<noteq> [] \<and> \<not> startsWith h (ascii ''http'')
      \<longrightarrow> n_url (xhs_card el) = ascii ''https://www.xiaohongshu.com'' @ h)"
  by (auto simp: xhs_card_def Let_def xhs_absolute_def)

lemma wb_card_url_href:
  "(querySelector el (ascii ''.head_name_24eEB'') = None \<or>
    (\<exists>nm. querySelector el (ascii ''.head_name_24eEB'') = Some nm \<and> parentElement nm = None)
      \<longrightarrow> p_url (wb_card el) = [])"
  "(querySelector el (ascii ''.head_name_24eEB'') = Some nm \<and> parentElement nm = Some par \<and>
    (getAttribute par (ascii ''href'') = None \<or> getAttribute par (ascii ''href'') = Some [])
      \<longrightarrow> p_url (wb_card el) = [])"
  "(querySelector el (ascii ''.head_name_24eEB'') = Some nm \<and> parentElement nm = Some par \<and>
    getAttribute par (ascii ''href'') = Some h \<and> h \<noteq> [] \<and> startsWith h (ascii ''http'')
      \<longrightarrow> p_url (wb_card el) = h)"
  "(querySelector el (ascii ''.head_name_24eEB'') = Some nm \<and> parentElement nm = Some par \<and>
    getAttribute par (ascii ''href'') = Some h \<and> h \<noteq> [] \<and> \<not> startsWith h (ascii ''http'')
      \<longrightarrow> p_url (wb_card el) = ascii ''https://weibo.com'' @ h)"
  by (auto simp: wb_card_def wb_cardUrl_def Let_def wb_absolute_def)

lemma linked_card_link:
  "elem_or (querySelector (linked_card h) (ascii ''a.cover''))
           (nth_opt (querySelectorAll (linked_card h) (ascii ''a'')) 1) =
     Some (leaf_el None (attr1 (ascii ''href'') h))"
  by (simp add: linked_card_def parent_el_def querySelector_def first_of_def elem_or_def)

lemma bare_card_link:
  "elem_or (querySelector bare_card (ascii ''a.cover''))
           (nth_opt (querySelectorAll bare_card (ascii ''a'')) 1) = None"
  "querySelector bare_card (ascii ''.head_name_24eEB'') = None"
  by (simp_all add: bare_card_def parent_el_def querySelector_def first_of_def elem_or_def nth_opt_def)

lemma leaf_el_href:
  "getAttribute (leaf_el None (attr1 (ascii ''href'') h)) (ascii ''href'') = Some h"
  by (simp add: leaf_el_def attr1_def)

lemma wb_linked_card_link:
  "querySelector (wb_linked_card h) (ascii ''.head_name_24eEB'') =
     Some (Element (Some (ascii ''name'')) no_attr [] (\<lambda>s. []) (\<lambda>s. None)
             (Some (leaf_el None (attr1 (ascii ''href'') h))))"
  by (simp add: wb_linked_card_def parent_el_def querySelector_def first_of_def)

text \<open>
  C9 (as the code has it). Every record of a successful walk, on either site, has the url
  of one of the cards of the listing page, and that url is empty or begins with
  \<^verbatim>\<open>http\<close>; its image list contains no url with the substring \<^verbatim>\<open>avatar\<close> or
  \<^verbatim>\<open>emoji\<close>. The url of a card is read from the href of its link (on Xiaohongshu the
  element \<^verbatim>\<open>a.cover\<close>, or else the second \<^verbatim>\<open>a\<close> of the card; on Weibo the parent
  of the element \<^verbatim>\<open>.head_name_24eEB\<close>): it is empty when there is no such link, or
  the link has no href or an empty one; it is the href when the href begins with
  \<^verbatim>\<open>http\<close>; otherwise it is the href prefixed with the origin of the site.
\<close>

theorem walk_records_url_and_images:
  "(fetchLatestNotes env limit = Resolved r \<and> fr_success r \<and> fr_notes r = Some ns \<and>
    n \<in> set ns \<longrightarrow>
      (n_url n = [] \<or> startsWith (n_url n) (ascii ''http'')) \<and>
      (\<exists>imgs. n_images n = Some imgs \<and>
         (\<forall>u \<in> set imgs. \<not> includes_str u (ascii ''avatar'') \<and>
                          \<not> includes_str u (ascii ''emoji''))) \<and>
      (\<exists>d c. listing_document env = Returns d \<and> c \<in> set (d (ascii ''section.note-item'')) \<and>
             n_url n = n_url (xhs_card c))) \<and>
   (fetchLatestWeibo env limit = Resolved w \<and> wr_success w \<and> wr_posts w = Some qs \<and>
    q \<in> set qs \<longrightarrow>
      (p_url q = [] \<or> startsWith (p_url q) (ascii ''http'')) \<and>
      (\<exists>imgs. p_images q = Some imgs \<and>
         (\<forall>u \<in> set imgs. \<not> includes_str u (ascii ''avatar'') \<and>
                          \<not> includes_str u (ascii ''emoji''))) \<and>
      (\<exists>d c. listing_document env = Returns d \<and> c \<in> set (d (ascii ''.Feed_item_2xmo1'')) \<and>
             p_url q = p_url (wb_card c))) \<and>
   (n_url (xhs_card el) = [] \<or>
    (\<exists>h. h \<noteq> [] \<and> n_url (xhs_card el) =
            (if startsWith h (ascii ''http'') then h else ascii ''https://www.xiaohongshu.com'' @ h))) \<and>
   (p_url (wb_card el) = [] \<or>
    (\<exists>h. h \<noteq> [] \<and> p_url (wb_card el) =
            (if startsWith h (ascii ''http'') then h else ascii ''https://weibo.com'' @ h))) \<and>
   (elem_or (querySelector el (ascii ''a.cover'')) (nth_opt (querySelectorAll el (ascii ''a'')) 1) = None
      \<longrightarrow> n_url (xhs_card el) = []) \<and>
   (elem_or (querySelector el (ascii ''a.cover'')) (nth_opt (querySelectorAll el (ascii ''a'')) 1) = Some lnk \<and>
    (getAttribute lnk (ascii ''href'') = None \<or> getAttribute lnk (ascii ''href'') = Some [])
      \<longrightarrow> n_url (xhs_card el) = []) \<and>
   (elem_or (querySelector el (ascii ''a.cover'')) (nth_opt (querySelectorAll el (ascii ''a'')) 1) = Some lnk \<and>
    getAttribute lnk (ascii ''href'') = Some h \<and> h \<noteq> [] \<and> startsWith h (ascii ''http'')
      \<longrightarrow> n_url (xhs_card el) = h) \<and>
   (elem_or (querySelector el (ascii ''a.cover'')) (nth_opt (querySelectorAll el (ascii ''a'')) 1) = Some lnk \<and>
    getAttribute lnk (ascii ''href'') = Some h \<and> h \<noteq> [] \<and> \<not> startsWith h (ascii ''http'')
      \<longrightarrow> n_url (xhs_card el) = ascii ''https://www.xiaohongshu.com'' @ h) \<and>
   (querySelector el (ascii ''.head_name_24eEB'') = None \<or>
    (\<exists>nm. querySelector el (ascii ''.head_name_24eEB'') = Some nm \<and> parentElement nm = None)
      \<longrightarrow> p_url (wb_card el) = []) \<and>
   (querySelector el (ascii ''.head_name_24eEB'') = Some nm \<and> parentElement nm = Some par \<and>
    (getAttribute par (ascii ''href'') = None \<or> getAttribute par (ascii ''href'') = Some [])
      \<longrightarrow> p_url (wb_card el) = []) \<and>
   (querySelector el (ascii ''.head_name_24eEB'') = Some nm \<and> parentElement nm = Some par \<and>
    getAttribute par (ascii ''href'') = Some h \<and> h \<noteq> [] \<and> startsWith h (ascii ''http'')
      \<longrightarrow> p_url (wb_card el) = h) \<and>
   (querySelector el (ascii ''.head_name_24eEB'') = Some nm \<and> parentElement nm = Some par \<and>
    getAttribute par (ascii ''href'') = Some h \<and> h \<noteq> [] \<and> \<not> startsWith h (ascii ''http'')
      \<longrightarrow> p_url (wb_card el) = ascii ''https://weibo.com'' @ h)"
proof -
  have c1: "(fetchLatestNotes env limit = Resolved r \<and> fr_success r \<and> fr_notes r = Some ns \<and>
    n \<in> set ns \<longrightarrow>
      (n_url n = [] \<or> startsWith (n_url n) (ascii ''http'')) \<and>
      (\<exists>imgs. n_images n = Some imgs \<and>
         (\<forall>u \<in> set imgs. \<not> includes_str u (ascii ''avatar'') \<and>
                          \<not> includes_str u (ascii ''emoji''))) \<and>
      (\<exists>d c. listing_document env = Returns d \<and> c \<in> set (d (ascii ''section.note-item'')) \<and>
             n_url n = n_url (xhs_card c)))"
  proof (intro impI)
    assume h: "fetchLatestNotes env limit = Resolved r \<and> fr_success r \<and> fr_notes r = Some ns \<and>
      n \<in> set ns"
    with fetchLatestNotes_resolved_listing [of env limit r] obtain d
      where d: "listing_document env = Returns d"
        and ns: "ns = xhs_loop (re_items env) 0 (xhs_noteCards d (limit_or_default limit)) []"
      by auto
    from ns h have mem: "n \<in> set (xhs_loop (re_items env) 0 (xhs_noteCards d (limit_or_default limit)) [])"
      by simp
    from mem have ok: "note_ok n" by (rule xhs_loop_records_ok)
    from xhs_loop_record_card [OF mem] d
    have tie: "\<exists>d c. listing_document env = Returns d \<and> c \<in> set (d (ascii ''section.note-item'')) \<and>
             n_url n = n_url (xhs_card c)"
      by blast
    from ok have u: "n_url n = [] \<or> startsWith (n_url n) (ascii ''http'')"
      by (simp add: note_ok_def)
    from ok have i: "\<exists>imgs. n_images n = Some imgs \<and>
         (\<forall>u \<in> set imgs. \<not> includes_str u (ascii ''avatar'') \<and>
                          \<not> includes_str u (ascii ''emoji''))"
      by (simp add: note_ok_def)
    from u i tie show "(n_url n = [] \<or> startsWith (n_url n) (ascii ''http'')) \<and>
      (\<exists>imgs. n_images n = Some imgs \<and>
         (\<forall>u \<in> set imgs. \<not> includes_str u (ascii ''avatar'') \<and>
                          \<not> includes_str u (ascii ''emoji''))) \<and>
      (\<exists>d c. listing_document env = Returns d \<and> c \<in> set (d (ascii ''section.note-item'')) \<and>
             n_url n = n_url (xhs_card c))"
      by (intro conjI)
  qed
  have c2: "(fetchLatestWeibo env limit = Resolved w \<and> wr_success w \<and> wr_posts w = Some qs \<and>
    q \<in> set qs \<longrightarrow>
      (p_url q = [] \<or> startsWith (p_url q) (ascii ''http'')) \<and>
      (\<exists>imgs. p_images q = Some imgs \<and>
         (\<forall>u \<in> set imgs. \<not> includes_str u (ascii ''avatar'') \<and>
                          \<not> includes_str u (ascii ''emoji''))) \<and>
      (\<exists>d c. listing_document env = Returns d \<and> c \<in> set (d (ascii ''.Feed_item_2xmo1'')) \<and>
             p_url q = p_url (wb_card c)))"
  proof (intro impI)
    assume h: "fetchLatestWeibo env limit = Resolved w \<and> wr_success w \<and> wr_posts w = Some qs \<and>
      q \<in> set qs"
    with fetchLatestWeibo_resolved_listing [of env limit w] obtain d
      where d: "listing_document env = Returns d"
        and qs: "qs = wb_loop (re_items env) 0 (wb_weiboCards d (limit_or_default limit)) []"
      by auto
    from qs h have mem: "q \<in> set (wb_loop (re_items env) 0 (wb_weiboCards d (limit_or_default limit)) [])"
      by simp
    from mem have ok: "post_ok q" by (rule wb_loop_records_ok)
    from wb_loop_record_card [OF mem] d
    have tie: "\<exists>d c. listing_document env = Returns d \<and> c \<in> set (d (ascii ''.Feed_item_2xmo1'')) \<and>
             p_url q = p_url (wb_card c)"
      by blast
    from ok have u: "p_url q = [] \<or> startsWith (p_url q) (ascii ''http'')"
      by (simp add: post_ok_def)
    from ok have i: "\<exists>imgs. p_images q = Some imgs \<and>
         (\<forall>u \<in> set imgs. \<not> includes_str u (ascii ''avatar'') \<and>
                          \<not> includes_str u (ascii ''emoji''))"
      by (simp add: post_ok_def)
    from u i tie show "(p_url q = [] \<or> startsWith (p_url q) (ascii ''http'')) \<and>
      (\<exists>imgs. p_images q = Some imgs \<and>
         (\<forall>u \<in> set imgs. \<not> includes_str u (ascii ''avatar'') \<and>
                          \<not> includes_str u (ascii ''emoji''))) \<and>
      (\<exists>d c. listing_document env = Returns d \<and> c \<in> set (d (ascii ''.Feed_item_2xmo1'')) \<and>
             p_url q = p_url (wb_card c))"
      by (intro conjI)
  qed
  from c1 c2 xhs_card_url_cases [of el] wb_card_url_cases [of el]
    xhs_card_url_href(1) [of el] xhs_card_url_href(2) [of el lnk] xhs_card_url_href(3) [of el lnk h]
    xhs_card_url_href(4) [of el lnk h]
    wb_card_url_href(1) [of el] wb_card_url_href(2) [of el nm par] wb_card_url_href(3) [of el nm par h]
    wb_card_url_href(4) [of el nm par h]
  show ?thesis by (intro conjI)
qed

theorem walk_records_url_and_images_witness:
  "fetchLatestNotes (plain_env (listing_of [linked_card (ascii ''/explore/a1'')]) imaged) None =
     Resolved \<lparr>fr_success = True,
               fr_notes = Some [xhs_merge (xhs_card (linked_card (ascii ''/explore/a1'')))
                                          (extractNoteDetail image_doc)],
               fr_error = None\<rparr> \<and>
   n_url (xhs_merge (xhs_card (linked_card (ascii ''/explore/a1''))) (extractNoteDetail image_doc))
     = ascii ''https://www.xiaohongshu.com/explore/a1'' \<and>
   startsWith (n_url (xhs_merge (xhs_card (linked_card (ascii ''/explore/a1'')))
                                (extractNoteDetail image_doc))) (ascii ''http'') \<and>
   n_images (xhs_merge (xhs_card (linked_card (ascii ''/explore/a1''))) (extractNoteDetail image_doc))
     = Some [ascii ''https://img.example/1.jpg''] \<and>
   \<not> includes_str (ascii ''https://img.example/1.jpg'') (ascii ''avatar'') \<and>
   fetchLatestWeibo (plain_env (listing_of [wb_linked_card (ascii ''/u/1/p1'')]) imaged) None =
     Resolved \<lparr>wr_success = True,
               wr_posts = Some [wb_merge (wb_card (wb_linked_card (ascii ''/u/1/p1'')))
                                         (extractWeiboDetail image_doc)],
               wr_error = None\<rparr> \<and>
   startsWith (p_url (wb_merge (wb_card (wb_linked_card (ascii ''/u/1/p1'')))
                               (extractWeiboDetail image_doc))) (ascii ''http'') \<and>
   p_images (wb_merge (wb_card (wb_linked_card (ascii ''/u/1/p1''))) (extractWeiboDetail image_doc))
     = Some [ascii ''https://img.example/large/3.jpg''] \<and>
   \<not> includes_str (ascii ''https://img.example/large/3.jpg'') (ascii ''emoji'') \<and>
   n_url (xhs_merge (xhs_card (linked_card (ascii ''/explore/a1''))) (extractNoteDetail image_doc))
     = n_url (xhs_card (linked_card (ascii ''/explore/a1''))) \<and>
   p_url (wb_merge (wb_card (wb_linked_card (ascii ''/u/1/p1''))) (extractWeiboDetail image_doc))
     = p_url (wb_card (wb_linked_card (ascii ''/u/1/p1''))) \<and>
   n_url (xhs_card bare_card) = [] \<and>
   getAttribute (leaf_el None (attr1 (ascii ''href'') [])) (ascii ''href'') = Some [] \<and>
   n_url (xhs_card (linked_card [])) = [] \<and>
   startsWith (ascii ''https://www.xiaohongshu.com/explore/a9'') (ascii ''http'') \<and>
   n_url (xhs_card (linked_card (ascii ''https://www.xiaohongshu.com/explore/a9'')))
     = ascii ''https://www.xiaohongshu.com/explore/a9'' \<and>
   \<not> startsWith (ascii ''/explore/a1'') (ascii ''http'') \<and>
   n_url (xhs_card (linked_card (ascii ''/explore/a1'')))
     = ascii ''https://www.xiaohongshu.com'' @ ascii ''/explore/a1'' \<and>
   p_url (wb_card bare_card) = [] \<and>
   p_url (wb_card (wb_linked_card [])) = [] \<and>
   p_url (wb_card (wb_linked_card (ascii ''https://weibo.com/u/1/p9'')))
     = ascii ''https://weibo.com/u/1/p9'' \<and>
   p_url (wb_card (wb_linked_card (ascii ''/u/1/p1''))) = ascii ''https://weibo.com'' @ ascii ''/u/1/p1''"
proof -
  let ?m = "xhs_merge (xhs_card (linked_card (ascii ''/explore/a1''))) (extractNoteDetail image_doc)"
  let ?q = "wb_merge (wb_card (wb_linked_card (ascii ''/u/1/p1''))) (extractWeiboDetail image_doc)"
  let ?dx = "listing_of [linked_card (ascii ''/explore/a1'')]"
  let ?dw = "listing_of [wb_linked_card (ascii ''/u/1/p1'')]"
  let ?envx = "plain_env ?dx imaged"
  let ?envw = "plain_env ?dw imaged"
  let ?r = "\<lparr>fr_success = True, fr_notes = Some [?m], fr_error = None\<rparr>"
  let ?w = "\<lparr>wr_success = True, wr_posts = Some [?q], wr_error = None\<rparr>"
  let ?nm = "\<lambda>h. Element (Some (ascii ''name'')) no_attr [] (\<lambda>s. []) (\<lambda>s. None)
                   (Some (leaf_el None (attr1 (ascii ''href'') h)))"
  let ?lf = "\<lambda>h. leaf_el None (attr1 (ascii ''href'') h)"
  have ux: "n_url (xhs_card (linked_card (ascii ''/explore/a1'')))
              = ascii ''https://www.xiaohongshu.com/explore/a1''"
    by (simp add: linked_card_url xhs_absolute_def ascii_def)
  have uw: "p_url (wb_card (wb_linked_card (ascii ''/u/1/p1''))) = ascii ''https://weibo.com/u/1/p1''"
    by (simp add: wb_linked_card_url wb_absolute_def ascii_def)
  have nex: "n_url (xhs_card (linked_card (ascii ''/explore/a1''))) \<noteq> []"
    unfolding ux by (simp add: ascii_def)
  have new: "p_url (wb_card (wb_linked_card (ascii ''/u/1/p1''))) \<noteq> []"
    unfolding uw by (simp add: ascii_def)
  have runx: "fetchLatestNotes ?envx None = Resolved ?r"
    using nex by (rule one_card_walk)
  have runw: "fetchLatestWeibo ?envw None = Resolved ?w"
    using new by (rule one_card_walk_wb)
  have mu: "n_url ?m = ascii ''https://www.xiaohongshu.com/explore/a1''"
    by (simp add: xhs_merge_fields ux)
  have mi: "n_images ?m = Some [ascii ''https://img.example/1.jpg'']"
    by (simp add: xhs_merge_fields extractNoteDetail_def image_doc_images)
  have qi: "p_images ?q = Some [ascii ''https://img.example/large/3.jpg'']"
    by (simp add: wb_merge_fields extractWeiboDetail_def image_doc_images)
  have qu: "p_url ?q \<noteq> []" using new by (simp add: wb_merge_fields)
  have hx: "fetchLatestNotes ?envx None = Resolved ?r \<and> fr_success ?r \<and> fr_notes ?r = Some [?m] \<and>
            ?m \<in> set [?m]"
    using runx by simp
  have hw: "fetchLatestWeibo ?envw None = Resolved ?w \<and> wr_success ?w \<and> wr_posts ?w = Some [?q] \<and>
            ?q \<in> set [?q]"
    using runw by simp
  note X = walk_records_url_and_images [where env = ?envx and limit = None and r = ?r
             and ns = "[?m]" and n = ?m]
  note W = walk_records_url_and_images [where env = ?envw and limit = None and w = ?w
             and qs = "[?q]" and q = ?q]
  from X [THEN cj1] hx have cx: "(n_url ?m = [] \<or> startsWith (n_url ?m) (ascii ''http'')) \<and>
      (\<exists>imgs. n_images ?m = Some imgs \<and>
         (\<forall>u \<in> set imgs. \<not> includes_str u (ascii ''avatar'') \<and>
                          \<not> includes_str u (ascii ''emoji''))) \<and>
      (\<exists>d c. listing_document ?envx = Returns d \<and> c \<in> set (d (ascii ''section.note-item'')) \<and>
             n_url ?m = n_url (xhs_card c))"
    by (rule mp)
  from W [THEN cj2] hw have cw: "(p_url ?q = [] \<or> startsWith (p_url ?q) (ascii ''http'')) \<and>
      (\<exists>imgs. p_images ?q = Some imgs \<and>
         (\<forall>u \<in> set imgs. \<not> includes_str u (ascii ''avatar'') \<and>
                          \<not> includes_str u (ascii ''emoji''))) \<and>
      (\<exists>d c. listing_document ?envw = Returns d \<and> c \<in> set (d (ascii ''.Feed_item_2xmo1'')) \<and>
             p_url ?q = p_url (wb_card c))"
    by (rule mp)
  have mne: "n_url ?m \<noteq> []" using nex by (simp add: xhs_merge_fields)
  from cx [THEN cj1] mne have sx: "startsWith (n_url ?m) (ascii ''http'')" by blast
  from cw [THEN cj1] qu have sw: "startsWith (p_url ?q) (ascii ''http'')" by blast
  from cx [THEN cj2] mi have ix: "\<not> includes_str (ascii ''https://img.example/1.jpg'') (ascii ''avatar'')"
    by auto
  from cw [THEN cj2] qi have iw: "\<not> includes_str (ascii ''https://img.example/large/3.jpg'') (ascii ''emoji'')"
    by auto
  from cx [THEN conjunct2, THEN conjunct2] obtain d c
    where "listing_document ?envx = Returns d" "c \<in> set (d (ascii ''section.note-item''))"
      "n_url ?m = n_url (xhs_card c)" by blast
  then have tx: "n_url ?m = n_url (xhs_card (linked_card (ascii ''/explore/a1'')))"
    by (auto simp: plain_env_fields listing_of_def)
  from cw [THEN conjunct2, THEN conjunct2] obtain d c
    where "listing_document ?envw = Returns d" "c \<in> set (d (ascii ''.Feed_item_2xmo1''))"
      "p_url ?q = p_url (wb_card c)" by blast
  then have tw: "p_url ?q = p_url (wb_card (wb_linked_card (ascii ''/u/1/p1'')))"
    by (auto simp: plain_env_fields listing_of_def)
  from walk_records_url_and_images [where el = bare_card, THEN cj5] bare_card_link(1)
  have x5: "n_url (xhs_card bare_card) = []" by (rule mp)
  have g6: "getAttribute (?lf []) (ascii ''href'') = Some []" by (rule leaf_el_href)
  from walk_records_url_and_images [where el = "linked_card []" and lnk = "?lf []", THEN cj6]
    linked_card_link [of "[]"] g6
  have x6: "n_url (xhs_card (linked_card [])) = []" by blast
  have s7: "startsWith (ascii ''https://www.xiaohongshu.com/explore/a9'') (ascii ''http'')"
    by (simp add: ascii_def)
  have n7: "ascii ''https://www.xiaohongshu.com/explore/a9'' \<noteq> []" by (simp add: ascii_def)
  from walk_records_url_and_images [where el = "linked_card (ascii ''https://www.xiaohongshu.com/explore/a9'')"
      and lnk = "?lf (ascii ''https://www.xiaohongshu.com/explore/a9'')"
      and h = "ascii ''https://www.xiaohongshu.com/explore/a9''", THEN cj7]
    linked_card_link [of "ascii ''https://www.xiaohongshu.com/explore/a9''"]
    leaf_el_href [of "ascii ''https://www.xiaohongshu.com/explore/a9''"] s7 n7
  have x7: "n_url (xhs_card (linked_card (ascii ''https://www.xiaohongshu.com/explore/a9'')))
     = ascii ''https://www.xiaohongshu.com/explore/a9''" by blast
  have s8: "\<not> startsWith (ascii ''/explore/a1'') (ascii ''http'')" by (simp add: ascii_def)
  have n8: "ascii ''/explore/a1'' \<noteq> []" by (simp add: ascii_def)
  from walk_records_url_and_images [where el = "linked_card (ascii ''/explore/a1'')"
      and lnk = "?lf (ascii ''/explore/a1'')" and h = "ascii ''/explore/a1''", THEN cj8]
    linked_card_link [of "ascii ''/explore/a1''"] leaf_el_href [of "ascii ''/explore/a1''"] s8 n8
  have x8: "n_url (xhs_card (linked_card (ascii ''/explore/a1'')))
     = ascii ''https://www.xiaohongshu.com'' @ ascii ''/explore/a1''" by blast
  from walk_records_url_and_images [where el = bare_card, THEN cj9] bare_card_link(2)
  have w9: "p_url (wb_card bare_card) = []" by blast
  have pe: "parentElement (?nm h) = Some (?lf h)" for h by simp
  from walk_records_url_and_images [where el = "wb_linked_card []" and nm = "?nm []"
      and par = "?lf []", THEN cj10]
    wb_linked_card_link [of "[]"] pe [of "[]"] g6
  have w10: "p_url (wb_card (wb_linked_card [])) = []" by blast
  have s11: "startsWith (ascii ''https://weibo.com/u/1/p9'') (ascii ''http'')" by (simp add: ascii_def)
  have n11: "ascii ''https://weibo.com/u/1/p9'' \<noteq> []" by (simp add: ascii_def)
  from walk_records_url_and_images [where el = "wb_linked_card (ascii ''https://weibo.com/u/1/p9'')"
      and nm = "?nm (ascii ''https://weibo.com/u/1/p9'')"
      and par = "?lf (ascii ''https://weibo.com/u/1/p9'')"
      and h = "ascii ''https://weibo.com/u/1/p9''", THEN cj11]
    wb_linked_card_link [of "ascii ''https://weibo.com/u/1/p9''"]
    pe [of "ascii ''https://weibo.com/u/1/p9''"]
    leaf_el_href [of "ascii ''https://weibo.com/u/1/p9''"] s11 n11
  have w11: "p_url (wb_card (wb_linked_card (ascii ''https://weibo.com/u/1/p9'')))
     = ascii ''https://weibo.com/u/1/p9''" by blast
  have s12: "\<not> startsWith (ascii ''/u/1/p1'') (ascii ''http'')" by (simp add: ascii_def)
  have n12: "ascii ''/u/1/p1'' \<noteq> []" by (simp add: ascii_def)
  from walk_records_url_and_images [where el = "wb_linked_card (ascii ''/u/1/p1'')"
      and nm = "?nm (ascii ''/u/1/p1'')" and par = "?lf (ascii ''/u/1/p1'')"
      and h = "ascii ''/u/1/p1''", THEN cj12]
    wb_linked_card_link [of "ascii ''/u/1/p1''"] pe [of "ascii ''/u/1/p1''"]
    leaf_el_href [of "ascii ''/u/1/p1''"] s12 n12
  have w12: "p_url (wb_card (wb_linked_card (ascii ''/u/1/p1''))) = ascii ''https://weibo.com'' @ ascii ''/u/1/p1''"
    by blast
  from runx mu sx mi ix runw sw qi iw tx tw x5 g6 x6 s7 x7 s8 x8 w9 w10 w11 w12
  show ?thesis by (intro conjI)
qed

text \<open>
  C9 as stated fails: a card without a link gives a record with the empty url, which the
  loop keeps as it is, in a successful result.
\<close>

theorem walk_record_without_url:
  "fetchLatestNotes (plain_env (listing_of [bare_card]) all_fine) None =
     Resolved \<lparr>fr_success = True, fr_notes = Some [xhs_card bare_card], fr_error = None\<rparr> \<and>
   n_url (xhs_card bare_card) = [] \<and>
   \<not> startsWith (n_url (xhs_card bare_card)) (ascii ''http'')"
proof -
  have run: "fetchLatestNotes (plain_env (listing_of [bare_card]) all_fine) None =
     Resolved \<lparr>fr_success = True, fr_notes = Some [xhs_card bare_card], fr_error = None\<rparr>"
    by (subst fetchLatestNotes_success [where d = "listing_of [bare_card]"])
       (simp_all add: plain_env_fields xhs_noteCards_def listing_of_def limit_or_default_def
          slice0_def trunc_rat_def xhs_item_def bare_card_url)
  have no: "\<not> startsWith (n_url (xhs_card bare_card)) (ascii ''http'')"
    by (simp add: bare_card_url ascii_def)
  from run bare_card_url no show ?thesis by (intro conjI)
qed

end
